theory Spec2Isabelle
  imports Main "HOL-Library.Sublist"
begin

section \<open>Wallet session controller of the wallet-test pages\<close>

text \<open>
  The repository holds three revisions of one React page. They are referred to as
  \<^item> page A: \<^verbatim>\<open>src/pages/index.js\<close>;
  \<^item> page B: the first page of \<^verbatim>\<open>src/unnamed/part_000\<close> (lines 1 to 451), which adds
    the Trust Wallet branches;
  \<^item> page C: the second page of \<^verbatim>\<open>src/unnamed/part_000\<close> (lines 452 to 955), which adds
    the Coinbase SDK and the 5 second timer of the chain switch.
  A definition without a suffix embeds code that is the same on all three pages; a
  suffix \<open>_A\<close>, \<open>_AB\<close> or \<open>_C\<close> names the pages whose code the definition embeds.
\<close>

subsection \<open>JavaScript values\<close>

text \<open>
  A JavaScript Number that holds a chain id: \<open>NaN\<close>, an infinity, or a double of integer
  value, \<open>Num n\<close>. Negative zero is \<open>Num 0\<close>: \<^verbatim>\<open>===\<close> and \<^verbatim>\<open>toString\<close> do not tell it from zero.
  Numbers with a fraction are not values of this type. Not every integer is a double;
  the numbers that the pages compute are made by \<open>to_number\<close> below, which rounds.
\<close>

datatype jsnumber = NaN | Num int | Infinity | NegInfinity

text \<open>
  A JavaScript string is a sequence of UTF-16 code units. The strings whose characters
  the pages inspect, the chain ids, are lists of code units; \<open>units\<close> gives the code units
  of a text of ASCII characters.
\<close>

definition units :: "string \<Rightarrow> nat list" where
  "units s = map of_char s"

datatype jsval = JString "nat list" | JNumber jsnumber | JBigInt int

text \<open>The operator \<^verbatim>\<open>===\<close> on two Numbers: \<open>NaN\<close> equals nothing, itself included.\<close>

definition strict_eq :: "jsnumber \<Rightarrow> jsnumber \<Rightarrow> bool" where
  "strict_eq a b = (case a of NaN \<Rightarrow> False | _ \<Rightarrow> a = b)"

subsection \<open>Rounding to a double\<close>

text \<open>
  The Number nearest to an integer, ties to the even significand. A double has a
  significand of 53 bits: below \<open>2 ^ 53\<close> every natural number is a double; above, the
  bits past the 53rd are rounded away; from \<open>2 ^ 1024\<close> on the result is an infinity.
\<close>

fun bit_length :: "nat \<Rightarrow> nat" where
  "bit_length n = (if n = 0 then 0 else Suc (bit_length (n div 2)))"

declare bit_length.simps [simp del]

definition round_nat :: "nat \<Rightarrow> nat option" where
  "round_nat m =
     (if m < 2 ^ 53 then Some m
      else
        (let e = bit_length m - 53;
             q = m div 2 ^ e;
             r = m mod 2 ^ e;
             h = 2 ^ (e - 1);
             q' = (if h < r \<or> (r = h \<and> odd q) then q + 1 else q)
         in if 2 ^ 1024 \<le> q' * 2 ^ e then None else Some (q' * 2 ^ e)))"

definition to_number :: "int \<Rightarrow> jsnumber" where
  "to_number n =
     (case round_nat (nat \<bar>n\<bar>) of
        None \<Rightarrow> if n < 0 then NegInfinity else Infinity
      | Some m \<Rightarrow> Num (if n < 0 then - int m else int m))"

subsection \<open>parseInt with radix 16\<close>

text \<open>
  \<^verbatim>\<open>parseInt(s, 16)\<close> as ECMAScript defines it: leading white space and line terminators
  are dropped, then one sign, then one prefix \<^verbatim>\<open>0x\<close> or \<^verbatim>\<open>0X\<close>; the longest run of
  hexadecimal digits that follows is the value, rounded to a Number, and \<open>NaN\<close> is returned
  when that run is empty. White space is TAB, VT, FF, SP, NBSP, ZWNBSP and the other space
  separators of Unicode; the line terminators are LF, CR, LS and PS.
\<close>

definition is_ws :: "nat \<Rightarrow> bool" where
  "is_ws u = ((9 \<le> u \<and> u \<le> 13) \<or> u = 32 \<or> u = 160 \<or> u = 5760 \<or> (8192 \<le> u \<and> u \<le> 8202)
     \<or> u = 8232 \<or> u = 8233 \<or> u = 8239 \<or> u = 8287 \<or> u = 12288 \<or> u = 65279)"

definition is_hex :: "nat \<Rightarrow> bool" where
  "is_hex u = ((48 \<le> u \<and> u \<le> 57) \<or> (97 \<le> u \<and> u \<le> 102) \<or> (65 \<le> u \<and> u \<le> 70))"

definition hex_val :: "nat \<Rightarrow> nat" where
  "hex_val u =
     (if 48 \<le> u \<and> u \<le> 57 then u - 48
      else if 97 \<le> u \<and> u \<le> 102 then u - 87
      else u - 55)"

definition hex_value :: "nat list \<Rightarrow> nat" where
  "hex_value ds = foldl (\<lambda>a u. 16 * a + hex_val u) 0 ds"

text \<open>The sign: code unit 45 is \<^verbatim>\<open>-\<close>, code unit 43 is \<^verbatim>\<open>+\<close>.\<close>

definition strip_sign :: "nat list \<Rightarrow> bool \<times> nat list" where
  "strip_sign s = (case s of [] \<Rightarrow> (False, [])
     | u # r \<Rightarrow> if u = 45 then (True, r) else if u = 43 then (False, r) else (False, s))"

text \<open>The prefix: code unit 48 is \<^verbatim>\<open>0\<close>, 120 is \<^verbatim>\<open>x\<close>, 88 is \<^verbatim>\<open>X\<close>.\<close>

definition starts_0x :: "nat list \<Rightarrow> bool" where
  "starts_0x s = (take 2 s = [48, 120] \<or> take 2 s = [48, 88])"

definition strip_0x :: "nat list \<Rightarrow> nat list" where
  "strip_0x s = (if starts_0x s then drop 2 s else s)"

definition parseInt16 :: "nat list \<Rightarrow> jsnumber" where
  "parseInt16 s =
     (let (neg, s2) = strip_sign (dropWhile is_ws s);
          z = takeWhile is_hex (strip_0x s2)
      in if z = [] then NaN
         else to_number ((if neg then - 1 else 1) * int (hex_value z)))"

text \<open>
  \<^verbatim>\<open>const sanitizeChainId = (chainId) =>
    typeof chainId === "string" ? parseInt(chainId, 16) : Number(chainId);\<close>
  \<^verbatim>\<open>Number\<close> is reached with a number, which it returns, or with a bigint, of which it
  gives the nearest double.
\<close>

definition sanitizeChainId :: "jsval \<Rightarrow> jsnumber" where
  "sanitizeChainId chainId =
     (case chainId of
        JString s \<Rightarrow> parseInt16 s
      | JNumber x \<Rightarrow> x
      | JBigInt n \<Rightarrow> to_number n)"

subsection \<open>Rendering numbers\<close>

text \<open>The digits of \<open>n\<close> in base \<open>b\<close>, for a base from 2 to 16; no digits for another base.\<close>

fun digits :: "nat \<Rightarrow> nat \<Rightarrow> string" where
  "digits b n =
     (if b < 2 \<or> 16 < b then []
      else if n < b then [''0123456789abcdef'' ! n]
      else digits b (n div b) @ [''0123456789abcdef'' ! (n mod b)])"

text \<open>
  \<^verbatim>\<open>x.toString(radix)\<close>; the pages call it with radix 16, and with radix 10 where a number
  is put into a template string. For \<open>Num n\<close> the result is the digits of \<open>n\<close>. That is what
  JavaScript prints when the magnitude is below \<open>2 ^ 53\<close>; for a larger one the last digits
  that JavaScript prints are left to the implementation and may differ from these.
\<close>

definition toString :: "nat \<Rightarrow> jsnumber \<Rightarrow> string" where
  "toString radix x = (case x of NaN \<Rightarrow> ''NaN''
     | Infinity \<Rightarrow> ''Infinity''
     | NegInfinity \<Rightarrow> ''-Infinity''
     | Num n \<Rightarrow> if n < 0 then CHR ''-'' # digits radix (nat (- n)) else digits radix (nat n))"

subsection \<open>Objects of the wallet boundary\<close>

text \<open>
  A transport is the wallet object the page talks to (\<^verbatim>\<open>window.ethereum\<close>, an EIP-6963
  provider, a WalletConnect or Coinbase SDK provider). \<open>tid\<close> is the identity of the
  object; the flags are the properties the pages test.
\<close>

record transport =
  tid :: nat
  has_disconnect :: bool
  isTrust :: bool
  isCoinbaseWallet :: bool

record provider_info =
  uuid :: string
  wname :: string
  rdns :: string
  icon :: string

text \<open>
  An entry \<^verbatim>\<open>{ info, provider }\<close>. The buttons of pages A to C also call
  \<^verbatim>\<open>connectWallet({ info: { rdns: 'walletconnect' } })\<close>, with no \<^verbatim>\<open>provider\<close>.
\<close>

record descriptor =
  d_info :: provider_info
  d_provider :: "transport option"

datatype browser_provider = BrowserProvider transport

datatype signer = Signer nat

text \<open>
  A thrown value: \<^verbatim>\<open>error.code\<close>, \<^verbatim>\<open>error.message\<close> and
  \<^verbatim>\<open>error.data.originalError.code\<close>, the three properties the pages read. The message is
  taken to be a string.
\<close>

record js_error =
  err_code :: "int option"
  err_message :: string
  err_orig_code :: "int option"

definition Error_msg :: "string \<Rightarrow> js_error" where
  "Error_msg m = \<lparr>err_code = None, err_message = m, err_orig_code = None\<rparr>"

text \<open>
  The answer of the outside world to one awaited call: the promise resolves, rejects, or
  stays pending for ever (a prompt the user never answers).
\<close>

datatype 'a reply = Resolves 'a | Rejects js_error | NoReply

record currency =
  cur_name :: string
  cur_symbol :: string
  cur_decimals :: nat

text \<open>
  An entry of \<^verbatim>\<open>CHAIN_CONFIG\<close>. The table itself is imported from \<^verbatim>\<open>../config/chains\<close>, a file
  that is not among the pages; every operation takes it as a parameter
  \<open>cfg :: string \<rightharpoonup> chain_config\<close> from the logical chain name to its entry.
\<close>

record chain_config =
  cfg_chainId :: jsval
  chainName :: string
  nativeCurrency :: currency
  rpcUrls :: "string list"
  blockExplorerUrls :: "string list"

record add_params =
  ap_chainId :: string
  ap_chainName :: string
  ap_nativeCurrency :: currency
  ap_rpcUrls :: "string list"
  ap_blockExplorerUrls :: "string list"

datatype rpc =
    EthRequestAccounts
  | SwitchEthereumChain string
  | AddEthereumChain add_params

record transaction =
  tx_to :: string
  tx_value :: int
  tx_nonce :: int
  tx_data :: "string option"
  tx_gasLimit :: "int option"
  tx_chainId :: jsnumber
  tx_maxFeePerGas :: "int option"
  tx_maxPriorityFeePerGas :: "int option"
  tx_type :: "nat option"

datatype handler =
    HandleAccountsChanged
  | HandleChainChanged
  | DisconnectHandler
  | ChainChangedHandler

datatype toast_status = TSuccess | TError | TWarning | TInfo

text \<open>
  What an operation does to the outside world, in the order in which it does it: requests
  to a transport, listener calls, toasts, the timers it starts and the transactions it
  hands to a signer.
\<close>

datatype effect =
    Request transport rpc
  | On transport string handler
  | RemoveListener transport string handler
  | Disconnect transport
  | Emit transport string string
  | Toast toast_status string string
  | Delay nat
  | CoinbaseCleanupIn nat
  | SendTransaction signer transaction

subsection \<open>State of the page\<close>

text \<open>
  The thirteen \<^verbatim>\<open>useState\<close> cells of the component (\<open>coinbaseWallet\<close> exists on page C
  only and records whether the cell holds an SDK object), followed by two fields of the
  outside world: \<open>listeners\<close>, the handlers registered with \<^verbatim>\<open>on\<close> and not taken back
  with \<^verbatim>\<open>removeListener\<close>, and \<open>log\<close>, the effects so far.
\<close>

record app_state =
  provider :: "transport option"
  signer :: "signer option"
  address :: string
  chainId :: "jsnumber option"
  eip6963Providers :: "descriptor list"
  selectedWallet :: "provider_info option"
  browserProvider :: "browser_provider option"
  isConnecting :: bool
  isSwitchingChain :: bool
  isSendingTransaction :: bool
  isClearing :: bool
  wcProvider :: "transport option"
  coinbaseWallet :: bool
  listeners :: "(transport \<times> string \<times> handler) list"
  log :: "effect list"

text \<open>
  A state setter of React does not change what the running function sees: the function
  keeps reading the cells of the render it was created in. Every operation below
  therefore takes two states: \<open>snap\<close>, the render the closure reads, and \<open>st\<close>, the state
  its writes go to. A call made from the current render has \<open>snap = st\<close>.
\<close>

definition logs :: "effect \<Rightarrow> app_state \<Rightarrow> app_state" where
  "logs e st = st\<lparr>log := log st @ [e]\<rparr>"

definition showToast :: "toast_status \<Rightarrow> string \<Rightarrow> string \<Rightarrow> app_state \<Rightarrow> app_state" where
  "showToast status title description st = logs (Toast status title description) st"

definition on :: "transport \<Rightarrow> string \<Rightarrow> handler \<Rightarrow> app_state \<Rightarrow> app_state" where
  "on p ev h st = logs (On p ev h) (st\<lparr>listeners := listeners st @ [(p, ev, h)]\<rparr>)"

text \<open>
  \<^verbatim>\<open>removeListener\<close> of an event emitter takes back one registration of the handler, the
  most recent one.
\<close>

definition remove_last :: "'a \<Rightarrow> 'a list \<Rightarrow> 'a list" where
  "remove_last x xs = rev (remove1 x (rev xs))"

definition removeListener :: "transport \<Rightarrow> string \<Rightarrow> handler \<Rightarrow> app_state \<Rightarrow> app_state" where
  "removeListener p ev h st =
     logs (RemoveListener p ev h) (st\<lparr>listeners := remove_last (p, ev, h) (listeners st)\<rparr>)"

definition request :: "transport \<Rightarrow> rpc \<Rightarrow> app_state \<Rightarrow> app_state" where
  "request p r st = logs (Request p r) st"

text \<open>The Session of the specification: the cells that describe the connected wallet.\<close>

definition session ::
  "app_state \<Rightarrow> transport option \<times> browser_provider option \<times> signer option \<times> string
     \<times> jsnumber option \<times> provider_info option \<times> transport option" where
  "session st = (provider st, browserProvider st, signer st, address st, chainId st,
     selectedWallet st, wcProvider st)"

definition session_absent :: "app_state \<Rightarrow> bool" where
  "session_absent st = (session st = (None, None, None, [], None, None, None))"

subsection \<open>Provider discovery\<close>

text \<open>
  The updater passed to \<^verbatim>\<open>setEip6963Providers\<close> by \<^verbatim>\<open>handleEip6963Announce\<close>:
  \<^verbatim>\<open>prevProviders.some((p) => p.info.uuid === info.uuid)
      ? prevProviders : [...prevProviders, { info, provider }]\<close>
\<close>

definition announce :: "descriptor list \<Rightarrow> descriptor \<Rightarrow> descriptor list" where
  "announce prevProviders d =
     (if list_ex (\<lambda>p. uuid (d_info p) = uuid (d_info d)) prevProviders
      then prevProviders
      else prevProviders @ [d])"

definition handleEip6963Announce :: "descriptor \<Rightarrow> app_state \<Rightarrow> app_state" where
  "handleEip6963Announce d st = st\<lparr>eip6963Providers := announce (eip6963Providers st) d\<rparr>"

subsection \<open>Disconnect and the change handlers\<close>

text \<open>
  \<^verbatim>\<open>disconnectWallet\<close> of pages A and B: the native \<^verbatim>\<open>disconnect\<close> of the transports the
  closure sees, then seven cells reset, then a toast. No listener call is made.
\<close>

definition native_disconnect :: "transport option \<Rightarrow> app_state \<Rightarrow> app_state" where
  "native_disconnect p st =
     (case p of None \<Rightarrow> st
      | Some t \<Rightarrow> if has_disconnect t then logs (Disconnect t) st else st)"

definition reset_cells :: "app_state \<Rightarrow> app_state" where
  "reset_cells st = st\<lparr>provider := None, browserProvider := None, signer := None,
     address := [], selectedWallet := None, chainId := None, wcProvider := None\<rparr>"

definition disconnectWallet_AB :: "app_state \<Rightarrow> app_state \<Rightarrow> app_state" where
  "disconnectWallet_AB snap st =
     showToast TInfo ''Wallet Disconnected'' ''Your wallet has been disconnected.''
       (reset_cells (native_disconnect (provider snap) (native_disconnect (wcProvider snap) st)))"

text \<open>
  Page C adds the Coinbase branch: a timer of 2000 ms that calls the native disconnect
  again and deletes the wallet's keys of the local storage. The timer is recorded as one
  effect; what it does when it fires is outside the operation.
\<close>

definition disconnectWallet_C :: "app_state \<Rightarrow> app_state \<Rightarrow> app_state" where
  "disconnectWallet_C snap st =
     (let st1 = native_disconnect (provider snap) (native_disconnect (wcProvider snap) st);
          st2 = (if coinbaseWallet snap then logs (CoinbaseCleanupIn 2000) st1 else st1)
      in showToast TInfo ''Wallet Disconnected'' ''Your wallet has been disconnected.''
           ((reset_cells st2)\<lparr>coinbaseWallet := False\<rparr>))"

text \<open>
  \<^verbatim>\<open>accounts.length === 0 ? disconnectWallet() : setAddress(accounts[0])\<close>
\<close>

definition handleAccountsChanged_AB :: "app_state \<Rightarrow> string list \<Rightarrow> app_state \<Rightarrow> app_state" where
  "handleAccountsChanged_AB snap accounts st =
     (case accounts of [] \<Rightarrow> disconnectWallet_AB snap st
      | a # _ \<Rightarrow> st\<lparr>address := a\<rparr>)"

definition handleAccountsChanged_C :: "app_state \<Rightarrow> string list \<Rightarrow> app_state \<Rightarrow> app_state" where
  "handleAccountsChanged_C snap accounts st =
     (case accounts of [] \<Rightarrow> disconnectWallet_C snap st
      | a # _ \<Rightarrow> st\<lparr>address := a\<rparr>)"

text \<open>
  The result of an asynchronous operation: it returns a value, throws, or never settles
  because an awaited promise stays pending. Each case carries the state reached.
\<close>

datatype 'a outcome = Returns 'a app_state | Throws js_error app_state | Pending app_state

fun final :: "'a outcome \<Rightarrow> app_state" where
  "final (Returns _ st) = st"
| "final (Throws _ st) = st"
| "final (Pending st) = st"

fun settled :: "'a outcome \<Rightarrow> bool" where
  "settled (Pending _) = False"
| "settled _ = True"

text \<open>
  \<^verbatim>\<open>handleChainChanged\<close>, the same on the three pages, in two parts. The first part is
  what the function does before its first \<^verbatim>\<open>await\<close>, that is, inside the call that the
  event emitter makes: \<^verbatim>\<open>setChainId(sanitizeChainId(chainId))\<close> and, when the \<^verbatim>\<open>provider\<close> of
  its closure is not null, \<^verbatim>\<open>setBrowserProvider\<close>. \<open>closure_provider\<close> is that cell of the
  render in which the function was created.
\<close>

definition handleChainChanged_sync :: "transport option \<Rightarrow> jsval \<Rightarrow> app_state \<Rightarrow> app_state" where
  "handleChainChanged_sync closure_provider chainId_arg st =
     (let newChainId = sanitizeChainId chainId_arg;
          st1 = st\<lparr>chainId := Some newChainId\<rparr>
      in case closure_provider of
           None \<Rightarrow> st1
         | Some p \<Rightarrow> st1\<lparr>browserProvider := Some (BrowserProvider p)\<rparr>)"

text \<open>
  The whole function. The answers of the new \<^verbatim>\<open>BrowserProvider\<close> are the parameters
  \<open>r_signer\<close> and \<open>r_address\<close>. The function has one \<^verbatim>\<open>try\<close> around the two awaits and no
  code after it, so it never throws.
\<close>

definition handleChainChanged ::
  "app_state \<Rightarrow> signer reply \<Rightarrow> string reply \<Rightarrow> jsval \<Rightarrow> app_state \<Rightarrow> unit outcome" where
  "handleChainChanged snap r_signer r_address chainId_arg st =
     (let st2 = handleChainChanged_sync (provider snap) chainId_arg st
      in case provider snap of
           None \<Rightarrow> Returns () st2
         | Some p \<Rightarrow>
             (let failed = showToast TError ''Chain Change Error''
                             ''Failed to update signer after chain change.'' st2
              in case r_signer of
                   NoReply \<Rightarrow> Pending st2
                 | Rejects e \<Rightarrow> Returns () failed
                 | Resolves sg \<Rightarrow>
                     (case r_address of
                        NoReply \<Rightarrow> Pending st2
                      | Rejects e \<Rightarrow> Returns () failed
                      | Resolves account \<Rightarrow>
                          Returns () (st2\<lparr>address := account, signer := Some sg\<rparr>))))"

text \<open>The cells as \<^verbatim>\<open>useState\<close> initialises them, with no listener and an empty log.\<close>

definition initial_state :: app_state where
  "initial_state = \<lparr>provider = None, signer = None, address = [], chainId = None,
     eip6963Providers = [], selectedWallet = None, browserProvider = None,
     isConnecting = False, isSwitchingChain = False, isSendingTransaction = False,
     isClearing = False, wcProvider = None, coinbaseWallet = False,
     listeners = [], log = []\<rparr>"

subsection \<open>Connect\<close>

text \<open>\<^verbatim>\<open>s.includes(sub)\<close> on strings.\<close>

primrec str_includes :: "string \<Rightarrow> string \<Rightarrow> bool" where
  "str_includes [] sub = (sub = [])"
| "str_includes (c # cs) sub = (take (length sub) (c # cs) = sub \<or> str_includes cs sub)"

text \<open>
  The answers of the outside world to one \<^verbatim>\<open>connectWallet\<close>: the WalletConnect
  constructor and its \<^verbatim>\<open>enable\<close>, the global \<^verbatim>\<open>window.ethereum\<close> with its
  \<^verbatim>\<open>providers\<close> array, the provider the Coinbase SDK makes, the answer to
  \<^verbatim>\<open>eth_requestAccounts\<close>, and the three queries on the new \<^verbatim>\<open>BrowserProvider\<close>.
\<close>

record connect_env =
  wc_init :: "transport reply"
  wc_enable :: "unit reply"
  window_ethereum :: "transport option"
  window_ethereum_providers :: "transport list option"
  sdk_provider :: transport
  accounts_reply :: "unit reply"
  signer_reply :: "signer reply"
  address_reply :: "string reply"
  network_reply :: "jsval reply"
  effect_network :: "jsval reply"
  effect_late :: bool

text \<open>What reading a property of \<^verbatim>\<open>undefined\<close> or \<^verbatim>\<open>null\<close> throws.\<close>

definition TypeError :: js_error where
  "TypeError = Error_msg ''Cannot read properties of undefined''"

text \<open>
  \<^verbatim>\<open>initializeProvider\<close>: a new \<^verbatim>\<open>BrowserProvider\<close> around the transport of the closure,
  whose network is awaited and written to \<^verbatim>\<open>chainId\<close>.
\<close>

definition initializeProvider ::
  "app_state \<Rightarrow> jsval reply \<Rightarrow> app_state \<Rightarrow> browser_provider option outcome" where
  "initializeProvider snap r_network st =
     (case provider snap of
        None \<Rightarrow> Returns None st
      | Some p \<Rightarrow>
          (case r_network of
             NoReply \<Rightarrow> Pending st
           | Rejects x \<Rightarrow> Throws x st
           | Resolves network_chainId \<Rightarrow>
               Returns (Some (BrowserProvider p))
                 (st\<lparr>browserProvider := Some (BrowserProvider p),
                     chainId := Some (sanitizeChainId network_chainId)\<rparr>)))"

text \<open>
  The effect of lines 68 to 70 of page A (523 to 525 of page C):
  \<^verbatim>\<open>useEffect(() => { if (provider) initializeProvider(); }, [provider, initializeProvider])\<close>.
  React runs it after a render in which the \<^verbatim>\<open>provider\<close> cell holds another object than in
  the render before; \<open>before\<close> is the cell of that earlier render. The call of
  \<^verbatim>\<open>initializeProvider\<close> is the one of the new render, nobody awaits it, and what it throws
  is lost: only the two cells it writes when its network query is answered remain.
\<close>

definition provider_effect :: "jsval reply \<Rightarrow> transport option \<Rightarrow> app_state \<Rightarrow> app_state" where
  "provider_effect r_network before st =
     (if provider st = before then st else final (initializeProvider st r_network st))"

text \<open>
  \<^verbatim>\<open>connectWallet\<close> calls \<^verbatim>\<open>setProvider\<close> and goes on to await the signer, the account and
  the network, so the effect runs beside it. \<open>effect_network\<close> is the answer to the
  network query of the effect. Its two writes land before the five writes of
  \<^verbatim>\<open>connectWallet\<close> (lines 97 to 101 of page A) or after them, and \<open>effect_late\<close> says which.
  The state returned by a connect is the one reached when the effect has ended too.
\<close>

definition effect_early :: "connect_env \<Rightarrow> transport option \<Rightarrow> app_state \<Rightarrow> app_state" where
  "effect_early e before st =
     (if effect_late e then st else provider_effect (effect_network e) before st)"

definition effect_end :: "connect_env \<Rightarrow> transport option \<Rightarrow> unit outcome \<Rightarrow> unit outcome" where
  "effect_end e before r =
     (if effect_late e then
        (case r of
           Returns u s \<Rightarrow> Returns u (provider_effect (effect_network e) before s)
         | Throws x s \<Rightarrow> Throws x (provider_effect (effect_network e) before s)
         | Pending s \<Rightarrow> Pending (provider_effect (effect_network e) before s))
      else r)"

text \<open>
  Lines 93 to 101 of page A (124 to 132 of page B, 592 to 600 of page C): signer, account
  and network are awaited, then five cells are written.
\<close>

definition derive_session ::
  "connect_env \<Rightarrow> descriptor \<Rightarrow> transport \<Rightarrow> app_state \<Rightarrow> string outcome" where
  "derive_session e selectedProvider t st =
     (case signer_reply e of
        NoReply \<Rightarrow> Pending st
      | Rejects x \<Rightarrow> Throws x st
      | Resolves sg \<Rightarrow>
          (case address_reply e of
             NoReply \<Rightarrow> Pending st
           | Rejects x \<Rightarrow> Throws x st
           | Resolves account \<Rightarrow>
               (case network_reply e of
                  NoReply \<Rightarrow> Pending st
                | Rejects x \<Rightarrow> Throws x st
                | Resolves network_chainId \<Rightarrow>
                    Returns account
                      (st\<lparr>browserProvider := Some (BrowserProvider t),
                          signer := Some sg,
                          address := account,
                          chainId := Some (sanitizeChainId network_chainId),
                          selectedWallet := Some (d_info selectedProvider)\<rparr>))))"

definition connected_toast :: "string \<Rightarrow> app_state \<Rightarrow> app_state" where
  "connected_toast account st =
     showToast TSuccess ''Wallet Connected''
       (''Connected to account '' @ take 6 account @ ''...'' @ drop (length account - 4) account) st"

text \<open>
  The \<^verbatim>\<open>try\<close> block of \<^verbatim>\<open>connectWallet\<close> on page A. In the WalletConnect branch the
  constant \<^verbatim>\<open>newWcProvider\<close> is declared inside the first \<^verbatim>\<open>if\<close> block and read at line 104
  inside another block, where it is not in scope: that read throws a ReferenceError after
  the cells have been written. The effect on \<^verbatim>\<open>provider\<close> is placed after \<^verbatim>\<open>setProvider\<close>.
\<close>

definition connect_try_A :: "connect_env \<Rightarrow> descriptor \<Rightarrow> app_state \<Rightarrow> unit outcome" where
  "connect_try_A e selectedProvider st =
     (if str_includes (rdns (d_info selectedProvider)) ''walletconnect'' then
        (case wc_init e of
           NoReply \<Rightarrow> Pending st
         | Rejects x \<Rightarrow> Throws x st
         | Resolves newWcProvider \<Rightarrow>
             (case wc_enable e of
                NoReply \<Rightarrow> Pending st
              | Rejects x \<Rightarrow> Throws x st
              | Resolves _ \<Rightarrow>
                  (case derive_session e selectedProvider newWcProvider
                          (effect_early e (provider st)
                             (st\<lparr>provider := Some newWcProvider,
                                 wcProvider := Some newWcProvider\<rparr>)) of
                     Pending s \<Rightarrow> Pending s
                   | Throws x s \<Rightarrow> Throws x s
                   | Returns account s \<Rightarrow>
                       Throws (Error_msg ''newWcProvider is not defined'') s)))
      else
        (case d_provider selectedProvider of
           None \<Rightarrow> Throws TypeError st
         | Some p \<Rightarrow>
             (let st1 = request p EthRequestAccounts st in
              case accounts_reply e of
                NoReply \<Rightarrow> Pending st1
              | Rejects x \<Rightarrow> Throws x st1
              | Resolves _ \<Rightarrow>
                  (case derive_session e selectedProvider p
                          (effect_early e (provider st) (st1\<lparr>provider := Some p\<rparr>)) of
                     Pending s \<Rightarrow> Pending s
                   | Throws x s \<Rightarrow> Throws x s
                   | Returns account s \<Rightarrow>
                       Returns ()
                         (connected_toast account
                            (on p ''chainChanged'' HandleChainChanged
                               (on p ''accountsChanged'' HandleAccountsChanged s)))))))"

text \<open>The \<^verbatim>\<open>catch\<close> and \<^verbatim>\<open>finally\<close> of \<^verbatim>\<open>connectWallet\<close>, the same on every page.\<close>

definition connect_finish :: "unit outcome \<Rightarrow> unit outcome" where
  "connect_finish r =
     (case r of
        Pending s \<Rightarrow> Pending s
      | Returns _ s \<Rightarrow> Returns () (s\<lparr>isConnecting := False\<rparr>)
      | Throws x s \<Rightarrow>
          Returns ()
            ((showToast TError ''Connection Error''
                ''Failed to connect wallet. Please try again.'' s)\<lparr>isConnecting := False\<rparr>))"

definition connectWallet_A :: "connect_env \<Rightarrow> descriptor \<Rightarrow> app_state \<Rightarrow> unit outcome" where
  "connectWallet_A e selectedProvider st =
     effect_end e (provider st)
       (connect_finish (connect_try_A e selectedProvider (st\<lparr>isConnecting := True\<rparr>)))"

text \<open>
  Page C, lines 527 to 609. Each branch asks for the accounts, writes \<^verbatim>\<open>provider\<close> and
  registers its listeners before the signer is derived. \<open>authorize_C\<close> is the part the
  Trust, Coinbase and default branches share: the request, \<^verbatim>\<open>setProvider\<close>, two \<^verbatim>\<open>on\<close>.
  The effect on \<^verbatim>\<open>provider\<close> is placed where the branch ends, before the first \<^verbatim>\<open>await\<close> on
  the new \<^verbatim>\<open>BrowserProvider\<close>.
\<close>

definition authorize_C :: "connect_env \<Rightarrow> transport \<Rightarrow> app_state \<Rightarrow> transport outcome" where
  "authorize_C e t st =
     (let st1 = request t EthRequestAccounts st in
      case accounts_reply e of
        NoReply \<Rightarrow> Pending st1
      | Rejects x \<Rightarrow> Throws x st1
      | Resolves _ \<Rightarrow>
          Returns t
            (on t ''chainChanged'' HandleChainChanged
               (on t ''accountsChanged'' HandleAccountsChanged (st1\<lparr>provider := Some t\<rparr>))))"

definition coinbase_injected :: "connect_env \<Rightarrow> transport option" where
  "coinbase_injected e =
     (case window_ethereum e of
        None \<Rightarrow> None
      | Some w \<Rightarrow>
          if isCoinbaseWallet w then Some w
          else (case window_ethereum_providers e of
                  None \<Rightarrow> None
                | Some ps \<Rightarrow> find isCoinbaseWallet ps))"

definition resolve_transport_C ::
  "connect_env \<Rightarrow> descriptor \<Rightarrow> app_state \<Rightarrow> transport outcome" where
  "resolve_transport_C e selectedProvider st =
     (if str_includes (rdns (d_info selectedProvider)) ''walletconnect'' then
        (case wc_init e of
           NoReply \<Rightarrow> Pending st
         | Rejects x \<Rightarrow> Throws x st
         | Resolves newWcProvider \<Rightarrow>
             (case wc_enable e of
                NoReply \<Rightarrow> Pending st
              | Rejects x \<Rightarrow> Throws x st
              | Resolves _ \<Rightarrow>
                  Returns newWcProvider
                    (on newWcProvider ''disconnect'' DisconnectHandler
                       (on newWcProvider ''chainChanged'' HandleChainChanged
                          (on newWcProvider ''accountsChanged'' HandleAccountsChanged
                             (st\<lparr>provider := Some newWcProvider,
                                 wcProvider := Some newWcProvider\<rparr>))))))
      else if str_includes (rdns (d_info selectedProvider)) ''trust'' then
        (case window_ethereum e of
           None \<Rightarrow> Throws (Error_msg ''Trust Wallet is not installed'') st
         | Some w \<Rightarrow>
             if isTrust w then authorize_C e w st
             else Throws (Error_msg ''Trust Wallet is not installed'') st)
      else if str_includes (rdns (d_info selectedProvider)) ''coinbase'' then
        (case coinbase_injected e of
           Some ethereum \<Rightarrow> authorize_C e ethereum st
         | None \<Rightarrow> authorize_C e (sdk_provider e) (st\<lparr>coinbaseWallet := True\<rparr>))
      else
        (case d_provider selectedProvider of
           None \<Rightarrow> Throws TypeError st
         | Some p \<Rightarrow> authorize_C e p st))"

definition connect_try_C :: "connect_env \<Rightarrow> descriptor \<Rightarrow> app_state \<Rightarrow> unit outcome" where
  "connect_try_C e selectedProvider st =
     (case resolve_transport_C e selectedProvider st of
        Pending s \<Rightarrow> Pending s
      | Throws x s \<Rightarrow> Throws x s
      | Returns t s \<Rightarrow>
          (case derive_session e selectedProvider t (effect_early e (provider st) s) of
             Pending s' \<Rightarrow> Pending s'
           | Throws x s' \<Rightarrow> Throws x s'
           | Returns account s' \<Rightarrow> Returns () (connected_toast account s')))"

definition connectWallet_C :: "connect_env \<Rightarrow> descriptor \<Rightarrow> app_state \<Rightarrow> unit outcome" where
  "connectWallet_C e selectedProvider st =
     effect_end e (provider st)
       (connect_finish (connect_try_C e selectedProvider (st\<lparr>isConnecting := True\<rparr>)))"

subsection \<open>Chain switch\<close>

text \<open>
  The answers of the outside world to one run of \<^verbatim>\<open>switchChain\<close>: to the switch request,
  to the add request, the time in milliseconds after which the transport emits
  \<^verbatim>\<open>chainChanged\<close> once the temporary listener is installed (\<open>None\<close>: it never does), the
  network read by \<^verbatim>\<open>initializeProvider\<close>, the signer, the network read a second time, and
  whether \<^verbatim>\<open>wcProvider.emit\<close> throws (page C). The last field is not an answer of the
  world: \<open>handler_provider\<close> is the \<^verbatim>\<open>provider\<close> cell of the render in which the
  \<^verbatim>\<open>handleChainChanged\<close> registered on the transport was created (\<open>None\<close> for the handler of a
  first connect, which was called from a render without a provider). The state keeps the
  registered listeners by name, so what a listener closes over is given where it is called.
\<close>

record switch_env =
  switch_reply :: "unit reply"
  add_reply :: "unit reply"
  chain_event :: "nat option"
  init_network :: "jsval reply"
  new_signer :: "signer reply"
  again_network :: "jsval reply"
  emit_throws :: bool
  handler_provider :: "transport option"

text \<open>A world that answers nothing.\<close>

definition silent :: switch_env where
  "silent = \<lparr>switch_reply = NoReply, add_reply = NoReply, chain_event = None,
     init_network = NoReply, new_signer = NoReply, again_network = NoReply,
     emit_throws = False, handler_provider = None\<rparr>"

definition active_transport :: "app_state \<Rightarrow> transport option" where
  "active_transport snap = (case wcProvider snap of Some w \<Rightarrow> Some w | None \<Rightarrow> provider snap)"

definition formatChainId :: "jsnumber \<Rightarrow> string" where
  "formatChainId targetChainId = ''0x'' @ toString 16 targetChainId"

text \<open>\<^verbatim>\<open>chainId === targetChainId\<close>, where the cell may hold \<^verbatim>\<open>null\<close>.\<close>

definition on_chain :: "jsnumber option \<Rightarrow> jsnumber \<Rightarrow> bool" where
  "on_chain c target = (case c of None \<Rightarrow> False | Some x \<Rightarrow> strict_eq x target)"

text \<open>
  The promise awaited at lines 200 to 215 of page A and 227 to 242 of page B: a listener
  is installed, and only its call removes it and resolves the promise. The result is the
  time waited. The event of the transport that ends the wait also reaches the
  \<^verbatim>\<open>handleChainChanged\<close> that the connect registered; that is a run of \<open>handleChainChanged\<close>
  beside this one, started by the transport, and its write to \<^verbatim>\<open>chainId\<close> is made when the
  event arrives, before the writes that follow the wait.
\<close>

definition await_chainChanged_AB :: "app_state \<Rightarrow> nat option \<Rightarrow> app_state \<Rightarrow> nat outcome" where
  "await_chainChanged_AB snap event st =
     (case active_transport snap of
        None \<Rightarrow> Pending st
      | Some a \<Rightarrow>
          (let st1 = on a ''chainChanged'' ChainChangedHandler st in
           case event of
             None \<Rightarrow> Pending st1
           | Some t \<Rightarrow> Returns t (removeListener a ''chainChanged'' ChainChangedHandler st1)))"

text \<open>
  The promise awaited at lines 720 to 733 of page C: the same listener, and a timer of
  5000 ms that also removes the listener and resolves. The timer is not cleared when the
  event comes first; its later \<^verbatim>\<open>removeListener\<close> then finds nothing to remove and is not
  recorded.
\<close>

definition await_chainChanged_C :: "transport \<Rightarrow> nat option \<Rightarrow> app_state \<Rightarrow> nat outcome" where
  "await_chainChanged_C activeProvider event st =
     (let st1 = on activeProvider ''chainChanged'' ChainChangedHandler st;
          st2 = removeListener activeProvider ''chainChanged'' ChainChangedHandler st1
      in case event of
           None \<Rightarrow> Returns 5000 st2
         | Some t \<Rightarrow> if t < 5000 then Returns t st2 else Returns 5000 st2)"

definition add_params_of :: "chain_config \<Rightarrow> string \<Rightarrow> add_params" where
  "add_params_of chainConfig formattedChainId =
     \<lparr>ap_chainId = formattedChainId, ap_chainName = chainName chainConfig,
      ap_nativeCurrency = nativeCurrency chainConfig, ap_rpcUrls = rpcUrls chainConfig,
      ap_blockExplorerUrls = blockExplorerUrls chainConfig\<rparr>"

definition switched_toast :: "chain_config \<Rightarrow> app_state \<Rightarrow> app_state" where
  "switched_toast chainConfig st =
     showToast TSuccess ''Network Switched'' (''Switched to '' @ chainName chainConfig) st"

definition switch_failed_toast :: "chain_config \<Rightarrow> js_error \<Rightarrow> app_state \<Rightarrow> app_state" where
  "switch_failed_toast chainConfig err st =
     showToast TError ''Network Switch Failed''
       (''Failed to switch to '' @ chainName chainConfig @ '': '' @ err_message err) st"

datatype page = PageA | PageB

text \<open>
  Lines 217 to 224 of page B, \<^verbatim>\<open>// For Trust Wallet, we'll update the state immediately\<close>:
  the target is written to \<^verbatim>\<open>chainId\<close> and no network is read.
\<close>

definition switch_trust_B ::
  "transport \<Rightarrow> chain_config \<Rightarrow> jsnumber \<Rightarrow> switch_env \<Rightarrow> app_state \<Rightarrow> unit outcome" where
  "switch_trust_B p chainConfig targetChainId e st =
     (let st1 = st\<lparr>chainId := Some targetChainId,
                    browserProvider := Some (BrowserProvider p)\<rparr>
      in case new_signer e of
           NoReply \<Rightarrow> Pending st1
         | Rejects x \<Rightarrow> Throws x st1
         | Resolves newSigner \<Rightarrow>
             Returns () (switched_toast chainConfig (st1\<lparr>signer := Some newSigner\<rparr>)))"

text \<open>
  Lines 199 to 224 of page A and 226 to 250 of page B: the wait, then
  \<^verbatim>\<open>initializeProvider\<close>, the signer, the network read for the console, and the toast.
  \<^verbatim>\<open>initializeProvider\<close> returns \<^verbatim>\<open>null\<close> when the closure has no \<^verbatim>\<open>provider\<close>, and the call
  of \<^verbatim>\<open>getSigner\<close> on it throws.
\<close>

definition switch_settle_AB ::
  "app_state \<Rightarrow> chain_config \<Rightarrow> switch_env \<Rightarrow> app_state \<Rightarrow> unit outcome" where
  "switch_settle_AB snap chainConfig e st =
     (case await_chainChanged_AB snap (chain_event e) st of
        Pending s \<Rightarrow> Pending s
      | Throws x s \<Rightarrow> Throws x s
      | Returns _ s \<Rightarrow>
          (case initializeProvider snap (init_network e) s of
             Pending s1 \<Rightarrow> Pending s1
           | Throws x s1 \<Rightarrow> Throws x s1
           | Returns None s1 \<Rightarrow> Throws TypeError s1
           | Returns (Some newBrowserProvider) s1 \<Rightarrow>
               (case new_signer e of
                  NoReply \<Rightarrow> Pending s1
                | Rejects x \<Rightarrow> Throws x s1
                | Resolves newSigner \<Rightarrow>
                    (let s2 = s1\<lparr>signer := Some newSigner\<rparr> in
                     case again_network e of
                       NoReply \<Rightarrow> Pending s2
                     | Rejects x \<Rightarrow> Throws x s2
                     | Resolves _ \<Rightarrow> Returns () (switched_toast chainConfig s2)))))"

text \<open>
  The \<^verbatim>\<open>try\<close> block of \<^verbatim>\<open>switchChain\<close> on pages A and B after the test
  \<^verbatim>\<open>chainId === targetChainId\<close>: the switch request, then the Trust Wallet branch on page B
  when \<^verbatim>\<open>provider && provider.isTrust\<close>, and the wait otherwise.
\<close>

definition trust_branch :: "page \<Rightarrow> app_state \<Rightarrow> transport option" where
  "trust_branch pg snap =
     (case pg of
        PageA \<Rightarrow> None
      | PageB \<Rightarrow> (case provider snap of
                    None \<Rightarrow> None
                  | Some p \<Rightarrow> if isTrust p then Some p else None))"

definition switch_try_AB ::
  "page \<Rightarrow> app_state \<Rightarrow> chain_config \<Rightarrow> jsnumber \<Rightarrow> switch_env \<Rightarrow> app_state \<Rightarrow> unit outcome" where
  "switch_try_AB pg snap chainConfig targetChainId e st =
     (case active_transport snap of
        None \<Rightarrow> Throws (Error_msg ''No provider available'') st
      | Some a \<Rightarrow>
          (let st1 = request a (SwitchEthereumChain (formatChainId targetChainId)) st in
           case switch_reply e of
             NoReply \<Rightarrow> Pending st1
           | Rejects x \<Rightarrow> Throws x st1
           | Resolves _ \<Rightarrow>
               (case trust_branch pg snap of
                  Some p \<Rightarrow> switch_trust_B p chainConfig targetChainId e st1
                | None \<Rightarrow> switch_settle_AB snap chainConfig e st1)))"

text \<open>
  The test of the \<^verbatim>\<open>catch\<close> block of pages A and B:
  \<^verbatim>\<open>error.code === 4902 || (error.data && error.data.originalError &&
    error.data.originalError.code === 4902) ||
    (error.code === -32603 && error.message.includes("Unrecognized chain ID"))\<close>
\<close>

definition unknown_chain_AB :: "js_error \<Rightarrow> bool" where
  "unknown_chain_AB error =
     (err_code error = Some 4902 \<or> err_orig_code error = Some 4902 \<or>
      (err_code error = Some (- 32603) \<and> str_includes (err_message error) ''Unrecognized chain ID''))"

text \<open>
  \<^verbatim>\<open>switchChain\<close> and \<^verbatim>\<open>addNetwork\<close> of pages A and B call each other: the \<^verbatim>\<open>catch\<close> block
  of \<^verbatim>\<open>switchChain\<close> calls \<^verbatim>\<open>addNetwork\<close>, which ends with
  \<^verbatim>\<open>await switchChain(chainConfig.chainName)\<close>. The argument of that call is the display
  name of the entry, not the key it was found under. The list holds the answers of the
  world to the successive runs of \<^verbatim>\<open>switchChain\<close>, the first element for the outermost
  run; past its end nothing is answered.
\<close>

definition first_env :: "switch_env list \<Rightarrow> switch_env" where
  "first_env es = (case es of [] \<Rightarrow> silent | e # _ \<Rightarrow> e)"

function (sequential)
  switchChain_AB ::
    "page \<Rightarrow> (string \<rightharpoonup> chain_config) \<Rightarrow> app_state \<Rightarrow> string \<Rightarrow> switch_env list
       \<Rightarrow> app_state \<Rightarrow> unit outcome"
and
  addNetwork_AB ::
    "page \<Rightarrow> (string \<rightharpoonup> chain_config) \<Rightarrow> app_state \<Rightarrow> chain_config \<Rightarrow> string
       \<Rightarrow> switch_env list \<Rightarrow> app_state \<Rightarrow> unit outcome"
where
  "switchChain_AB pg cfg snap name es st0 =
     (let st = st0\<lparr>isSwitchingChain := True\<rparr> in
      case cfg name of
        None \<Rightarrow> Returns () (st\<lparr>isSwitchingChain := False\<rparr>)
      | Some chainConfig \<Rightarrow>
          (let targetChainId = sanitizeChainId (cfg_chainId chainConfig);
               formattedChainId = formatChainId targetChainId
           in if on_chain (chainId snap) targetChainId
              then Returns () (st\<lparr>isSwitchingChain := False\<rparr>)
              else
                (case switch_try_AB pg snap chainConfig targetChainId (first_env es) st of
                   Pending s \<Rightarrow> Pending s
                 | Returns _ s \<Rightarrow> Returns () (s\<lparr>isSwitchingChain := False\<rparr>)
                 | Throws error s \<Rightarrow>
                     if unknown_chain_AB error then
                       (case addNetwork_AB pg cfg snap chainConfig formattedChainId es s of
                          Pending s' \<Rightarrow> Pending s'
                        | Returns _ s' \<Rightarrow>
                            Returns ()
                              ((showToast TSuccess ''Network Added''
                                  (''Added and switched to '' @ chainName chainConfig) s')
                               \<lparr>isSwitchingChain := False\<rparr>)
                        | Throws addError s' \<Rightarrow>
                            Returns ()
                              ((showToast TError ''Network Addition Failed''
                                  (''Failed to add '' @ chainName chainConfig @ '': ''
                                     @ err_message addError) s')
                               \<lparr>isSwitchingChain := False\<rparr>))
                     else
                       Returns ()
                         ((switch_failed_toast chainConfig error s)
                          \<lparr>isSwitchingChain := False\<rparr>))))"
| "addNetwork_AB pg cfg snap chainConfig formattedChainId [] st =
     (case active_transport snap of
        None \<Rightarrow> Throws (Error_msg ''No provider available'') st
      | Some a \<Rightarrow>
          Pending (request a (AddEthereumChain (add_params_of chainConfig formattedChainId)) st))"
| "addNetwork_AB pg cfg snap chainConfig formattedChainId (e # es) st =
     (case active_transport snap of
        None \<Rightarrow> Throws (Error_msg ''No provider available'') st
      | Some a \<Rightarrow>
          (let st1 = request a (AddEthereumChain (add_params_of chainConfig formattedChainId)) st in
           case add_reply e of
             NoReply \<Rightarrow> Pending st1
           | Rejects x \<Rightarrow> Throws x st1
           | Resolves _ \<Rightarrow> switchChain_AB pg cfg snap (chainName chainConfig) es st1))"
  by pat_completeness auto
termination
  by (relation "measure (\<lambda>x. case x of
        Inl (pg, cfg, snap, name, es, st) \<Rightarrow> 2 * length es + 1
      | Inr (pg, cfg, snap, chainConfig, formattedChainId, es, st) \<Rightarrow> 2 * length es)") auto

declare switchChain_AB.simps [simp del] addNetwork_AB.simps [simp del]

text \<open>
  \<^verbatim>\<open>addNetwork\<close> of page C (lines 763 to 786): one request, and no call of
  \<^verbatim>\<open>switchChain\<close>.
\<close>

definition addNetwork_C ::
  "app_state \<Rightarrow> chain_config \<Rightarrow> string \<Rightarrow> unit reply \<Rightarrow> app_state \<Rightarrow> unit outcome" where
  "addNetwork_C snap chainConfig formattedChainId r_add st =
     (case active_transport snap of
        None \<Rightarrow> Throws (Error_msg ''No provider available'') st
      | Some a \<Rightarrow>
          (let st1 = request a (AddEthereumChain (add_params_of chainConfig formattedChainId)) st in
           case r_add of
             NoReply \<Rightarrow> Pending st1
           | Rejects x \<Rightarrow> Throws x st1
           | Resolves _ \<Rightarrow> Returns () st1))"

text \<open>
  Lines 692 to 715 of page C: WalletConnect gets the bare request; any other transport
  gets it inside a \<^verbatim>\<open>try\<close> whose \<^verbatim>\<open>catch\<close> calls \<^verbatim>\<open>addNetwork\<close> when
  \<^verbatim>\<open>switchError.code === 4902\<close> and rethrows otherwise.
\<close>

definition switch_request_C ::
  "app_state \<Rightarrow> transport \<Rightarrow> chain_config \<Rightarrow> string \<Rightarrow> switch_env \<Rightarrow> app_state \<Rightarrow> unit outcome" where
  "switch_request_C snap activeProvider chainConfig formattedChainId e st =
     (let st1 = request activeProvider (SwitchEthereumChain formattedChainId) st in
      case switch_reply e of
        NoReply \<Rightarrow> Pending st1
      | Resolves _ \<Rightarrow> Returns () st1
      | Rejects switchError \<Rightarrow>
          (case wcProvider snap of
             Some w \<Rightarrow> Throws switchError st1
           | None \<Rightarrow>
               if err_code switchError = Some 4902
               then addNetwork_C snap chainConfig formattedChainId (add_reply e) st1
               else Throws switchError st1))"

text \<open>
  What \<^verbatim>\<open>emit\<close> of an event emitter does: it calls the listeners registered for the event
  at the time of the call, in the order of their registration, before it returns. The
  pages register two functions under \<^verbatim>\<open>chainChanged\<close>: \<^verbatim>\<open>handleChainChanged\<close>, whose call runs
  the first part of that function, and the temporary listener of the wait, which takes
  itself back. What \<^verbatim>\<open>handleChainChanged\<close> awaits comes after the emitter has returned and
  is no part of the run that called \<^verbatim>\<open>emit\<close>.
\<close>

fun deliver_chainChanged ::
  "transport option \<Rightarrow> transport \<Rightarrow> jsval \<Rightarrow> handler \<Rightarrow> app_state \<Rightarrow> app_state" where
  "deliver_chainChanged hp w arg HandleChainChanged st = handleChainChanged_sync hp arg st"
| "deliver_chainChanged hp w arg ChainChangedHandler st =
     removeListener w ''chainChanged'' ChainChangedHandler st"
| "deliver_chainChanged hp w arg HandleAccountsChanged st = st"
| "deliver_chainChanged hp w arg DisconnectHandler st = st"

definition chainChanged_listeners :: "transport \<Rightarrow> app_state \<Rightarrow> handler list" where
  "chainChanged_listeners w st =
     map (\<lambda>(t, ev, h). h) (filter (\<lambda>(t, ev, h). t = w \<and> ev = ''chainChanged'') (listeners st))"

text \<open>
  Lines 744 to 752 of page C:
  \<^verbatim>\<open>wcProvider.emit("chainChanged", `eip155:${newChainId}`)\<close> inside a \<^verbatim>\<open>try\<close>. When the call
  throws (a transport without this method, say) nothing is delivered and the warning is
  shown. Otherwise the call is recorded and the string is delivered to the listeners.
\<close>

definition emit_chainChanged_C :: "app_state \<Rightarrow> jsnumber \<Rightarrow> switch_env \<Rightarrow> app_state \<Rightarrow> app_state" where
  "emit_chainChanged_C snap newChainId e st =
     (case wcProvider snap of
        None \<Rightarrow> st
      | Some w \<Rightarrow>
          if emit_throws e
          then showToast TWarning ''Chain Switch Warning''
                 ''Chain switched successfully, but there was an issue updating the UI. Please refresh if you encounter any problems.'' st
          else
            (let payload = ''eip155:'' @ toString 10 newChainId in
             foldl (\<lambda>s h. deliver_chainChanged (handler_provider e) w (JString (units payload)) h s)
               (logs (Emit w ''chainChanged'' payload) st)
               (chainChanged_listeners w st)))"

text \<open>
  Lines 719 to 754 of page C: the bounded wait, \<^verbatim>\<open>initializeProvider\<close>, the signer, the
  network read a second time and written to \<^verbatim>\<open>chainId\<close>, the emit with what it delivers,
  the toast.
\<close>

definition switch_settle_C ::
  "app_state \<Rightarrow> transport \<Rightarrow> chain_config \<Rightarrow> switch_env \<Rightarrow> app_state \<Rightarrow> unit outcome" where
  "switch_settle_C snap activeProvider chainConfig e st =
     (case await_chainChanged_C activeProvider (chain_event e) st of
        Pending s \<Rightarrow> Pending s
      | Throws x s \<Rightarrow> Throws x s
      | Returns _ s \<Rightarrow>
          (case initializeProvider snap (init_network e) s of
             Pending s1 \<Rightarrow> Pending s1
           | Throws x s1 \<Rightarrow> Throws x s1
           | Returns None s1 \<Rightarrow> Throws TypeError s1
           | Returns (Some newBrowserProvider) s1 \<Rightarrow>
               (case new_signer e of
                  NoReply \<Rightarrow> Pending s1
                | Rejects x \<Rightarrow> Throws x s1
                | Resolves newSigner \<Rightarrow>
                    (let s2 = s1\<lparr>signer := Some newSigner\<rparr> in
                     case again_network e of
                       NoReply \<Rightarrow> Pending s2
                     | Rejects x \<Rightarrow> Throws x s2
                     | Resolves network_chainId \<Rightarrow>
                         (let newChainId = sanitizeChainId network_chainId;
                              s3 = s2\<lparr>chainId := Some newChainId\<rparr>
                          in Returns ()
                               (switched_toast chainConfig
                                  (emit_chainChanged_C snap newChainId e s3)))))))"

definition switch_try_C ::
  "app_state \<Rightarrow> chain_config \<Rightarrow> jsnumber \<Rightarrow> switch_env \<Rightarrow> app_state \<Rightarrow> unit outcome" where
  "switch_try_C snap chainConfig targetChainId e st =
     (case active_transport snap of
        None \<Rightarrow> Throws (Error_msg ''No provider available. Please connect a wallet first.'') st
      | Some activeProvider \<Rightarrow>
          (case switch_request_C snap activeProvider chainConfig (formatChainId targetChainId) e st of
             Pending s \<Rightarrow> Pending s
           | Throws x s \<Rightarrow> Throws x s
           | Returns _ s \<Rightarrow> switch_settle_C snap activeProvider chainConfig e s))"

definition switchChain_C ::
  "(string \<rightharpoonup> chain_config) \<Rightarrow> app_state \<Rightarrow> string \<Rightarrow> switch_env \<Rightarrow> app_state \<Rightarrow> unit outcome" where
  "switchChain_C cfg snap name e st0 =
     (let st = st0\<lparr>isSwitchingChain := True\<rparr> in
      case cfg name of
        None \<Rightarrow>
          Returns ()
            (showToast TError ''Invalid Chain'' (''Chain '' @ name @ '' is not configured.'')
               (st\<lparr>isSwitchingChain := False\<rparr>))
      | Some chainConfig \<Rightarrow>
          (let targetChainId = sanitizeChainId (cfg_chainId chainConfig) in
           if on_chain (chainId snap) targetChainId
           then Returns () (st\<lparr>isSwitchingChain := False\<rparr>)
           else
             (case switch_try_C snap chainConfig targetChainId e st of
                Pending s \<Rightarrow> Pending s
              | Returns _ s \<Rightarrow> Returns () (s\<lparr>isSwitchingChain := False\<rparr>)
              | Throws error s \<Rightarrow>
                  Returns ()
                    ((switch_failed_toast chainConfig error s)\<lparr>isSwitchingChain := False\<rparr>))))"

subsection \<open>Test transaction\<close>

text \<open>
  The answers of the outside world to one \<^verbatim>\<open>sendTransaction\<close>, after those to the
  \<^verbatim>\<open>switchChain\<close> it may call: the network read by \<^verbatim>\<open>initializeProvider\<close>, the signer, the
  network read for the comparison, the address of the signer, the nonce, the gas estimate
  and the fee data (page A), the submission and the confirmation.
\<close>

record send_env =
  s_init_network :: "jsval reply"
  s_signer :: "signer reply"
  s_network :: "jsval reply"
  s_address :: "string reply"
  s_nonce :: "int reply"
  s_gas :: "nat reply"
  s_fee :: "(int option \<times> int option) reply"
  s_send :: "unit reply"
  s_wait :: "unit reply"

definition chain_switch_failed :: "jsnumber \<Rightarrow> jsnumber \<Rightarrow> js_error" where
  "chain_switch_failed targetChainId currentChainId =
     Error_msg (''Failed to switch to the correct chain. Expected '' @ toString 10 targetChainId
                  @ '', got '' @ toString 10 currentChainId)"

text \<open>
  Lines 288 to 301 of page A and 804 to 815 of page C, after \<^verbatim>\<open>switchChain\<close> has returned:
  the delay of 2000 ms, \<^verbatim>\<open>initializeProvider\<close>, the signer, the network read again and
  compared with the target by \<^verbatim>\<open>!==\<close>.
\<close>

definition revalidate_chain ::
  "app_state \<Rightarrow> jsnumber \<Rightarrow> send_env \<Rightarrow> app_state \<Rightarrow> unit outcome" where
  "revalidate_chain snap targetChainId e st =
     (case initializeProvider snap (s_init_network e) (logs (Delay 2000) st) of
        Pending s \<Rightarrow> Pending s
      | Throws x s \<Rightarrow> Throws x s
      | Returns None s \<Rightarrow> Throws TypeError s
      | Returns (Some newBrowserProvider) s \<Rightarrow>
          (case s_signer e of
             NoReply \<Rightarrow> Pending s
           | Rejects x \<Rightarrow> Throws x s
           | Resolves newSigner \<Rightarrow>
               (let s1 = s\<lparr>signer := Some newSigner\<rparr> in
                case s_network e of
                  NoReply \<Rightarrow> Pending s1
                | Rejects x \<Rightarrow> Throws x s1
                | Resolves network_chainId \<Rightarrow>
                    (let currentChainId = sanitizeChainId network_chainId in
                     if strict_eq currentChainId targetChainId
                     then Returns () s1
                     else Throws (chain_switch_failed targetChainId currentChainId) s1))))"

text \<open>
  The submission, lines 327 to 331 of page A and 832 to 836 of page C. The signer is the
  one of the closure, not the one derived after the switch.
\<close>

definition submit :: "signer \<Rightarrow> transaction \<Rightarrow> string \<Rightarrow> send_env \<Rightarrow> app_state \<Rightarrow> unit outcome" where
  "submit sg tx name e st =
     (let st1 = logs (SendTransaction sg tx) st in
      case s_send e of
        NoReply \<Rightarrow> Pending st1
      | Rejects x \<Rightarrow> Throws x st1
      | Resolves _ \<Rightarrow>
          (case s_wait e of
             NoReply \<Rightarrow> Pending st1
           | Rejects x \<Rightarrow> Throws x st1
           | Resolves _ \<Rightarrow>
               Returns ()
                 (showToast TSuccess ''Transaction Sent''
                    (''Transaction successfully sent on '' @ name) st1)))"

text \<open>
  Lines 305 to 331 of page A: address, nonce, gas estimate, the transaction with
  \<^verbatim>\<open>chainId: targetChainId\<close>, the fee data, the submission.
\<close>

definition build_and_send_A ::
  "app_state \<Rightarrow> signer \<Rightarrow> jsnumber \<Rightarrow> string \<Rightarrow> send_env \<Rightarrow> app_state \<Rightarrow> unit outcome" where
  "build_and_send_A snap sg targetChainId name e st =
     (case s_address e of
        NoReply \<Rightarrow> Pending st
      | Rejects x \<Rightarrow> Throws x st
      | Resolves addr \<Rightarrow>
          (case browserProvider snap of
             None \<Rightarrow> Throws TypeError st
           | Some bp \<Rightarrow>
               (case s_nonce e of
                  NoReply \<Rightarrow> Pending st
                | Rejects x \<Rightarrow> Throws x st
                | Resolves nonce \<Rightarrow>
                    (case s_gas e of
                       NoReply \<Rightarrow> Pending st
                     | Rejects x \<Rightarrow> Throws x st
                     | Resolves gasLimit \<Rightarrow>
                         (case s_fee e of
                            NoReply \<Rightarrow> Pending st
                          | Rejects x \<Rightarrow> Throws x st
                          | Resolves (maxFee, maxPriority) \<Rightarrow>
                              submit sg
                                \<lparr>tx_to = addr, tx_value = 0, tx_nonce = nonce, tx_data = None,
                                 tx_gasLimit = Some (int ((gasLimit * 120) div 100)),
                                 tx_chainId = targetChainId,
                                 tx_maxFeePerGas = maxFee,
                                 tx_maxPriorityFeePerGas = maxPriority,
                                 tx_type = Some 2\<rparr>
                                name e st)))))"

text \<open>Lines 818 to 836 of page C: no gas estimate and no fee data.\<close>

definition build_and_send_C ::
  "app_state \<Rightarrow> signer \<Rightarrow> jsnumber \<Rightarrow> string \<Rightarrow> send_env \<Rightarrow> app_state \<Rightarrow> unit outcome" where
  "build_and_send_C snap sg targetChainId name e st =
     (case s_address e of
        NoReply \<Rightarrow> Pending st
      | Rejects x \<Rightarrow> Throws x st
      | Resolves addr \<Rightarrow>
          (case browserProvider snap of
             None \<Rightarrow> Throws TypeError st
           | Some bp \<Rightarrow>
               (case s_nonce e of
                  NoReply \<Rightarrow> Pending st
                | Rejects x \<Rightarrow> Throws x st
                | Resolves nonce \<Rightarrow>
                    submit sg
                      \<lparr>tx_to = addr, tx_value = 0, tx_nonce = nonce, tx_data = Some ''0x'',
                       tx_gasLimit = None, tx_chainId = targetChainId,
                       tx_maxFeePerGas = None, tx_maxPriorityFeePerGas = None,
                       tx_type = None\<rparr>
                      name e st)))"

text \<open>The \<^verbatim>\<open>catch\<close> and \<^verbatim>\<open>finally\<close> of \<^verbatim>\<open>sendTransaction\<close>.\<close>

definition send_finish :: "string \<Rightarrow> unit outcome \<Rightarrow> unit outcome" where
  "send_finish name r =
     (case r of
        Pending s \<Rightarrow> Pending s
      | Returns _ s \<Rightarrow> Returns () (s\<lparr>isSendingTransaction := False\<rparr>)
      | Throws error s \<Rightarrow>
          Returns ()
            ((showToast TError ''Transaction Error''
                (''Failed to send transaction on '' @ name @ '': '' @ err_message error) s)
             \<lparr>isSendingTransaction := False\<rparr>))"

text \<open>
  The \<^verbatim>\<open>try\<close> block of \<^verbatim>\<open>sendTransaction\<close>; \<open>switch\<close> is the run of \<^verbatim>\<open>switchChain\<close> of the
  page and \<open>build\<close> its way of building and sending. \<^verbatim>\<open>switchChain\<close> catches what it
  throws, so only its \<open>Returns\<close> and \<open>Pending\<close> cases arise.
\<close>

definition send_try ::
  "(app_state \<Rightarrow> unit outcome) \<Rightarrow> (jsnumber \<Rightarrow> app_state \<Rightarrow> unit outcome)
     \<Rightarrow> (string \<rightharpoonup> chain_config) \<Rightarrow> app_state \<Rightarrow> string \<Rightarrow> send_env \<Rightarrow> app_state
     \<Rightarrow> unit outcome" where
  "send_try switch build cfg snap name e st =
     (case cfg name of
        None \<Rightarrow> Throws (Error_msg (''Invalid chain name: '' @ name)) st
      | Some chainConfig \<Rightarrow>
          (let targetChainId = sanitizeChainId (cfg_chainId chainConfig) in
           if \<not> on_chain (chainId snap) targetChainId then
             (case switch st of
                Pending s \<Rightarrow> Pending s
              | Throws x s \<Rightarrow> Throws x s
              | Returns _ s \<Rightarrow>
                  (case revalidate_chain snap targetChainId e s of
                     Pending s1 \<Rightarrow> Pending s1
                   | Throws x s1 \<Rightarrow> Throws x s1
                   | Returns _ s1 \<Rightarrow> build targetChainId s1))
           else build targetChainId st))"

definition sendTransaction_A ::
  "(string \<rightharpoonup> chain_config) \<Rightarrow> app_state \<Rightarrow> string \<Rightarrow> switch_env list \<Rightarrow> send_env
     \<Rightarrow> app_state \<Rightarrow> unit outcome" where
  "sendTransaction_A cfg snap name es e st =
     (case signer snap of
        None \<Rightarrow> Returns () st
      | Some sg \<Rightarrow>
          send_finish name
            (send_try (switchChain_AB PageA cfg snap name es)
               (\<lambda>targetChainId. build_and_send_A snap sg targetChainId name e)
               cfg snap name e (st\<lparr>isSendingTransaction := True\<rparr>)))"

definition sendTransaction_C ::
  "(string \<rightharpoonup> chain_config) \<Rightarrow> app_state \<Rightarrow> string \<Rightarrow> switch_env \<Rightarrow> send_env
     \<Rightarrow> app_state \<Rightarrow> unit outcome" where
  "sendTransaction_C cfg snap name sw e st =
     (case signer snap of
        None \<Rightarrow> Returns () st
      | Some sg \<Rightarrow>
          send_finish name
            (send_try (switchChain_C cfg snap name sw)
               (\<lambda>targetChainId. build_and_send_C snap sg targetChainId name e)
               cfg snap name e (st\<lparr>isSendingTransaction := True\<rparr>)))"

subsection \<open>Reading the log\<close>

fun is_toast :: "effect \<Rightarrow> bool" where
  "is_toast (Toast _ _ _) = True"
| "is_toast _ = False"

fun is_request :: "effect \<Rightarrow> bool" where
  "is_request (Request _ _) = True"
| "is_request _ = False"

fun is_send :: "effect \<Rightarrow> bool" where
  "is_send (SendTransaction _ _) = True"
| "is_send _ = False"

text \<open>The toasts shown, the requests made and the transactions submitted so far, in order.\<close>

definition toasts :: "app_state \<Rightarrow> effect list" where
  "toasts st = filter is_toast (log st)"

definition requests :: "app_state \<Rightarrow> effect list" where
  "requests st = filter is_request (log st)"

definition sent :: "app_state \<Rightarrow> effect list" where
  "sent st = filter is_send (log st)"

definition uuids :: "descriptor list \<Rightarrow> string list" where
  "uuids reg = map (\<lambda>p. uuid (d_info p)) reg"

definition announce_all :: "descriptor list \<Rightarrow> app_state \<Rightarrow> app_state" where
  "announce_all ds st = foldl (\<lambda>s d. handleEip6963Announce d s) st ds"

subsection \<open>Sample values\<close>

text \<open>Concrete wallets, chains and answers, used where a statement is run on an input.\<close>

definition injected :: transport where
  "injected = \<lparr>tid = 1, has_disconnect = False, isTrust = False, isCoinbaseWallet = False\<rparr>"

definition trust_wallet :: transport where
  "trust_wallet = \<lparr>tid = 2, has_disconnect = False, isTrust = True, isCoinbaseWallet = False\<rparr>"

definition wc_transport :: transport where
  "wc_transport = \<lparr>tid = 3, has_disconnect = True, isTrust = False, isCoinbaseWallet = False\<rparr>"

definition metamask :: descriptor where
  "metamask = \<lparr>d_info = \<lparr>uuid = ''u-1'', wname = ''MetaMask'', rdns = ''io.metamask'', icon = []\<rparr>,
     d_provider = Some injected\<rparr>"

definition metamask_again :: descriptor where
  "metamask_again = \<lparr>d_info = \<lparr>uuid = ''u-1'', wname = ''MetaMask Flask'', rdns = ''io.metamask.flask'',
     icon = []\<rparr>, d_provider = Some trust_wallet\<rparr>"

definition rabby :: descriptor where
  "rabby = \<lparr>d_info = \<lparr>uuid = ''u-2'', wname = ''Rabby'', rdns = ''io.rabby'', icon = []\<rparr>,
     d_provider = Some trust_wallet\<rparr>"

definition walletconnect_button :: descriptor where
  "walletconnect_button = \<lparr>d_info = \<lparr>uuid = [], wname = [], rdns = ''walletconnect'', icon = []\<rparr>,
     d_provider = None\<rparr>"

definition polygon :: chain_config where
  "polygon = \<lparr>cfg_chainId = JString (units ''0x89''), chainName = ''Polygon Mainnet'',
     nativeCurrency = \<lparr>cur_name = ''POL'', cur_symbol = ''POL'', cur_decimals = 18\<rparr>,
     rpcUrls = [''https://polygon-rpc.com''], blockExplorerUrls = [''https://polygonscan.com'']\<rparr>"

definition chains :: "string \<rightharpoonup> chain_config" where
  "chains = [''polygon'' \<mapsto> polygon]"

definition rejected :: js_error where
  "rejected = \<lparr>err_code = Some 4001, err_message = ''User rejected the request.'',
     err_orig_code = None\<rparr>"

definition unrecognized :: js_error where
  "unrecognized = \<lparr>err_code = Some 4902, err_message = ''Unrecognized chain ID'',
     err_orig_code = None\<rparr>"

text \<open>A wallet that grants everything and sits on chain 1.\<close>

definition granting :: connect_env where
  "granting = \<lparr>wc_init = Resolves wc_transport, wc_enable = Resolves (),
     window_ethereum = Some injected, window_ethereum_providers = None,
     sdk_provider = injected, accounts_reply = Resolves (),
     signer_reply = Resolves (Signer 1),
     address_reply = Resolves ''0x52908400098527886E0F7030069857D2E4169EE7'',
     network_reply = Resolves (JBigInt 1),
     effect_network = Resolves (JBigInt 1), effect_late = False\<rparr>"

text \<open>The state of page C after a connect to \<open>metamask\<close> that was granted.\<close>

definition connected :: app_state where
  "connected = final (connectWallet_C granting metamask initial_state)"

text \<open>The state of page A after the same connect.\<close>

definition connected_A :: app_state where
  "connected_A = final (connectWallet_A granting metamask initial_state)"

subsection \<open>Inputs on which a connect is refused\<close>

definition is_rejected :: "'a reply \<Rightarrow> bool" where
  "is_rejected r = (case r of Rejects _ \<Rightarrow> True | _ \<Rightarrow> False)"

definition is_resolved :: "'a reply \<Rightarrow> bool" where
  "is_resolved r = (case r of Resolves _ \<Rightarrow> True | _ \<Rightarrow> False)"

text \<open>
  The WalletConnect transport cannot be built, or its \<^verbatim>\<open>enable\<close> is rejected.
\<close>

definition wc_refused :: "connect_env \<Rightarrow> bool" where
  "wc_refused e = (is_rejected (wc_init e) \<or> (is_resolved (wc_init e) \<and> is_rejected (wc_enable e)))"

text \<open>
  Page A: WalletConnect is refused, or the descriptor has no transport, or
  \<^verbatim>\<open>eth_requestAccounts\<close> is rejected.
\<close>

definition refused_A :: "connect_env \<Rightarrow> descriptor \<Rightarrow> bool" where
  "refused_A e d =
     (if str_includes (rdns (d_info d)) ''walletconnect'' then wc_refused e
      else d_provider d = None \<or> is_rejected (accounts_reply e))"

text \<open>
  Page C: the same, and for a Trust descriptor also that \<^verbatim>\<open>window.ethereum\<close> is missing or
  is not Trust Wallet; a Coinbase descriptor always has a transport, the injected one or
  the one the SDK makes.
\<close>

definition trust_missing :: "connect_env \<Rightarrow> bool" where
  "trust_missing e = (case window_ethereum e of None \<Rightarrow> True | Some w \<Rightarrow> \<not> isTrust w)"

definition refused_C :: "connect_env \<Rightarrow> descriptor \<Rightarrow> bool" where
  "refused_C e d =
     (if str_includes (rdns (d_info d)) ''walletconnect'' then wc_refused e
      else if str_includes (rdns (d_info d)) ''trust'' then
        trust_missing e \<or> is_rejected (accounts_reply e)
      else if str_includes (rdns (d_info d)) ''coinbase'' then is_rejected (accounts_reply e)
      else d_provider d = None \<or> is_rejected (accounts_reply e))"

text \<open>
  Inputs on which a connect fails after the authorisation. \<open>authorized_A\<close> and
  \<open>authorized_C\<close> give the transport a connect gets as far as authorising: the WalletConnect
  transport that was built and enabled, or the transport of the branch when its
  \<^verbatim>\<open>eth_requestAccounts\<close> was granted. \<open>derive_fails\<close> says that one of the three queries on the
  new \<^verbatim>\<open>BrowserProvider\<close> is rejected, those before it being answered.
\<close>

definition wc_authorized :: "connect_env \<Rightarrow> transport option" where
  "wc_authorized e =
     (case wc_init e of
        Resolves w \<Rightarrow> if is_resolved (wc_enable e) then Some w else None
      | _ \<Rightarrow> None)"

definition granted :: "connect_env \<Rightarrow> transport option \<Rightarrow> transport option" where
  "granted e p = (if is_resolved (accounts_reply e) then p else None)"

definition authorized_A :: "connect_env \<Rightarrow> descriptor \<Rightarrow> transport option" where
  "authorized_A e d =
     (if str_includes (rdns (d_info d)) ''walletconnect'' then wc_authorized e
      else granted e (d_provider d))"

definition authorized_C :: "connect_env \<Rightarrow> descriptor \<Rightarrow> transport option" where
  "authorized_C e d =
     (if str_includes (rdns (d_info d)) ''walletconnect'' then wc_authorized e
      else if str_includes (rdns (d_info d)) ''trust'' then
        (if trust_missing e then None else granted e (window_ethereum e))
      else if str_includes (rdns (d_info d)) ''coinbase'' then
        granted e (Some (case coinbase_injected e of Some w \<Rightarrow> w | None \<Rightarrow> sdk_provider e))
      else granted e (d_provider d))"

definition derive_fails :: "connect_env \<Rightarrow> bool" where
  "derive_fails e =
     (case signer_reply e of
        Rejects _ \<Rightarrow> True
      | NoReply \<Rightarrow> False
      | Resolves _ \<Rightarrow>
          (case address_reply e of
             Rejects _ \<Rightarrow> True
           | NoReply \<Rightarrow> False
           | Resolves _ \<Rightarrow> is_rejected (network_reply e)))"

text \<open>
  What such a connect leaves, \<open>st\<close> being the state before and \<open>st'\<close> the state after:
  \<^verbatim>\<open>provider\<close> holds the transport \<open>t\<close>; \<^verbatim>\<open>signer\<close>, \<^verbatim>\<open>address\<close> and \<^verbatim>\<open>selectedWallet\<close> are as
  before; \<^verbatim>\<open>browserProvider\<close> and \<^verbatim>\<open>chainId\<close> are as before unless the effect on \<^verbatim>\<open>provider\<close> ran (the
  cell held another object before) and its network query was answered, and then they
  hold a \<^verbatim>\<open>BrowserProvider\<close> around \<open>t\<close> and the chain id that the effect read.
\<close>

definition half_connected :: "connect_env \<Rightarrow> transport \<Rightarrow> app_state \<Rightarrow> app_state \<Rightarrow> bool" where
  "half_connected e t st st' =
     (provider st' = Some t \<and> signer st' = signer st \<and> address st' = address st
      \<and> selectedWallet st' = selectedWallet st
      \<and> (case effect_network e of
           Resolves n \<Rightarrow>
             if provider st = Some t
             then browserProvider st' = browserProvider st \<and> chainId st' = chainId st
             else browserProvider st' = Some (BrowserProvider t)
                  \<and> chainId st' = Some (sanitizeChainId n)
         | _ \<Rightarrow> browserProvider st' = browserProvider st \<and> chainId st' = chainId st))"

text \<open>The listeners page C has registered on the transport by then.\<close>

definition registered_C :: "descriptor \<Rightarrow> transport \<Rightarrow> (transport \<times> string \<times> handler) list" where
  "registered_C d t =
     [(t, ''accountsChanged'', HandleAccountsChanged), (t, ''chainChanged'', HandleChainChanged)]
     @ (if str_includes (rdns (d_info d)) ''walletconnect''
        then [(t, ''disconnect'', DisconnectHandler)] else [])"

text \<open>
  Inputs on which the authorisation is never answered: the WalletConnect constructor or
  its \<^verbatim>\<open>enable\<close>, or the \<^verbatim>\<open>eth_requestAccounts\<close> of a branch that has a transport.
\<close>

definition wc_unanswered :: "connect_env \<Rightarrow> bool" where
  "wc_unanswered e = (wc_init e = NoReply \<or> (is_resolved (wc_init e) \<and> wc_enable e = NoReply))"

definition unanswered_A :: "connect_env \<Rightarrow> descriptor \<Rightarrow> bool" where
  "unanswered_A e d =
     (if str_includes (rdns (d_info d)) ''walletconnect'' then wc_unanswered e
      else d_provider d \<noteq> None \<and> accounts_reply e = NoReply)"

definition unanswered_C :: "connect_env \<Rightarrow> descriptor \<Rightarrow> bool" where
  "unanswered_C e d =
     (if str_includes (rdns (d_info d)) ''walletconnect'' then wc_unanswered e
      else if str_includes (rdns (d_info d)) ''trust'' then
        \<not> trust_missing e \<and> accounts_reply e = NoReply
      else if str_includes (rdns (d_info d)) ''coinbase'' then accounts_reply e = NoReply
      else d_provider d \<noteq> None \<and> accounts_reply e = NoReply)"

definition connection_error :: effect where
  "connection_error = Toast TError ''Connection Error'' ''Failed to connect wallet. Please try again.''"

definition is_connected_toast :: "effect \<Rightarrow> bool" where
  "is_connected_toast t = (case t of Toast TSuccess title _ \<Rightarrow> title = ''Wallet Connected'' | _ \<Rightarrow> False)"

text \<open>
  What the \<^verbatim>\<open>try\<close> block of a connect may add to the toasts: nothing when it throws, the
  toast of success when it returns.
\<close>

definition one_more_toast :: "app_state \<Rightarrow> app_state \<Rightarrow> bool" where
  "one_more_toast st s =
     (case drop (length (toasts st)) (toasts s) of
        [t] \<Rightarrow> toasts s = toasts st @ [t] \<and> is_connected_toast t
      | _ \<Rightarrow> False)"

definition try_ok :: "app_state \<Rightarrow> unit outcome \<Rightarrow> bool" where
  "try_ok st r = (case r of
       Pending s \<Rightarrow> True
     | Throws x s \<Rightarrow> toasts s = toasts st
     | Returns _ s \<Rightarrow> one_more_toast st s)"

text \<open>
  Three wallets: one rejects \<^verbatim>\<open>eth_requestAccounts\<close>; one grants it and then gives no
  signer, while it answers chain 137 to the network query of the effect; one never answers
  \<^verbatim>\<open>eth_requestAccounts\<close>.
\<close>

definition denying :: connect_env where
  "denying = granting\<lparr>accounts_reply := Rejects rejected\<rparr>"

definition signer_fails :: connect_env where
  "signer_fails = granting\<lparr>signer_reply := Rejects rejected,
     effect_network := Resolves (JBigInt 137)\<rparr>"

definition ignoring :: connect_env where
  "ignoring = granting\<lparr>accounts_reply := NoReply\<rparr>"

text \<open>
  Answers to a chain switch: \<open>switching\<close> accepts the request, emits \<^verbatim>\<open>chainChanged\<close> after
  300 ms and is on chain 137 afterwards; \<open>never_emits\<close> does the same without the event;
  \<open>stays_on_1\<close> accepts the request and stays on chain 1; \<open>emit_fails\<close> is \<open>switching\<close> on
  a transport whose \<^verbatim>\<open>emit\<close> throws; \<open>unknown_then_added\<close> reports the chain as unknown and
  accepts the add request.
\<close>

definition switching :: switch_env where
  "switching = \<lparr>switch_reply = Resolves (), add_reply = Resolves (), chain_event = Some 300,
     init_network = Resolves (JBigInt 137), new_signer = Resolves (Signer 2),
     again_network = Resolves (JBigInt 137), emit_throws = False,
     handler_provider = None\<rparr>"

definition never_emits :: switch_env where
  "never_emits = switching\<lparr>chain_event := None\<rparr>"

definition stays_on_1 :: switch_env where
  "stays_on_1 = switching\<lparr>init_network := Resolves (JBigInt 1),
     again_network := Resolves (JBigInt 1)\<rparr>"

definition emit_fails :: switch_env where
  "emit_fails = switching\<lparr>emit_throws := True\<rparr>"

definition unknown_then_added :: switch_env where
  "unknown_then_added = switching\<lparr>switch_reply := Rejects unrecognized\<rparr>"

text \<open>The state of page C after a granted connect through the WalletConnect button.\<close>

definition wc_connected :: app_state where
  "wc_connected = final (connectWallet_C granting walletconnect_button initial_state)"

text \<open>A Session on the Trust Wallet transport, on chain 1.\<close>

definition trust_connected :: app_state where
  "trust_connected = connected_A\<lparr>provider := Some trust_wallet,
     browserProvider := Some (BrowserProvider trust_wallet),
     selectedWallet := Some (d_info rabby),
     listeners := [(trust_wallet, ''accountsChanged'', HandleAccountsChanged),
                   (trust_wallet, ''chainChanged'', HandleChainChanged)]\<rparr>"

subsection \<open>Requests of a chain switch\<close>

text \<open>
  The two requests a chain switch can make, and the condition under which page C falls
  back to \<^verbatim>\<open>addNetwork\<close>: no WalletConnect transport, and a switch request rejected with
  code 4902.
\<close>

definition switch_request :: "transport \<Rightarrow> jsnumber \<Rightarrow> effect" where
  "switch_request a target = Request a (SwitchEthereumChain (formatChainId target))"

definition add_request :: "transport \<Rightarrow> chain_config \<Rightarrow> jsnumber \<Rightarrow> effect" where
  "add_request a c target = Request a (AddEthereumChain (add_params_of c (formatChainId target)))"

definition fallback_C :: "app_state \<Rightarrow> switch_env \<Rightarrow> bool" where
  "fallback_C snap e = (wcProvider snap = None \<and>
     (case switch_reply e of Rejects err \<Rightarrow> err_code err = Some 4902 | _ \<Rightarrow> False))"

text \<open>
  More answers to a chain switch: the add request is rejected; the switch request is
  rejected by the user; the unknown chain is reported in the wrapped form, code -32603 with
  \<^verbatim>\<open>data.originalError.code\<close> 4902.
\<close>

definition unknown_add_rejected :: switch_env where
  "unknown_add_rejected = unknown_then_added\<lparr>add_reply := Rejects rejected\<rparr>"

definition switch_rejected :: switch_env where
  "switch_rejected = switching\<lparr>switch_reply := Rejects rejected\<rparr>"

definition wrapped_unknown :: switch_env where
  "wrapped_unknown = switching\<lparr>switch_reply := Rejects
     \<lparr>err_code = Some (- 32603), err_message = ''Internal JSON-RPC error.'',
      err_orig_code = Some 4902\<rparr>\<rparr>"

subsection \<open>Outcome of a test transaction\<close>

text \<open>The toast of the \<^verbatim>\<open>catch\<close> block of \<^verbatim>\<open>sendTransaction\<close> for a thrown error.\<close>

definition transaction_error :: "string \<Rightarrow> js_error \<Rightarrow> effect" where
  "transaction_error name error =
     Toast TError ''Transaction Error''
       (''Failed to send transaction on '' @ name @ '': '' @ err_message error)"

text \<open>
  A run submits nothing, or submits one transaction, signed by \<open>sg\<close>, whose \<^verbatim>\<open>chainId\<close> is
  \<open>target\<close>.
\<close>

definition submits_at_most :: "signer \<Rightarrow> jsnumber \<Rightarrow> app_state \<Rightarrow> app_state \<Rightarrow> bool" where
  "submits_at_most sg target st s =
     (sent s = sent st \<or>
      (case drop (length (sent st)) (sent s) of
         [SendTransaction g tx] \<Rightarrow>
           sent s = sent st @ [SendTransaction g tx] \<and> g = sg \<and> tx_chainId tx = target
       | _ \<Rightarrow> False))"

text \<open>The network read after the switch answers the target chain.\<close>

definition revalidated :: "send_env \<Rightarrow> jsnumber \<Rightarrow> bool" where
  "revalidated e target =
     (case s_network e of Resolves n \<Rightarrow> strict_eq (sanitizeChainId n) target | _ \<Rightarrow> False)"

text \<open>
  The checks between \<^verbatim>\<open>switchChain\<close> and the building of the transaction all pass: the
  closure has a transport, \<^verbatim>\<open>initializeProvider\<close> and the signer are answered, and the network
  read answers the target.
\<close>

definition reread_ok :: "app_state \<Rightarrow> send_env \<Rightarrow> jsnumber \<Rightarrow> bool" where
  "reread_ok snap e target =
     (provider snap \<noteq> None \<and> is_resolved (s_init_network e) \<and> is_resolved (s_signer e)
      \<and> revalidated e target)"

text \<open>
  Answers to a test transaction: everything is granted and the network read after the
  switch is chain 137, or chain 1, or chain 137 with the nonce query rejected.
\<close>

definition sending :: send_env where
  "sending = \<lparr>s_init_network = Resolves (JBigInt 137), s_signer = Resolves (Signer 3),
     s_network = Resolves (JBigInt 137),
     s_address = Resolves ''0x52908400098527886E0F7030069857D2E4169EE7'',
     s_nonce = Resolves 7, s_gas = Resolves 21000, s_fee = Resolves (Some 30, Some 2),
     s_send = Resolves (), s_wait = Resolves ()\<rparr>"

definition nonce_rejected :: send_env where
  "nonce_rejected = sending\<lparr>s_nonce := Rejects rejected\<rparr>"

definition still_on_1 :: send_env where
  "still_on_1 = sending\<lparr>s_init_network := Resolves (JBigInt 1), s_network := Resolves (JBigInt 1)\<rparr>"

text \<open>
  What holds of every run \<open>r\<close> of \<^verbatim>\<open>sendTransaction\<close> started in \<open>st\<close> on a chain other than
  the target: the first effect of the run is the switch request; at most one transaction
  is submitted, with the target as \<^verbatim>\<open>chainId\<close>; and one is submitted only when the network
  read after the switch answered the target.
\<close>

definition send_ok ::
  "signer \<Rightarrow> transport \<Rightarrow> jsnumber \<Rightarrow> send_env \<Rightarrow> app_state \<Rightarrow> unit outcome \<Rightarrow> bool" where
  "send_ok sg a target e st r =
     (prefix (log st @ [switch_request a target]) (log (final r))
      \<and> submits_at_most sg target st (final r)
      \<and> (sent (final r) \<noteq> sent st \<longrightarrow> revalidated e target))"

text \<open>
  The failure of the specification called ChainSwitchFailed: the run settles, nothing is
  submitted, and the last toast is \<^verbatim>\<open>Transaction Error\<close> with the message
  \<^verbatim>\<open>Failed to switch to the correct chain. Expected ..., got ...\<close>. The pages have no
  error of that name; the message is what tells this failure from another.
\<close>

definition mismatch_fails ::
  "string \<Rightarrow> jsnumber \<Rightarrow> jsnumber \<Rightarrow> app_state \<Rightarrow> unit outcome \<Rightarrow> bool" where
  "mismatch_fails name target current st r =
     (settled r \<and> sent (final r) = sent st
      \<and> last (toasts (final r)) = transaction_error name (chain_switch_failed target current))"
text \<open>
  A failure with another error \<open>x\<close>: the run settles, nothing is submitted, and the last
  toast is \<^verbatim>\<open>Transaction Error\<close> with the message of \<open>x\<close>.
\<close>

definition fails_with :: "string \<Rightarrow> js_error \<Rightarrow> app_state \<Rightarrow> unit outcome \<Rightarrow> bool" where
  "fails_with name x st r =
     (settled r \<and> sent (final r) = sent st
      \<and> last (toasts (final r)) = transaction_error name x)"

subsection \<open>Shapes of a chain id string\<close>

text \<open>
  What may follow the digits of a number in a string: nothing, or a code unit that is no
  hexadecimal digit. And what may follow the white space of a string that has no sign:
  nothing, or a code unit that is neither white space nor a sign.
\<close>

definition no_digit_next :: "nat list \<Rightarrow> bool" where
  "no_digit_next rest = (case rest of [] \<Rightarrow> True | u # _ \<Rightarrow> \<not> is_hex u)"

definition no_sign_next :: "nat list \<Rightarrow> bool" where
  "no_sign_next rest = (case rest of [] \<Rightarrow> True | u # _ \<Rightarrow> \<not> is_ws u \<and> u \<noteq> 43 \<and> u \<noteq> 45)"

section \<open>Properties\<close>

subsection \<open>Provider registry\<close>

lemma announce_known: "uuid (d_info d) \<in> set (uuids reg) \<Longrightarrow> announce reg d = reg"
  by (auto simp: announce_def uuids_def list_ex_iff)

lemma announce_new: "uuid (d_info d) \<notin> set (uuids reg) \<Longrightarrow> announce reg d = reg @ [d]"
  unfolding announce_def uuids_def list_ex_iff by (auto simp: image_iff)

lemma announce_distinct: "distinct (uuids reg) \<Longrightarrow> distinct (uuids (announce reg d))"
  by (cases "uuid (d_info d) \<in> set (uuids reg)")
     (simp_all add: announce_known announce_new, simp add: uuids_def)

lemma announce_set: "set (uuids (announce reg d)) = insert (uuid (d_info d)) (set (uuids reg))"
  by (cases "uuid (d_info d) \<in> set (uuids reg)")
     (auto simp add: announce_known announce_new, auto simp add: uuids_def)

lemma announce_all_reg:
  "eip6963Providers (announce_all ds st) = foldl announce (eip6963Providers st) ds"
  unfolding announce_all_def
  by (induction ds arbitrary: st) (simp_all add: handleEip6963Announce_def)

lemma foldl_announce_distinct:
  "distinct (uuids reg) \<Longrightarrow> distinct (uuids (foldl announce reg ds))"
  by (induction ds arbitrary: reg) (simp_all add: announce_distinct)

lemma foldl_announce_set:
  "set (uuids (foldl announce reg ds)) = set (uuids reg) \<union> set (uuids ds)"
proof (induction ds arbitrary: reg)
  case Nil
  then show ?case by (simp add: uuids_def)
next
  case (Cons d ds)
  have "set (uuids (d # ds)) = insert (uuid (d_info d)) (set (uuids ds))"
    by (simp add: uuids_def)
  with Cons show ?case by (simp add: announce_set)
qed

lemma distinct_one_entry:
  "distinct (uuids reg) \<Longrightarrow> u \<in> set (uuids reg)
     \<Longrightarrow> length (filter (\<lambda>p. uuid (d_info p) = u) reg) = 1"
proof (induction reg)
  case Nil
  then show ?case by (simp add: uuids_def)
next
  case (Cons p reg)
  show ?case
  proof (cases "uuid (d_info p) = u")
    case True
    with Cons.prems have "u \<notin> set (uuids reg)" by (simp add: uuids_def)
    then have "filter (\<lambda>q. uuid (d_info q) = u) reg = []"
      by (auto simp: uuids_def filter_empty_conv)
    with True show ?thesis by simp
  next
    case False
    with Cons.prems have "distinct (uuids reg)" "u \<in> set (uuids reg)"
      by (auto simp: uuids_def)
    with Cons.IH False show ?thesis by simp
  qed
qed

text \<open>
  Claim C7. Whatever descriptors are announced, in whatever order and however often, a
  registry that held one entry per \<^verbatim>\<open>uuid\<close> (the empty one does) still holds one entry per
  \<^verbatim>\<open>uuid\<close>: the identifiers stay distinct, they are the old ones and the announced ones,
  every announced identifier has exactly one entry, and announcing a descriptor whose
  identifier is recorded changes nothing.
\<close>

theorem registry_one_entry_per_uuid:
  assumes "distinct (uuids (eip6963Providers st))"
  shows "distinct (uuids (eip6963Providers (announce_all ds st)))
       \<and> set (uuids (eip6963Providers (announce_all ds st)))
           = set (uuids (eip6963Providers st)) \<union> set (uuids ds)
       \<and> (\<forall>d \<in> set ds.
            length (filter (\<lambda>p. uuid (d_info p) = uuid (d_info d))
                      (eip6963Providers (announce_all ds st))) = 1)
       \<and> (uuid (d_info d') \<in> set (uuids (eip6963Providers (announce_all ds st)))
            \<longrightarrow> handleEip6963Announce d' (announce_all ds st) = announce_all ds st)"
proof -
  let ?reg = "eip6963Providers (announce_all ds st)"
  have 1: "distinct (uuids ?reg)"
    using assms by (simp add: announce_all_reg foldl_announce_distinct)
  have 2: "set (uuids ?reg) = set (uuids (eip6963Providers st)) \<union> set (uuids ds)"
    by (simp add: announce_all_reg foldl_announce_set)
  have 3: "length (filter (\<lambda>p. uuid (d_info p) = uuid (d_info d)) ?reg) = 1"
    if "d \<in> set ds" for d
  proof -
    from that have "uuid (d_info d) \<in> set (uuids ds)" by (simp add: uuids_def)
    with 2 have "uuid (d_info d) \<in> set (uuids ?reg)" by simp
    with 1 show ?thesis by (rule distinct_one_entry)
  qed
  have 4: "handleEip6963Announce d' (announce_all ds st) = announce_all ds st"
    if "uuid (d_info d') \<in> set (uuids ?reg)"
    using that by (simp add: handleEip6963Announce_def announce_known)
  from 1 2 3 4 show ?thesis by blast
qed

theorem registry_one_entry_per_uuid_witness:
  "distinct (uuids (eip6963Providers initial_state))
   \<and> eip6963Providers (announce_all [metamask, rabby, metamask_again, metamask] initial_state)
       = [metamask, rabby]
   \<and> length (filter (\<lambda>p. uuid (d_info p) = uuid (d_info metamask_again))
        (eip6963Providers (announce_all [metamask, rabby, metamask_again, metamask] initial_state))) = 1
   \<and> handleEip6963Announce metamask_again
        (announce_all [metamask, rabby, metamask_again, metamask] initial_state)
       = announce_all [metamask, rabby, metamask_again, metamask] initial_state"
proof -
  have h: "distinct (uuids (eip6963Providers initial_state))"
    by (simp add: initial_state_def uuids_def)
  have r: "eip6963Providers (announce_all [metamask, rabby, metamask_again, metamask] initial_state)
             = [metamask, rabby]"
    by (simp add: announce_all_def handleEip6963Announce_def announce_def initial_state_def
          metamask_def rabby_def metamask_again_def)
  have u: "uuid (d_info metamask_again) \<in> set (uuids [metamask, rabby])"
    by (simp add: uuids_def metamask_def metamask_again_def)
  from registry_one_entry_per_uuid [OF h, of "[metamask, rabby, metamask_again, metamask]" metamask_again]
  show ?thesis using h r u by simp
qed

subsection \<open>Chain id normalisation\<close>

lemma units_simps:
  "units [] = []" "units (c # cs) = of_char c # units cs" "units (a @ b) = units a @ units b"
  by (simp_all add: units_def)

lemma units_prefix: "units ''0x'' = [48, 120]" "units ''0X'' = [48, 88]"
  "units ''+'' = [43]" "units ''-'' = [45]"
  by (simp_all add: units_def)

lemma to_number_exact: "\<bar>n\<bar> < 2 ^ 53 \<Longrightarrow> to_number n = Num n"
  by (auto simp add: to_number_def round_nat_def)

lemma hex_not_other:
  "is_hex u \<Longrightarrow> \<not> is_ws u \<and> u \<noteq> 45 \<and> u \<noteq> 43 \<and> u \<noteq> 120 \<and> u \<noteq> 88"
  by (auto simp: is_hex_def is_ws_def)

lemma dropWhile_run:
  assumes "list_all P ws" "case ys of [] \<Rightarrow> True | u # _ \<Rightarrow> \<not> P u"
  shows "dropWhile P (ws @ ys) = ys"
  using assms by (cases ys) (simp_all add: dropWhile_append2 list_all_iff)

lemma takeWhile_run:
  assumes "list_all P ds" "case ys of [] \<Rightarrow> True | u # _ \<Rightarrow> \<not> P u"
  shows "takeWhile P (ds @ ys) = ds"
  using assms by (cases ys) (simp_all add: takeWhile_append2 list_all_iff)

lemma strip_sign_minus: "strip_sign (45 # y) = (True, y)"
  by (simp add: strip_sign_def)

lemma strip_sign_plus: "strip_sign (43 # y) = (False, y)"
  by (simp add: strip_sign_def)

lemma strip_sign_none:
  "(case y of [] \<Rightarrow> True | u # _ \<Rightarrow> u \<noteq> 43 \<and> u \<noteq> 45) \<Longrightarrow> strip_sign y = (False, y)"
  by (cases y) (simp_all add: strip_sign_def)

lemma strip_0x_prefix: "strip_0x (48 # 120 # y) = y" "strip_0x (48 # 88 # y) = y"
  by (simp_all add: strip_0x_def starts_0x_def)

lemma strip_0x_none: "\<not> starts_0x y \<Longrightarrow> strip_0x y = y"
  by (simp add: strip_0x_def)

lemma starts_0x_second:
  "starts_0x (a # b # y) \<longleftrightarrow> a = 48 \<and> (b = 120 \<or> b = 88)"
  "\<not> starts_0x [a]" "\<not> starts_0x []"
  by (auto simp add: starts_0x_def)

lemma digits_no_prefix:
  assumes "list_all is_hex ds" "no_digit_next rest" "length ds \<noteq> 1 \<or> rest = []"
  shows "\<not> starts_0x (ds @ rest)"
proof (cases ds)
  case Nil
  with assms show ?thesis
    by (cases rest) (auto simp add: starts_0x_def no_digit_next_def is_hex_def)
next
  case (Cons a as)
  show ?thesis
  proof (cases as)
    case Nil
    with Cons assms show ?thesis by (simp add: starts_0x_second)
  next
    case (Cons b bs)
    with assms \<open>ds = a # as\<close> have "is_hex b" by simp
    with hex_not_other [of b] Cons \<open>ds = a # as\<close> show ?thesis
      by (simp add: starts_0x_second)
  qed
qed

text \<open>The part of \<open>parseInt16\<close> after the white space and the sign.\<close>

lemma parse_body:
  assumes "pre = [] \<or> pre = [48, 120] \<or> pre = [48, 88]" "no_digit_next rest"
    "pre = [] \<longrightarrow> \<not> starts_0x (ds @ rest)" "list_all is_hex ds"
  shows "takeWhile is_hex (strip_0x (pre @ ds @ rest)) = ds"
proof -
  have t: "takeWhile is_hex (ds @ rest) = ds"
    using assms(2,4) by (intro takeWhile_run) (simp_all add: no_digit_next_def)
  from assms(1) show ?thesis
  proof (elim disjE)
    assume "pre = []"
    with assms(3) t show ?thesis by (simp add: strip_0x_none)
  next
    assume "pre = [48, 120]"
    with t show ?thesis by (simp add: strip_0x_prefix)
  next
    assume "pre = [48, 88]"
    with t show ?thesis by (simp add: strip_0x_prefix)
  qed
qed

lemma body_head:
  assumes "pre = [] \<or> pre = [48, 120] \<or> pre = [48, 88]" "ds \<noteq> []" "list_all is_hex ds"
  shows "case pre @ ds @ rest of [] \<Rightarrow> True | u # _ \<Rightarrow> \<not> is_ws u \<and> u \<noteq> 43 \<and> u \<noteq> 45"
proof -
  obtain d ds' where ds: "ds = d # ds'" using assms(2) by (cases ds) auto
  with assms(3) have "is_hex d" by simp
  with hex_not_other [of d] have d: "\<not> is_ws d \<and> d \<noteq> 43 \<and> d \<noteq> 45" by simp
  have z: "\<not> is_ws 48" by (simp add: is_ws_def)
  from assms(1) d z ds show ?thesis by auto
qed

lemma parse_signed:
  assumes "list_all is_ws ws" "sn = [] \<or> sn = [43] \<or> sn = [45]"
    "sn = [] \<longrightarrow> (case y of [] \<Rightarrow> True | u # _ \<Rightarrow> \<not> is_ws u \<and> u \<noteq> 43 \<and> u \<noteq> 45)"
  shows "strip_sign (dropWhile is_ws (ws @ sn @ y)) = (sn = [45], y)"
proof -
  have w: "\<not> is_ws 43" "\<not> is_ws 45" by (simp_all add: is_ws_def)
  from assms(2) show ?thesis
  proof (elim disjE)
    assume s: "sn = []"
    with assms(3) have h: "case y of [] \<Rightarrow> True | u # _ \<Rightarrow> \<not> is_ws u"
      by (cases y) simp_all
    from s assms(3) have g: "case y of [] \<Rightarrow> True | u # _ \<Rightarrow> u \<noteq> 43 \<and> u \<noteq> 45"
      by (cases y) simp_all
    from dropWhile_run [OF assms(1) h] strip_sign_none [OF g] s show ?thesis by simp
  next
    assume s: "sn = [43]"
    have "dropWhile is_ws (ws @ 43 # y) = 43 # y"
      using assms(1) w by (intro dropWhile_run) simp_all
    with s show ?thesis by (simp add: strip_sign_plus)
  next
    assume s: "sn = [45]"
    have "dropWhile is_ws (ws @ 45 # y) = 45 # y"
      using assms(1) w by (intro dropWhile_run) simp_all
    with s show ?thesis by (simp add: strip_sign_minus)
  qed
qed

lemma parseInt16_number:
  assumes "list_all is_ws ws" "sn = [] \<or> sn = [43] \<or> sn = [45]"
    "pre = [] \<or> pre = [48, 120] \<or> pre = [48, 88]" "no_digit_next rest"
    "ds \<noteq> []" "list_all is_hex ds" "pre = [] \<longrightarrow> \<not> starts_0x (ds @ rest)"
  shows "parseInt16 (ws @ sn @ pre @ ds @ rest)
           = to_number ((if sn = [45] then - 1 else 1) * int (hex_value ds))"
proof -
  from parse_signed [OF assms(1,2), of "pre @ ds @ rest"] body_head [OF assms(3,5,6), of rest]
  have 1: "strip_sign (dropWhile is_ws (ws @ sn @ pre @ ds @ rest)) = (sn = [45], pre @ ds @ rest)"
    by simp
  from parse_body [OF assms(3,4,7,6)]
  have 2: "takeWhile is_hex (strip_0x (pre @ ds @ rest)) = ds" .
  from assms(5) show ?thesis by (simp add: parseInt16_def 1 2)
qed

lemma parseInt16_NaN:
  assumes "list_all is_ws ws" "sn = [] \<or> sn = [43] \<or> sn = [45]"
    "pre = [] \<or> pre = [48, 120] \<or> pre = [48, 88]" "no_digit_next rest"
    "sn = [] \<and> pre = [] \<longrightarrow> no_sign_next rest"
  shows "parseInt16 (ws @ sn @ pre @ rest) = NaN"
proof -
  have z: "\<not> is_ws 48" by (simp add: is_ws_def)
  have h: "sn = [] \<longrightarrow>
      (case pre @ rest of [] \<Rightarrow> True | u # _ \<Rightarrow> \<not> is_ws u \<and> u \<noteq> 43 \<and> u \<noteq> 45)"
    using assms(3,5) z by (auto simp add: no_sign_next_def)
  from parse_signed [OF assms(1,2) h]
  have 1: "strip_sign (dropWhile is_ws (ws @ sn @ pre @ rest)) = (sn = [45], pre @ rest)" .
  have n: "\<not> starts_0x rest"
    using assms(4) by (cases rest) (auto simp add: starts_0x_def no_digit_next_def is_hex_def)
  from parse_body [OF assms(3,4), of "[]"] n
  have 2: "takeWhile is_hex (strip_0x (pre @ rest)) = []" by simp
  show ?thesis by (simp add: parseInt16_def 1 2)
qed

lemmas parse_defs = sanitizeChainId_def parseInt16_def strip_sign_def strip_0x_def starts_0x_def
  is_ws_def is_hex_def hex_value_def hex_val_def units_def to_number_def round_nat_def

lemma sanitize_0x89: "sanitizeChainId (JString (units ''0x89'')) = Num 137"
  by (simp add: parse_defs)

lemma sanitize_bigint: "\<bar>n\<bar> < 2 ^ 53 \<Longrightarrow> sanitizeChainId (JBigInt n) = Num n"
  by (simp add: sanitizeChainId_def to_number_exact)

lemma sanitize_1: "sanitizeChainId (JBigInt 1) = Num 1" "sanitizeChainId (JBigInt 137) = Num 137"
  by (simp_all add: sanitize_bigint)

lemma handleChainChanged_chainId:
  "chainId (final (handleChainChanged snap rs ra v st)) = Some (sanitizeChainId v)"
  by (simp add: handleChainChanged_def handleChainChanged_sync_def Let_def showToast_def logs_def
        split: option.splits reply.splits)

text \<open>
  Claim C9. Whatever the closure, the answers of the wallet and the state,
  \<^verbatim>\<open>handleChainChanged\<close> leaves in \<^verbatim>\<open>chainId\<close> its argument normalised by \<^verbatim>\<open>sanitizeChainId\<close>, and
  no later step of the function touches that cell. For a string made of \<^verbatim>\<open>0x\<close> and
  hexadecimal digits this is the value of the digits in base 16, rounded to a double; it
  is that value itself when the value is below \<open>2 ^ 53\<close>. For a number it is the number.
  For a bigint it is the bigint rounded to a double, and the integer of the same value
  when the magnitude is below \<open>2 ^ 53\<close>. The string \<^verbatim>\<open>"0x89"\<close> gives 137.
\<close>

theorem chain_changed_normalises:
  "chainId (final (handleChainChanged snap rs ra v st)) = Some (sanitizeChainId v)
   \<and> (ds \<noteq> [] \<and> list_all is_hex ds \<longrightarrow>
        chainId (final (handleChainChanged snap rs ra (JString (units ''0x'' @ ds)) st))
          = Some (to_number (int (hex_value ds))))
   \<and> (ds \<noteq> [] \<and> list_all is_hex ds \<and> hex_value ds < 2 ^ 53 \<longrightarrow>
        chainId (final (handleChainChanged snap rs ra (JString (units ''0x'' @ ds)) st))
          = Some (Num (int (hex_value ds))))
   \<and> chainId (final (handleChainChanged snap rs ra (JNumber x) st)) = Some x
   \<and> chainId (final (handleChainChanged snap rs ra (JBigInt n) st)) = Some (to_number n)
   \<and> (\<bar>n\<bar> < 2 ^ 53 \<longrightarrow>
        chainId (final (handleChainChanged snap rs ra (JBigInt n) st)) = Some (Num n))
   \<and> chainId (final (handleChainChanged snap rs ra (JString (units ''0x89'')) st))
        = Some (Num 137)"
proof -
  have p: "sanitizeChainId (JString (units ''0x'' @ ds)) = to_number (int (hex_value ds))"
    if "ds \<noteq> [] \<and> list_all is_hex ds"
    using that parseInt16_number [of "[]" "[]" "[48, 120]" "[]" ds]
    by (simp add: sanitizeChainId_def units_prefix no_digit_next_def)
  have q: "sanitizeChainId (JString (units ''0x'' @ ds)) = Num (int (hex_value ds))"
    if "ds \<noteq> [] \<and> list_all is_hex ds \<and> hex_value ds < 2 ^ 53"
    using that p to_number_exact [of "int (hex_value ds)"] by simp
  have x: "sanitizeChainId (JNumber x) = x" by (simp add: sanitizeChainId_def )
  have b: "sanitizeChainId (JBigInt n) = to_number n" by (simp add: sanitizeChainId_def )
  have b': "sanitizeChainId (JBigInt n) = Num n" if "\<bar>n\<bar> < 2 ^ 53"
    using that by (rule sanitize_bigint)
  from p q x b b' show ?thesis by (simp add: handleChainChanged_chainId sanitize_0x89)
qed

theorem chain_changed_normalises_witness:
  "units ''A4b1'' \<noteq> [] \<and> list_all is_hex (units ''A4b1'') \<and> hex_value (units ''A4b1'') < 2 ^ 53
   \<and> hex_value (units ''A4b1'') = 42161
   \<and> chainId (final (handleChainChanged connected (Resolves (Signer 2)) (Resolves ''0xabc'')
        (JString (units ''0x'' @ units ''A4b1'')) connected)) = Some (Num 42161)
   \<and> \<bar>8453 :: int\<bar> < 2 ^ 53
   \<and> chainId (final (handleChainChanged connected (Resolves (Signer 2)) (Resolves ''0xabc'')
        (JBigInt 8453) connected)) = Some (Num 8453)"
proof -
  have h: "units ''A4b1'' \<noteq> [] \<and> list_all is_hex (units ''A4b1'')
           \<and> hex_value (units ''A4b1'') < 2 ^ 53"
    by (simp add: units_def is_hex_def hex_value_def hex_val_def)
  have v: "hex_value (units ''A4b1'') = 42161" by (simp add: units_def hex_value_def hex_val_def)
  have n: "\<bar>8453 :: int\<bar> < 2 ^ 53" by simp
  note t = chain_changed_normalises [where snap = connected and st = connected
      and rs = "Resolves (Signer 2)" and ra = "Resolves ''0xabc''" and ds = "units ''A4b1''"
      and n = 8453]
  from t h have 1: "chainId (final (handleChainChanged connected (Resolves (Signer 2))
        (Resolves ''0xabc'') (JString (units ''0x'' @ units ''A4b1'')) connected))
      = Some (Num (int (hex_value (units ''A4b1''))))"
    by blast
  from t n have 2: "chainId (final (handleChainChanged connected (Resolves (Signer 2))
        (Resolves ''0xabc'') (JBigInt 8453) connected)) = Some (Num 8453)"
    by blast
  from h v n 1 2 show ?thesis by simp
qed

text \<open>
  Above \<open>2 ^ 53\<close> the chain id that is stored is the nearest double: the bigint
  9007199254740993 and the string \<^verbatim>\<open>"0x20000000000001"\<close> both give 9007199254740992.
\<close>

lemma chain_id_rounds_to_double:
  "sanitizeChainId (JBigInt 9007199254740993) = Num 9007199254740992
   \<and> sanitizeChainId (JString (units ''0x20000000000001'')) = Num 9007199254740992
   \<and> sanitizeChainId (JBigInt 9007199254740995) = Num 9007199254740996"
  by (simp add: parse_defs bit_length.simps Let_def)

lemma dropWhile_head: "case dropWhile P xs of [] \<Rightarrow> True | u # _ \<Rightarrow> \<not> P u"
  by (induction xs) simp_all

lemma every_string_has_a_shape:
  "\<exists>ws sn pre ds rest.
     s = ws @ sn @ pre @ ds @ rest \<and> list_all is_ws ws
     \<and> (sn = [] \<or> sn = units ''+'' \<or> sn = units ''-'')
     \<and> (pre = [] \<or> pre = units ''0x'' \<or> pre = units ''0X'')
     \<and> no_digit_next rest \<and> list_all is_hex ds
     \<and> (pre = [] \<longrightarrow> \<not> starts_0x (ds @ rest))
     \<and> (ds = [] \<and> sn = [] \<and> pre = [] \<longrightarrow> no_sign_next rest)"
proof -
  define ws where "ws = takeWhile is_ws s"
  define s1 where "s1 = dropWhile is_ws s"
  define sn where "sn = (case s1 of [] \<Rightarrow> [] | u # _ \<Rightarrow> if u = 43 \<or> u = 45 then [u] else [])"
  define s2 where "s2 = drop (length sn) s1"
  define pre where "pre = (if starts_0x s2 then take 2 s2 else [])"
  define s3 where "s3 = drop (length pre) s2"
  define ds where "ds = takeWhile is_hex s3"
  define rest where "rest = dropWhile is_hex s3"
  have a: "s = ws @ s1" by (simp add: ws_def s1_def)
  have b: "s1 = sn @ s2" by (cases s1) (simp_all add: sn_def s2_def)
  have c: "s2 = pre @ s3"
  proof (cases "starts_0x s2")
    case True
    then have "take 2 s2 = [48, 120] \<or> take 2 s2 = [48, 88]" by (simp add: starts_0x_def)
    then have "length (take 2 s2) = 2"
      by (auto dest!: arg_cong [where f = length] simp del: length_take)
    then have "drop (length (take 2 s2)) s2 = drop 2 s2" by (simp only:)
    with True show ?thesis by (simp add: pre_def s3_def del: length_take)
  next
    case False
    then show ?thesis by (simp add: pre_def s3_def)
  qed
  have d: "s3 = ds @ rest" by (simp add: ds_def rest_def)
  have 1: "s = ws @ sn @ pre @ ds @ rest" using a b c d by simp
  have 2: "list_all is_ws ws" by (simp add: ws_def list_all_iff) (meson set_takeWhileD)
  have 3: "sn = [] \<or> sn = units ''+'' \<or> sn = units ''-''"
    by (cases s1) (auto simp add: sn_def units_prefix)
  have 4: "pre = [] \<or> pre = units ''0x'' \<or> pre = units ''0X''"
    by (auto simp add: pre_def starts_0x_def units_prefix)
  have 5: "no_digit_next rest"
    using dropWhile_head [of is_hex s3] by (simp add: no_digit_next_def rest_def)
  have 6: "list_all is_hex ds" by (simp add: ds_def list_all_iff) (meson set_takeWhileD)
  have 7: "\<not> starts_0x (ds @ rest)" if "pre = []"
  proof -
    from that have "\<not> starts_0x s2" by (auto simp add: pre_def starts_0x_def split: if_splits)
    moreover from that c d have "ds @ rest = s2" by simp
    ultimately show ?thesis by simp
  qed
  have 8: "no_sign_next rest" if "ds = []" "sn = []" "pre = []"
  proof -
    from that b c d have r: "rest = s1" by simp
    show ?thesis
    proof (cases s1)
      case Nil
      with r show ?thesis by (simp add: no_sign_next_def)
    next
      case (Cons u us)
      with dropWhile_head [of is_ws s] have "\<not> is_ws u" by (simp add: s1_def)
      moreover from Cons that(2) have "u \<noteq> 43 \<and> u \<noteq> 45"
        by (auto simp add: sn_def split: if_splits)
      ultimately show ?thesis using r Cons by (simp add: no_sign_next_def)
    qed
  qed
  from 1 2 3 4 5 6 7 8 show ?thesis by blast
qed

text \<open>
  Claim C10. On a string, \<^verbatim>\<open>sanitizeChainId\<close> reads a number in base 16 whether or not the
  prefix is there. Let the string be white space \<open>ws\<close>, then a sign \<open>sn\<close> that is empty,
  \<^verbatim>\<open>+\<close> or \<^verbatim>\<open>-\<close>, then a prefix \<open>pre\<close> that is empty, \<^verbatim>\<open>0x\<close> or \<^verbatim>\<open>0X\<close>, then hexadecimal digits
  \<open>ds\<close>, then a rest that does not begin with a hexadecimal digit. With at least one
  digit the result is the value of the digits in base 16 with the sign, rounded to a
  double, and that value itself when it is below \<open>2 ^ 53\<close>; with no digit it is \<open>NaN\<close>. Every
  string \<open>s\<close> can be cut in this way, into one of the two shapes. So \<^verbatim>\<open>"137"\<close> gives 311, as \<^verbatim>\<open>"0x137"\<close> does, and the chain
  id \<^verbatim>\<open>switchChain\<close> formats from it is \<^verbatim>\<open>"0x137"\<close>.
\<close>

theorem sanitize_string_is_hex:
  assumes "list_all is_ws ws"
    and "sn = [] \<or> sn = units ''+'' \<or> sn = units ''-''"
    and "pre = [] \<or> pre = units ''0x'' \<or> pre = units ''0X''"
    and "no_digit_next rest"
  shows
   "(ds \<noteq> [] \<and> list_all is_hex ds \<and> (pre = [] \<longrightarrow> \<not> starts_0x (ds @ rest)) \<longrightarrow>
       sanitizeChainId (JString (ws @ sn @ pre @ ds @ rest))
         = to_number ((if sn = units ''-'' then - 1 else 1) * int (hex_value ds)))
    \<and> (ds \<noteq> [] \<and> list_all is_hex ds \<and> (pre = [] \<longrightarrow> \<not> starts_0x (ds @ rest))
         \<and> hex_value ds < 2 ^ 53 \<longrightarrow>
       sanitizeChainId (JString (ws @ sn @ pre @ ds @ rest))
         = Num ((if sn = units ''-'' then - 1 else 1) * int (hex_value ds)))
    \<and> ((sn = [] \<and> pre = [] \<longrightarrow> no_sign_next rest) \<longrightarrow>
       sanitizeChainId (JString (ws @ sn @ pre @ rest)) = NaN)
    \<and> (\<exists>ws' sn' pre' ds' rest'.
         s = ws' @ sn' @ pre' @ ds' @ rest' \<and> list_all is_ws ws'
         \<and> (sn' = [] \<or> sn' = units ''+'' \<or> sn' = units ''-'')
         \<and> (pre' = [] \<or> pre' = units ''0x'' \<or> pre' = units ''0X'')
         \<and> no_digit_next rest' \<and> list_all is_hex ds'
         \<and> (pre' = [] \<longrightarrow> \<not> starts_0x (ds' @ rest'))
         \<and> (ds' = [] \<and> sn' = [] \<and> pre' = [] \<longrightarrow> no_sign_next rest'))
    \<and> sanitizeChainId (JString (units ''137'')) = Num 311
    \<and> sanitizeChainId (JString (units ''137'')) = sanitizeChainId (JString (units ''0x137''))
    \<and> formatChainId (sanitizeChainId (JString (units ''137''))) = ''0x137''"
proof -
  note g = every_string_has_a_shape [of s]
  from assms(2) have s: "sn = [] \<or> sn = [43] \<or> sn = [45]" by (simp add: units_prefix)
  from assms(3) have p: "pre = [] \<or> pre = [48, 120] \<or> pre = [48, 88]" by (simp add: units_prefix)
  have a: "sanitizeChainId (JString (ws @ sn @ pre @ ds @ rest))
         = to_number ((if sn = units ''-'' then - 1 else 1) * int (hex_value ds))"
    if "ds \<noteq> [] \<and> list_all is_hex ds \<and> (pre = [] \<longrightarrow> \<not> starts_0x (ds @ rest))"
    using that parseInt16_number [OF assms(1) s p assms(4), of ds]
    by (simp add: sanitizeChainId_def units_prefix)
  have b: "sanitizeChainId (JString (ws @ sn @ pre @ ds @ rest))
         = Num ((if sn = units ''-'' then - 1 else 1) * int (hex_value ds))"
    if "ds \<noteq> [] \<and> list_all is_hex ds \<and> (pre = [] \<longrightarrow> \<not> starts_0x (ds @ rest))
         \<and> hex_value ds < 2 ^ 53"
  proof -
    from that have "\<bar>(if sn = units ''-'' then - 1 else 1) * int (hex_value ds)\<bar> < 2 ^ 53"
      by (simp add: abs_mult)
    from to_number_exact [OF this] a that show ?thesis by metis
  qed
  have c: "sanitizeChainId (JString (ws @ sn @ pre @ rest)) = NaN"
    if "sn = [] \<and> pre = [] \<longrightarrow> no_sign_next rest"
    using that parseInt16_NaN [OF assms(1) s p assms(4)] by (simp add: sanitizeChainId_def)
  have d: "sanitizeChainId (JString (units ''137'')) = Num 311" by (simp add: parse_defs)
  have e: "sanitizeChainId (JString (units ''0x137'')) = Num 311" by (simp add: parse_defs)
  have f: "formatChainId (sanitizeChainId (JString (units ''137''))) = ''0x137''"
    by (simp add: d formatChainId_def toString_def)
  from a b c d e f g show ?thesis by (intro conjI impI) simp_all
qed

theorem sanitize_string_is_hex_witness:
  "list_all is_ws [32, 160, 10] \<and> no_digit_next (units '':137'') \<and> no_sign_next (units '':137'')
   \<and> list_all is_hex (units ''2105'') \<and> \<not> starts_0x (units ''2105'' @ units '':137'')
   \<and> hex_value (units ''2105'') = 8453
   \<and> sanitizeChainId (JString ([32, 160, 10] @ units ''-'' @ [] @ units ''2105'' @ units '':137''))
        = Num (- 8453)
   \<and> sanitizeChainId (JString ([32, 160, 10] @ [] @ [] @ units ''2105'' @ units '':137''))
        = Num 8453
   \<and> sanitizeChainId (JString ([32, 160, 10] @ units ''+'' @ units ''0X'' @ units ''2105''
        @ units '':137'')) = Num 8453
   \<and> sanitizeChainId (JString ([32, 160, 10] @ [] @ [] @ units '':137'')) = NaN
   \<and> sanitizeChainId (JString ([32, 160, 10] @ units ''-'' @ units ''0x'' @ units '':137'')) = NaN"
proof -
  have w: "list_all is_ws [32, 160, 10]" by (simp add: is_ws_def)
  have r: "no_digit_next (units '':137'')" "no_sign_next (units '':137'')"
    by (simp_all add: units_def no_digit_next_def no_sign_next_def is_hex_def is_ws_def)
  have d: "units ''2105'' \<noteq> []" "list_all is_hex (units ''2105'')"
    "\<not> starts_0x (units ''2105'' @ units '':137'')" "hex_value (units ''2105'') < 2 ^ 53"
    by (simp_all add: units_def is_hex_def starts_0x_def hex_value_def hex_val_def)
  have v: "hex_value (units ''2105'') = 8453" by (simp add: units_def hex_value_def hex_val_def)
  have m: "units ''+'' \<noteq> units ''-''" "[] \<noteq> units ''-''" by (simp_all add: units_def)
  note t1 = sanitize_string_is_hex [where ws = "[32, 160, 10]" and sn = "units ''-''"
      and pre = "[]" and rest = "units '':137''" and ds = "units ''2105''", OF w _ _ r(1)]
  note t2 = sanitize_string_is_hex [where ws = "[32, 160, 10]" and sn = "[]"
      and pre = "[]" and rest = "units '':137''" and ds = "units ''2105''", OF w _ _ r(1)]
  note t3 = sanitize_string_is_hex [where ws = "[32, 160, 10]" and sn = "units ''+''"
      and pre = "units ''0X''" and rest = "units '':137''" and ds = "units ''2105''", OF w _ _ r(1)]
  note t4 = sanitize_string_is_hex [where ws = "[32, 160, 10]" and sn = "units ''-''"
      and pre = "units ''0x''" and rest = "units '':137''" and ds = "units ''2105''", OF w _ _ r(1)]
  from t1 d have 1: "sanitizeChainId (JString ([32, 160, 10] @ units ''-'' @ [] @ units ''2105''
      @ units '':137'')) = Num ((if units ''-'' = units ''-'' then - 1 else 1)
          * int (hex_value (units ''2105'')))"
    by blast
  from t2 d have 2: "sanitizeChainId (JString ([32, 160, 10] @ [] @ [] @ units ''2105''
      @ units '':137'')) = Num ((if [] = units ''-'' then - 1 else 1)
          * int (hex_value (units ''2105'')))"
    by blast
  from t3 d have 3: "sanitizeChainId (JString ([32, 160, 10] @ units ''+'' @ units ''0X''
      @ units ''2105'' @ units '':137'')) = Num ((if units ''+'' = units ''-'' then - 1 else 1)
          * int (hex_value (units ''2105'')))"
    by blast
  from t2 r(2) have 4: "sanitizeChainId (JString ([32, 160, 10] @ [] @ [] @ units '':137'')) = NaN"
    by blast
  from t4 have 5: "sanitizeChainId (JString ([32, 160, 10] @ units ''-'' @ units ''0x''
      @ units '':137'')) = NaN"
    by (simp add: units_prefix)
  from 1 2 3 v m have 6:
    "sanitizeChainId (JString ([32, 160, 10] @ units ''-'' @ [] @ units ''2105'' @ units '':137''))
        = Num (- 8453)"
    "sanitizeChainId (JString ([32, 160, 10] @ [] @ [] @ units ''2105'' @ units '':137''))
        = Num 8453"
    "sanitizeChainId (JString ([32, 160, 10] @ units ''+'' @ units ''0X'' @ units ''2105''
        @ units '':137'')) = Num 8453"
    by simp_all
  from w r d(2,3) v 4 5 6 show ?thesis by blast
qed



subsection \<open>Accounts changed\<close>

lemmas disconnect_defs = disconnectWallet_AB_def disconnectWallet_C_def native_disconnect_def
  reset_cells_def showToast_def logs_def

text \<open>
  Claim C8. With an empty list \<^verbatim>\<open>handleAccountsChanged\<close> leaves the Session absent, from
  every state and for every closure, on page A (and B) and on page C. With a list that has
  a first entry it writes that entry to \<^verbatim>\<open>address\<close> and nothing else.
\<close>

theorem accounts_changed:
  "session_absent (handleAccountsChanged_AB snap [] st)
   \<and> session_absent (handleAccountsChanged_C snap [] st)
   \<and> handleAccountsChanged_AB snap (a # as) st = st\<lparr>address := a\<rparr>
   \<and> handleAccountsChanged_C snap (a # as) st = st\<lparr>address := a\<rparr>"
  by (simp add: handleAccountsChanged_AB_def handleAccountsChanged_C_def session_absent_def
        session_def disconnect_defs Let_def split: option.splits)

subsection \<open>Connect\<close>

lemmas effect_defs = showToast_def logs_def on_def removeListener_def request_def

lemma provider_effect_frame:
  "toasts (provider_effect r b s) = toasts s"
  "listeners (provider_effect r b s) = listeners s"
  "log (provider_effect r b s) = log s"
  "provider (provider_effect r b s) = provider s"
  "signer (provider_effect r b s) = signer s"
  "address (provider_effect r b s) = address s"
  "selectedWallet (provider_effect r b s) = selectedWallet s"
  "wcProvider (provider_effect r b s) = wcProvider s"
  "isConnecting (provider_effect r b s) = isConnecting s"
  by (simp_all add: provider_effect_def initializeProvider_def toasts_def
        split: option.splits reply.splits)

lemma provider_effect_same: "provider s = b \<Longrightarrow> provider_effect r b s = s"
  by (simp add: provider_effect_def)

lemma provider_effect_cells:
  assumes "provider s = Some t"
  shows "browserProvider (provider_effect r b s)
           = (case r of Resolves n \<Rightarrow> if b = Some t then browserProvider s
                          else Some (BrowserProvider t)
              | _ \<Rightarrow> browserProvider s)"
    "chainId (provider_effect r b s)
           = (case r of Resolves n \<Rightarrow> if b = Some t then chainId s
                          else Some (sanitizeChainId n)
              | _ \<Rightarrow> chainId s)"
  using assms
  by (auto simp add: provider_effect_def initializeProvider_def split: reply.splits)

lemma effect_early_frame:
  "toasts (effect_early e b s) = toasts s"
  "listeners (effect_early e b s) = listeners s"
  "log (effect_early e b s) = log s"
  "provider (effect_early e b s) = provider s"
  "signer (effect_early e b s) = signer s"
  "address (effect_early e b s) = address s"
  "selectedWallet (effect_early e b s) = selectedWallet s"
  "wcProvider (effect_early e b s) = wcProvider s"
  "isConnecting (effect_early e b s) = isConnecting s"
  by (simp_all add: effect_early_def provider_effect_frame)

lemma effect_end_frame:
  "toasts (final (effect_end e b r)) = toasts (final r)"
  "listeners (final (effect_end e b r)) = listeners (final r)"
  "settled (effect_end e b r) = settled r"
  by (cases r; simp add: effect_end_def provider_effect_frame)+

lemma effect_end_same: "provider (final r) = b \<Longrightarrow> effect_end e b r = r"
  by (cases r) (simp_all add: effect_end_def provider_effect_same)

lemma derive_session_final:
  "toasts (final (derive_session e d t st)) = toasts st
   \<and> listeners (final (derive_session e d t st)) = listeners st"
  by (simp add: derive_session_def toasts_def split: reply.splits)

lemma derive_session_throws: "derive_session e d t st = Throws x s \<Longrightarrow> s = st"
  by (simp add: derive_session_def split: reply.splits)

lemma authorize_C_final: "toasts (final (authorize_C e t st)) = toasts st"
  by (simp add: authorize_C_def toasts_def effect_defs Let_def split: reply.splits)

lemma authorize_C_throws:
  "authorize_C e t st = Throws x s \<Longrightarrow> session s = session st \<and> listeners s = listeners st"
  by (auto simp add: authorize_C_def session_def effect_defs Let_def split: reply.splits)

lemma resolve_transport_C_final: "toasts (final (resolve_transport_C e d st)) = toasts st"
proof -
  have a: "toasts (final (authorize_C e t (st\<lparr>coinbaseWallet := True\<rparr>))) = toasts st" for t
    by (simp add: authorize_C_final) (simp add: toasts_def)
  show ?thesis
    by (simp add: resolve_transport_C_def authorize_C_final a split: reply.splits option.splits)
       (simp add: toasts_def effect_defs)
qed

lemma resolve_transport_C_throws:
  assumes "resolve_transport_C e d st = Throws x s"
  shows "session s = session st \<and> listeners s = listeners st"
proof -
  have a: "session s = session st \<and> listeners s = listeners st"
    if "authorize_C e t (st\<lparr>coinbaseWallet := True\<rparr>) = Throws x s" for t
    using authorize_C_throws [OF that] by (simp add: session_def)
  show ?thesis
    using assms
    by (auto simp add: resolve_transport_C_def split: if_splits reply.splits option.splits
          dest: authorize_C_throws a)
qed


lemma one_more_toast_iff:
  "one_more_toast st s \<longleftrightarrow> (\<exists>t. toasts s = toasts st @ [t] \<and> is_connected_toast t)"
  by (auto simp add: one_more_toast_def neq_Nil_conv split: list.splits)

lemma try_ok_iff:
  "try_ok st r = (case r of
       Pending s \<Rightarrow> True
     | Throws x s \<Rightarrow> toasts s = toasts st
     | Returns _ s \<Rightarrow> (\<exists>t. toasts s = toasts st @ [t] \<and> is_connected_toast t))"
  by (simp add: try_ok_def one_more_toast_iff split: outcome.splits)

lemma connected_toast_toasts:
  "\<exists>t. toasts (connected_toast a s) = toasts s @ [t] \<and> is_connected_toast t"
  by (simp add: connected_toast_def toasts_def effect_defs is_connected_toast_def)

lemma try_C_ok: "try_ok st (connect_try_C e d st)"
proof (cases "resolve_transport_C e d st")
  case (Returns t s0)
  let ?s = "effect_early e (provider st) s0"
  from Returns resolve_transport_C_final [of e d st] have ts: "toasts ?s = toasts st"
    by (simp add: effect_early_frame)
  note Returns' = Returns
  show ?thesis
  proof (cases "derive_session e d t ?s")
    case (Returns a s')
    with derive_session_final [of e d t ?s] ts have "toasts s' = toasts st" by simp
    with connected_toast_toasts [of a s'] Returns Returns'
    show ?thesis by (simp add: try_ok_iff connect_try_C_def)
  next
    case (Throws x s')
    with derive_session_final [of e d t ?s] ts have "toasts s' = toasts st" by simp
    with Throws Returns'
    show ?thesis by (simp add: try_ok_iff connect_try_C_def)
  next
    case (Pending s')
    with Returns'
    show ?thesis by (simp add: try_ok_iff connect_try_C_def)
  qed
next
  case (Throws x s)
  with resolve_transport_C_final [of e d st] show ?thesis
    by (simp add: try_ok_iff connect_try_C_def)
next
  case (Pending s)
  then show ?thesis by (simp add: try_ok_iff connect_try_C_def)
qed

lemma on_toasts: "toasts (on p ev h s) = toasts s"
  by (simp add: toasts_def effect_defs)

lemma request_toasts: "toasts (request p r s) = toasts s"
  by (simp add: toasts_def effect_defs)

lemma try_A_ok: "try_ok st (connect_try_A e d st)"
proof (cases "str_includes (rdns (d_info d)) ''walletconnect''")
  case True
  show ?thesis
  proof (cases "wc_init e")
    case (Resolves w)
    show ?thesis
    proof (cases "wc_enable e")
      case r2: (Resolves u)
      let ?s = "effect_early e (provider st) (st\<lparr>provider := Some w, wcProvider := Some w\<rparr>)"
      have "toasts (final (derive_session e d w ?s)) = toasts st"
        by (simp add: derive_session_final effect_early_frame) (simp add: toasts_def)
      then show ?thesis using True Resolves r2
        by (cases "derive_session e d w ?s") (simp_all add: try_ok_iff connect_try_A_def)
    qed (use True Resolves in \<open>simp_all add: try_ok_iff connect_try_A_def\<close>)
  qed (use True in \<open>simp_all add: try_ok_iff connect_try_A_def\<close>)
next
  case False
  show ?thesis
  proof (cases "d_provider d")
    case None
    with False show ?thesis by (simp add: try_ok_iff connect_try_A_def)
  next
    case (Some p)
    show ?thesis
    proof (cases "accounts_reply e")
      case (Resolves u)
      let ?s = "effect_early e (provider st) ((request p EthRequestAccounts st)\<lparr>provider := Some p\<rparr>)"
      have ts: "toasts (final (derive_session e d p ?s)) = toasts st"
        by (simp add: derive_session_final effect_early_frame) (simp add: toasts_def effect_defs)
      show ?thesis
      proof (cases "derive_session e d p ?s")
        case (Returns a s')
        with ts have "toasts s' = toasts st" by simp
        with connected_toast_toasts
          [of a "on p ''chainChanged'' HandleChainChanged (on p ''accountsChanged'' HandleAccountsChanged s')"]
        show ?thesis using False Some Resolves Returns
          by (simp add: try_ok_iff connect_try_A_def on_toasts)
      qed (use ts False Some Resolves in \<open>simp_all add: try_ok_iff connect_try_A_def\<close>)
    qed (use False Some in \<open>simp_all add: try_ok_iff connect_try_A_def request_toasts\<close>)
  qed
qed

lemma finish_ok:
  assumes "try_ok st r" "settled (connect_finish r)"
  shows "\<exists>t. toasts (final (connect_finish r)) = toasts st @ [t]
           \<and> (t = connection_error \<or> is_connected_toast t)"
  using assms
  by (cases r) (auto simp: try_ok_iff connect_finish_def toasts_def effect_defs connection_error_def)

lemma try_A_refused:
  assumes "refused_A e d"
  shows "\<exists>x s. connect_try_A e d st = Throws x s \<and> session s = session st
           \<and> listeners s = listeners st"
proof (cases "str_includes (rdns (d_info d)) ''walletconnect''")
  case True
  with assms have "wc_refused e" by (simp add: refused_A_def)
  then show ?thesis using True
    by (cases "wc_init e"; cases "wc_enable e")
       (simp_all add: wc_refused_def is_rejected_def is_resolved_def connect_try_A_def)
next
  case False
  with assms have r: "d_provider d = None \<or> is_rejected (accounts_reply e)"
    by (simp add: refused_A_def)
  show ?thesis
  proof (cases "d_provider d")
    case None
    with False show ?thesis by (simp add: connect_try_A_def)
  next
    case (Some p)
    with r have "is_rejected (accounts_reply e)" by simp
    then obtain x where "accounts_reply e = Rejects x"
      by (cases "accounts_reply e") (simp_all add: is_rejected_def)
    with False Some show ?thesis
      by (simp add: connect_try_A_def request_def logs_def session_def)
  qed
qed

lemma authorize_C_rejected:
  "is_rejected (accounts_reply e) \<Longrightarrow> \<exists>x s. authorize_C e t st = Throws x s"
  by (cases "accounts_reply e") (simp_all add: is_rejected_def authorize_C_def Let_def)

lemma resolve_transport_C_refused:
  assumes "refused_C e d"
  shows "\<exists>x s. resolve_transport_C e d st = Throws x s"
proof (cases "str_includes (rdns (d_info d)) ''walletconnect''")
  case True
  with assms have "wc_refused e" by (simp add: refused_C_def)
  then show ?thesis using True
    by (cases "wc_init e"; cases "wc_enable e")
       (simp_all add: wc_refused_def is_rejected_def is_resolved_def resolve_transport_C_def)
next
  case nwc: False
  show ?thesis
  proof (cases "str_includes (rdns (d_info d)) ''trust''")
    case True
    with nwc assms have r: "trust_missing e \<or> is_rejected (accounts_reply e)"
      by (simp add: refused_C_def)
    show ?thesis
    proof (cases "trust_missing e")
      case True
      with nwc \<open>str_includes (rdns (d_info d)) ''trust''\<close> show ?thesis
        by (simp add: resolve_transport_C_def trust_missing_def split: option.splits)
    next
      case False
      with r have "is_rejected (accounts_reply e)" by simp
      from authorize_C_rejected [OF this] False nwc \<open>str_includes (rdns (d_info d)) ''trust''\<close>
      show ?thesis
        by (simp add: resolve_transport_C_def trust_missing_def split: option.splits)
    qed
  next
    case nt: False
    show ?thesis
    proof (cases "str_includes (rdns (d_info d)) ''coinbase''")
      case True
      with nwc nt assms have "is_rejected (accounts_reply e)" by (simp add: refused_C_def)
      from authorize_C_rejected [OF this] nwc nt True show ?thesis
        by (simp add: resolve_transport_C_def split: option.splits)
    next
      case False
      with nwc nt assms have r: "d_provider d = None \<or> is_rejected (accounts_reply e)"
        by (simp add: refused_C_def)
      show ?thesis
      proof (cases "d_provider d")
        case None
        with nwc nt False show ?thesis by (simp add: resolve_transport_C_def)
      next
        case (Some p)
        with r have "is_rejected (accounts_reply e)" by simp
        from authorize_C_rejected [OF this] nwc nt False Some show ?thesis
          by (simp add: resolve_transport_C_def)
      qed
    qed
  qed
qed

lemma finish_throws:
  assumes "r = Throws x s" "session s = session st" "listeners s = listeners st"
    "toasts s = toasts st"
  shows "\<exists>st'. connect_finish r = Returns () st' \<and> session st' = session st
           \<and> listeners st' = listeners st \<and> toasts st' = toasts st @ [connection_error]
           \<and> \<not> isConnecting st'"
  using assms
  by (simp add: connect_finish_def showToast_def logs_def session_def toasts_def
        connection_error_def)

lemma connecting_same:
  "session (st\<lparr>isConnecting := b\<rparr>) = session st"
  "listeners (st\<lparr>isConnecting := b\<rparr>) = listeners st"
  "toasts (st\<lparr>isConnecting := b\<rparr>) = toasts st"
  by (simp_all add: session_def toasts_def)

lemma refused_connect_A:
  assumes "refused_A e d"
  shows "\<exists>st'. connectWallet_A e d st = Returns () st' \<and> session st' = session st
           \<and> listeners st' = listeners st \<and> toasts st' = toasts st @ [connection_error]
           \<and> \<not> isConnecting st'"
proof -
  let ?st = "st\<lparr>isConnecting := True\<rparr>"
  from try_A_refused [OF assms, of ?st] obtain x s where
    t: "connect_try_A e d ?st = Throws x s" "session s = session ?st" "listeners s = listeners ?st"
    by blast
  from try_A_ok [of ?st e d] t(1) have "toasts s = toasts ?st" by (simp add: try_ok_iff)
  with t finish_throws [of "connect_try_A e d ?st" x s st]
  obtain st' where f: "connect_finish (connect_try_A e d ?st) = Returns () st'"
    "session st' = session st" "listeners st' = listeners st"
    "toasts st' = toasts st @ [connection_error]" "\<not> isConnecting st'"
    by (auto simp add: connecting_same)
  from f(1,2) have "effect_end e (provider st) (connect_finish (connect_try_A e d ?st))
      = Returns () st'"
    by (simp add: effect_end_same session_def)
  with f show ?thesis by (simp add: connectWallet_A_def)
qed

lemma refused_connect_C:
  assumes "refused_C e d"
  shows "\<exists>st'. connectWallet_C e d st = Returns () st' \<and> session st' = session st
           \<and> listeners st' = listeners st \<and> toasts st' = toasts st @ [connection_error]
           \<and> \<not> isConnecting st'"
proof -
  let ?st = "st\<lparr>isConnecting := True\<rparr>"
  from resolve_transport_C_refused [OF assms, of ?st] obtain x s where
    r: "resolve_transport_C e d ?st = Throws x s" by blast
  then have t: "connect_try_C e d ?st = Throws x s" by (simp add: connect_try_C_def)
  from resolve_transport_C_throws [OF r]
  have u: "session s = session ?st" "listeners s = listeners ?st" by simp_all
  from try_C_ok [of ?st e d] t have "toasts s = toasts ?st" by (simp add: try_ok_iff)
  with t u finish_throws [of "connect_try_C e d ?st" x s st]
  obtain st' where f: "connect_finish (connect_try_C e d ?st) = Returns () st'"
    "session st' = session st" "listeners st' = listeners st"
    "toasts st' = toasts st @ [connection_error]" "\<not> isConnecting st'"
    by (auto simp add: connecting_same)
  from f(1,2) have "effect_end e (provider st) (connect_finish (connect_try_C e d ?st))
      = Returns () st'"
    by (simp add: effect_end_same session_def)
  with f show ?thesis by (simp add: connectWallet_C_def)
qed

lemma one_toast_A:
  assumes "settled (connectWallet_A e d st)"
  shows "\<exists>t. toasts (final (connectWallet_A e d st)) = toasts st @ [t]
           \<and> (t = connection_error \<or> is_connected_toast t)"
  using finish_ok [OF try_A_ok [of "st\<lparr>isConnecting := True\<rparr>" e d]] assms
  by (simp add: connectWallet_A_def connecting_same effect_end_frame)

lemma one_toast_C:
  assumes "settled (connectWallet_C e d st)"
  shows "\<exists>t. toasts (final (connectWallet_C e d st)) = toasts st @ [t]
           \<and> (t = connection_error \<or> is_connected_toast t)"
  using finish_ok [OF try_C_ok [of "st\<lparr>isConnecting := True\<rparr>" e d]] assms
  by (simp add: connectWallet_C_def connecting_same effect_end_frame)

lemmas connect_defs = connectWallet_A_def connectWallet_C_def connect_try_A_def connect_try_C_def
  connect_finish_def derive_session_def connected_toast_def resolve_transport_C_def authorize_C_def
  coinbase_injected_def effect_early_def effect_end_def provider_effect_def initializeProvider_def

lemmas sample_defs = injected_def trust_wallet_def wc_transport_def metamask_def metamask_again_def
  rabby_def walletconnect_button_def polygon_def chains_def rejected_def unrecognized_def
  granting_def denying_def signer_fails_def ignoring_def initial_state_def

lemma connected_A_value:
  "connected_A = initial_state\<lparr>provider := Some injected, signer := Some (Signer 1),
     address := ''0x52908400098527886E0F7030069857D2E4169EE7'', chainId := Some (Num 1),
     selectedWallet := Some (d_info metamask),
     browserProvider := Some (BrowserProvider injected),
     listeners := [(injected, ''accountsChanged'', HandleAccountsChanged),
                   (injected, ''chainChanged'', HandleChainChanged)],
     log := [Request injected EthRequestAccounts,
             On injected ''accountsChanged'' HandleAccountsChanged,
             On injected ''chainChanged'' HandleChainChanged,
             Toast TSuccess ''Wallet Connected'' ''Connected to account 0x5290...9EE7'']\<rparr>"
  by (simp add: connected_A_def connect_defs effect_defs sample_defs sanitize_1)

lemma connected_value: "connected = connected_A"
  by (simp add: connected_def connected_A_def connect_defs effect_defs sample_defs sanitize_1)

text \<open>
  On page A a connect through the WalletConnect button that the wallet grants writes the
  whole Session, then reads \<^verbatim>\<open>newWcProvider\<close> out of its block: the toast is
  \<^verbatim>\<open>Connection Error\<close> and no listener is registered.
\<close>

lemma walletconnect_A_sets_session_then_errors:
  "toasts (final (connectWallet_A granting walletconnect_button initial_state)) = [connection_error]
   \<and> provider (final (connectWallet_A granting walletconnect_button initial_state))
       = Some wc_transport
   \<and> signer (final (connectWallet_A granting walletconnect_button initial_state))
       = Some (Signer 1)
   \<and> chainId (final (connectWallet_A granting walletconnect_button initial_state))
       = Some (Num 1)
   \<and> listeners (final (connectWallet_A granting walletconnect_button initial_state)) = []"
  by (simp add: connect_defs effect_defs sample_defs toasts_def connection_error_def
        sanitize_1)

lemma derive_fails_throws: "derive_fails e \<Longrightarrow> \<exists>x. derive_session e d t s = Throws x s"
  by (auto simp add: derive_fails_def derive_session_def is_rejected_def split: reply.splits)

lemma finish_half_connected:
  assumes "provider s = Some t" "signer s = signer st" "address s = address st"
    "selectedWallet s = selectedWallet st" "browserProvider s = browserProvider st"
    "chainId s = chainId st" "toasts s = toasts st"
  shows "\<exists>st'. effect_end e (provider st)
                  (connect_finish (Throws x (effect_early e (provider st) s))) = Returns () st'
           \<and> half_connected e t st st' \<and> toasts st' = toasts st @ [connection_error]
           \<and> listeners st' = listeners s \<and> wcProvider st' = wcProvider s
           \<and> \<not> isConnecting st'"
proof (cases "effect_late e")
  case True
  let ?f = "(showToast TError ''Connection Error''
                ''Failed to connect wallet. Please try again.'' s)\<lparr>isConnecting := False\<rparr>"
  have p: "provider ?f = Some t" using assms(1) by (simp add: showToast_def logs_def)
  have c: "browserProvider ?f = browserProvider st" "chainId ?f = chainId st"
    "signer ?f = signer st" "address ?f = address st" "selectedWallet ?f = selectedWallet st"
    "toasts ?f = toasts st @ [connection_error]" "listeners ?f = listeners s"
    "wcProvider ?f = wcProvider s" "\<not> isConnecting ?f"
    using assms by (simp_all add: showToast_def logs_def toasts_def connection_error_def)
  have "effect_end e (provider st) (connect_finish (Throws x (effect_early e (provider st) s)))
          = Returns () (provider_effect (effect_network e) (provider st) ?f)"
    using True by (simp add: effect_end_def effect_early_def connect_finish_def)
  moreover have "half_connected e t st (provider_effect (effect_network e) (provider st) ?f)"
    unfolding half_connected_def provider_effect_frame provider_effect_cells [OF p] c p
    by (simp split: reply.splits)
  ultimately show ?thesis using c by (simp add: provider_effect_frame)
next
  case False
  let ?s = "provider_effect (effect_network e) (provider st) s"
  let ?f = "(showToast TError ''Connection Error''
                ''Failed to connect wallet. Please try again.'' ?s)\<lparr>isConnecting := False\<rparr>"
  have c: "provider ?f = Some t" "signer ?f = signer st" "address ?f = address st"
    "selectedWallet ?f = selectedWallet st"
    "toasts ?f = toasts st @ [connection_error]" "listeners ?f = listeners s"
    "wcProvider ?f = wcProvider s" "\<not> isConnecting ?f"
    using assms
    by (simp_all add: showToast_def logs_def toasts_def connection_error_def provider_effect_frame)
  have b: "browserProvider ?f
             = (case effect_network e of
                  Resolves n \<Rightarrow> if provider st = Some t then browserProvider st
                                else Some (BrowserProvider t)
                | _ \<Rightarrow> browserProvider st)"
    "chainId ?f
             = (case effect_network e of
                  Resolves n \<Rightarrow> if provider st = Some t then chainId st
                                else Some (sanitizeChainId n)
                | _ \<Rightarrow> chainId st)"
    using provider_effect_cells [OF assms(1), of "effect_network e" "provider st"] assms(5,6)
    by (cases "effect_network e"; simp add: showToast_def logs_def)+
  have "effect_end e (provider st) (connect_finish (Throws x (effect_early e (provider st) s)))
          = Returns () ?f"
    using False by (simp add: effect_end_def effect_early_def connect_finish_def)
  moreover have "half_connected e t st ?f"
    unfolding half_connected_def b using c(1-4) by (simp split: reply.splits)
  ultimately show ?thesis using c by simp
qed

lemma wc_authorized_replies:
  "wc_authorized e = Some t \<Longrightarrow> wc_init e = Resolves t \<and> (\<exists>u. wc_enable e = Resolves u)"
  by (cases "wc_init e"; cases "wc_enable e")
     (simp_all add: wc_authorized_def is_resolved_def split: if_splits)

lemma granted_replies:
  "granted e p = Some t \<Longrightarrow> p = Some t \<and> (\<exists>u. accounts_reply e = Resolves u)"
  by (cases "accounts_reply e") (simp_all add: granted_def is_resolved_def split: if_splits)

lemma failed_after_authorization_A:
  assumes "authorized_A e d = Some t" "derive_fails e"
  shows "\<exists>st'. connectWallet_A e d st = Returns () st' \<and> half_connected e t st st'
           \<and> toasts st' = toasts st @ [connection_error] \<and> listeners st' = listeners st
           \<and> wcProvider st' = (if str_includes (rdns (d_info d)) ''walletconnect''
                               then Some t else wcProvider st)
           \<and> \<not> isConnecting st'"
proof (cases "str_includes (rdns (d_info d)) ''walletconnect''")
  case True
  let ?st = "st\<lparr>isConnecting := True\<rparr>"
  let ?s = "?st\<lparr>provider := Some t, wcProvider := Some t\<rparr>"
  from True assms(1) wc_authorized_replies [of e t] obtain u where
    w: "wc_init e = Resolves t" "wc_enable e = Resolves u" by (auto simp add: authorized_A_def)
  from derive_fails_throws [OF assms(2), of d t "effect_early e (provider st) ?s"] obtain x where
    x: "derive_session e d t (effect_early e (provider st) ?s)
          = Throws x (effect_early e (provider st) ?s)" by blast
  from True w x have "connect_try_A e d ?st = Throws x (effect_early e (provider st) ?s)"
    by (simp add: connect_try_A_def)
  with finish_half_connected [of ?s t st e x] True show ?thesis
    by (simp add: connectWallet_A_def toasts_def)
next
  case False
  let ?st = "st\<lparr>isConnecting := True\<rparr>"
  let ?s = "(request t EthRequestAccounts ?st)\<lparr>provider := Some t\<rparr>"
  from False assms(1) granted_replies [of e "d_provider d" t] obtain u where
    w: "d_provider d = Some t" "accounts_reply e = Resolves u" by (auto simp add: authorized_A_def)
  from derive_fails_throws [OF assms(2), of d t "effect_early e (provider st) ?s"] obtain x where
    x: "derive_session e d t (effect_early e (provider st) ?s)
          = Throws x (effect_early e (provider st) ?s)" by blast
  from False w x have "connect_try_A e d ?st = Throws x (effect_early e (provider st) ?s)"
    by (simp add: connect_try_A_def Let_def)
  with finish_half_connected [of ?s t st e x] False show ?thesis
    by (simp add: connectWallet_A_def toasts_def request_def logs_def)
qed

lemma authorize_C_cells:
  assumes "accounts_reply e = Resolves u"
  shows "\<exists>s. authorize_C e t st = Returns t s \<and> provider s = Some t \<and> signer s = signer st
           \<and> address s = address st \<and> selectedWallet s = selectedWallet st
           \<and> browserProvider s = browserProvider st \<and> chainId s = chainId st
           \<and> toasts s = toasts st \<and> wcProvider s = wcProvider st
           \<and> listeners s = listeners st @ [(t, ''accountsChanged'', HandleAccountsChanged),
                                             (t, ''chainChanged'', HandleChainChanged)]"
  using assms by (simp add: authorize_C_def Let_def effect_defs toasts_def)

lemma resolve_transport_C_authorized:
  assumes "authorized_C e d = Some t"
  shows "\<exists>s. resolve_transport_C e d st = Returns t s \<and> provider s = Some t
           \<and> signer s = signer st \<and> address s = address st
           \<and> selectedWallet s = selectedWallet st
           \<and> browserProvider s = browserProvider st \<and> chainId s = chainId st
           \<and> toasts s = toasts st
           \<and> wcProvider s = (if str_includes (rdns (d_info d)) ''walletconnect''
                              then Some t else wcProvider st)
           \<and> listeners s = listeners st @ registered_C d t"
proof (cases "str_includes (rdns (d_info d)) ''walletconnect''")
  case True
  from True assms wc_authorized_replies [of e t] obtain u where
    w: "wc_init e = Resolves t" "wc_enable e = Resolves u" by (auto simp add: authorized_C_def)
  with True show ?thesis
    by (simp add: resolve_transport_C_def effect_defs toasts_def registered_C_def)
next
  case nwc: False
  show ?thesis
  proof (cases "str_includes (rdns (d_info d)) ''trust''")
    case True
    with nwc assms have m: "\<not> trust_missing e" "granted e (window_ethereum e) = Some t"
      by (auto simp add: authorized_C_def split: if_splits)
    from granted_replies [OF m(2)] obtain u where
      w: "window_ethereum e = Some t" "accounts_reply e = Resolves u" by blast
    from m(1) w(1) have "isTrust t" by (simp add: trust_missing_def)
    with nwc True w authorize_C_cells [OF w(2), of t st] show ?thesis
      by (simp add: resolve_transport_C_def registered_C_def)
  next
    case nt: False
    show ?thesis
    proof (cases "str_includes (rdns (d_info d)) ''coinbase''")
      case True
      with nwc nt assms granted_replies
        [of e "Some (case coinbase_injected e of Some w \<Rightarrow> w | None \<Rightarrow> sdk_provider e)" t]
      obtain u where w: "(case coinbase_injected e of Some w \<Rightarrow> w | None \<Rightarrow> sdk_provider e) = t"
        "accounts_reply e = Resolves u"
        by (auto simp add: authorized_C_def)
      show ?thesis
      proof (cases "coinbase_injected e")
        case None
        with w have "sdk_provider e = t" by simp
        with nwc nt True None authorize_C_cells [OF w(2), of t "st\<lparr>coinbaseWallet := True\<rparr>"]
        show ?thesis
          by (auto simp add: resolve_transport_C_def registered_C_def toasts_def)
      next
        case (Some c)
        with w have "c = t" by simp
        with nwc nt True Some authorize_C_cells [OF w(2), of t st] show ?thesis
          by (simp add: resolve_transport_C_def registered_C_def)
      qed
    next
      case False
      with nwc nt assms granted_replies [of e "d_provider d" t] obtain u where
        w: "d_provider d = Some t" "accounts_reply e = Resolves u"
        by (auto simp add: authorized_C_def)
      with nwc nt False authorize_C_cells [OF w(2), of t st] show ?thesis
        by (simp add: resolve_transport_C_def registered_C_def)
    qed
  qed
qed

lemma failed_after_authorization_C:
  assumes "authorized_C e d = Some t" "derive_fails e"
  shows "\<exists>st'. connectWallet_C e d st = Returns () st' \<and> half_connected e t st st'
           \<and> toasts st' = toasts st @ [connection_error]
           \<and> listeners st' = listeners st @ registered_C d t
           \<and> wcProvider st' = (if str_includes (rdns (d_info d)) ''walletconnect''
                               then Some t else wcProvider st)
           \<and> \<not> isConnecting st'"
proof -
  let ?st = "st\<lparr>isConnecting := True\<rparr>"
  from resolve_transport_C_authorized [OF assms(1), of ?st] obtain s where
    r: "resolve_transport_C e d ?st = Returns t s" and
    c: "provider s = Some t" "signer s = signer st" "address s = address st"
       "selectedWallet s = selectedWallet st" "browserProvider s = browserProvider st"
       "chainId s = chainId st" "toasts s = toasts st" and
    l: "wcProvider s = (if str_includes (rdns (d_info d)) ''walletconnect''
                              then Some t else wcProvider st)"
       "listeners s = listeners st @ registered_C d t"
    by (auto simp add: toasts_def)
  from derive_fails_throws [OF assms(2), of d t "effect_early e (provider st) s"] obtain x where
    x: "derive_session e d t (effect_early e (provider st) s)
          = Throws x (effect_early e (provider st) s)" by blast
  from r x have "connect_try_C e d ?st = Throws x (effect_early e (provider st) s)"
    by (simp add: connect_try_C_def)
  with finish_half_connected [OF c, of e x] l show ?thesis
    by (simp add: connectWallet_C_def)
qed

lemma finish_pending:
  assumes "r = Pending s" "session s = session st" "toasts s = toasts st" "isConnecting s"
  shows "\<not> settled (effect_end e (provider st) (connect_finish r))
       \<and> session (final (effect_end e (provider st) (connect_finish r))) = session st
       \<and> toasts (final (effect_end e (provider st) (connect_finish r))) = toasts st
       \<and> isConnecting (final (effect_end e (provider st) (connect_finish r)))"
proof -
  from assms(1) have f: "connect_finish r = Pending s" by (simp add: connect_finish_def)
  from assms(2) have "provider (final (Pending s :: unit outcome)) = provider st"
    by (simp add: session_def)
  from effect_end_same [OF this, of e] f assms show ?thesis by simp
qed

lemma unanswered_connect_A:
  assumes "unanswered_A e d"
  shows "\<not> settled (connectWallet_A e d st)
       \<and> session (final (connectWallet_A e d st)) = session st
       \<and> toasts (final (connectWallet_A e d st)) = toasts st
       \<and> isConnecting (final (connectWallet_A e d st))"
proof -
  let ?st = "st\<lparr>isConnecting := True\<rparr>"
  have "\<exists>s. connect_try_A e d ?st = Pending s \<and> session s = session st
          \<and> toasts s = toasts st \<and> isConnecting s"
  proof (cases "str_includes (rdns (d_info d)) ''walletconnect''")
    case True
    with assms have "wc_unanswered e" by (simp add: unanswered_A_def)
    then show ?thesis using True
      by (cases "wc_init e"; cases "wc_enable e")
         (simp_all add: wc_unanswered_def is_resolved_def connect_try_A_def session_def toasts_def)
  next
    case False
    with assms obtain p where "d_provider d = Some p" "accounts_reply e = NoReply"
      by (auto simp add: unanswered_A_def)
    with False show ?thesis
      by (simp add: connect_try_A_def Let_def request_def logs_def session_def toasts_def)
  qed
  then obtain s where "connect_try_A e d ?st = Pending s" "session s = session st"
    "toasts s = toasts st" "isConnecting s" by blast
  from finish_pending [OF this, of e] show ?thesis by (simp add: connectWallet_A_def)
qed

lemma authorize_C_unanswered:
  "accounts_reply e = NoReply \<Longrightarrow>
     authorize_C e t st = Pending (request t EthRequestAccounts st)"
  by (simp add: authorize_C_def Let_def)

lemma unanswered_connect_C:
  assumes "unanswered_C e d"
  shows "\<not> settled (connectWallet_C e d st)
       \<and> session (final (connectWallet_C e d st)) = session st
       \<and> toasts (final (connectWallet_C e d st)) = toasts st
       \<and> isConnecting (final (connectWallet_C e d st))"
proof -
  let ?st = "st\<lparr>isConnecting := True\<rparr>"
  have a: "session (request t EthRequestAccounts (?st\<lparr>coinbaseWallet := b\<rparr>)) = session st
        \<and> toasts (request t EthRequestAccounts (?st\<lparr>coinbaseWallet := b\<rparr>)) = toasts st
        \<and> isConnecting (request t EthRequestAccounts (?st\<lparr>coinbaseWallet := b\<rparr>))
        \<and> session (request t EthRequestAccounts ?st) = session st
        \<and> toasts (request t EthRequestAccounts ?st) = toasts st
        \<and> isConnecting (request t EthRequestAccounts ?st)" for t b
    by (simp add: request_def logs_def session_def toasts_def)
  have "\<exists>s. resolve_transport_C e d ?st = Pending s \<and> session s = session st
          \<and> toasts s = toasts st \<and> isConnecting s"
  proof (cases "str_includes (rdns (d_info d)) ''walletconnect''")
    case True
    with assms have "wc_unanswered e" by (simp add: unanswered_C_def)
    then show ?thesis using True
      by (cases "wc_init e"; cases "wc_enable e")
         (simp_all add: wc_unanswered_def is_resolved_def resolve_transport_C_def session_def
            toasts_def)
  next
    case nwc: False
    show ?thesis
    proof (cases "str_includes (rdns (d_info d)) ''trust''")
      case True
      with nwc assms have m: "\<not> trust_missing e" "accounts_reply e = NoReply"
        by (simp_all add: unanswered_C_def)
      from m(1) obtain w where "window_ethereum e = Some w" "isTrust w"
        by (auto simp add: trust_missing_def split: option.splits)
      with nwc True m(2) a [of w] show ?thesis
        by (simp add: resolve_transport_C_def authorize_C_unanswered)
    next
      case nt: False
      show ?thesis
      proof (cases "str_includes (rdns (d_info d)) ''coinbase''")
        case True
        with nwc nt assms have m: "accounts_reply e = NoReply" by (simp add: unanswered_C_def)
        with nwc nt True a show ?thesis
          by (cases "coinbase_injected e")
             (simp_all add: resolve_transport_C_def authorize_C_unanswered)
      next
        case False
        with nwc nt assms obtain p where "d_provider d = Some p" "accounts_reply e = NoReply"
          by (auto simp add: unanswered_C_def)
        with nwc nt False a [of p] show ?thesis
          by (simp add: resolve_transport_C_def authorize_C_unanswered)
      qed
    qed
  qed
  then obtain s where "resolve_transport_C e d ?st = Pending s" "session s = session st"
    "toasts s = toasts st" "isConnecting s" by blast
  then have "connect_try_C e d ?st = Pending s" "session s = session st"
    "toasts s = toasts st" "isConnecting s" by (simp_all add: connect_try_C_def)
  from finish_pending [OF this, of e] show ?thesis by (simp add: connectWallet_C_def)
qed

text \<open>
  Claim C1, as the code has it, on page A and on page C. A connect that is refused before
  the transport is authorised (the WalletConnect transport cannot be built or its
  \<^verbatim>\<open>enable\<close> is rejected, the wallet is not installed or the descriptor has no transport,
  \<^verbatim>\<open>eth_requestAccounts\<close> is rejected) returns with the Session and the listeners as they were,
  one toast \<^verbatim>\<open>Connection Error\<close> added and \<^verbatim>\<open>isConnecting\<close> false. A connect whose transport \<open>t\<close>
  is authorised and whose signer, account or network query is then rejected also returns
  with one toast \<^verbatim>\<open>Connection Error\<close> added, and leaves the Session partly written: \<^verbatim>\<open>provider\<close>
  holds \<open>t\<close> (and so does \<^verbatim>\<open>wcProvider\<close> for WalletConnect); \<^verbatim>\<open>signer\<close>, \<^verbatim>\<open>address\<close> and
  \<^verbatim>\<open>selectedWallet\<close> are as before; \<^verbatim>\<open>browserProvider\<close> and \<^verbatim>\<open>chainId\<close> are as before unless the effect
  on \<^verbatim>\<open>provider\<close> ran and had its network query answered, and then they are those of \<open>t\<close>; on
  page C the listeners of the connect are registered. A connect whose authorisation is
  never answered does not settle: no toast, the Session as it was, \<^verbatim>\<open>isConnecting\<close> true.
  Every connect that settles adds exactly one toast, \<^verbatim>\<open>Connection Error\<close> or
  \<^verbatim>\<open>Wallet Connected\<close>.
\<close>

theorem refused_connect_keeps_session:
  "(refused_A e d \<longrightarrow>
      (\<exists>st'. connectWallet_A e d st = Returns () st' \<and> session st' = session st
         \<and> listeners st' = listeners st \<and> toasts st' = toasts st @ [connection_error]
         \<and> \<not> isConnecting st'))
   \<and> (refused_C e d \<longrightarrow>
      (\<exists>st'. connectWallet_C e d st = Returns () st' \<and> session st' = session st
         \<and> listeners st' = listeners st \<and> toasts st' = toasts st @ [connection_error]
         \<and> \<not> isConnecting st'))
   \<and> (authorized_A e d = Some t \<and> derive_fails e \<longrightarrow>
      (\<exists>st'. connectWallet_A e d st = Returns () st' \<and> half_connected e t st st'
         \<and> toasts st' = toasts st @ [connection_error] \<and> listeners st' = listeners st
         \<and> wcProvider st' = (if str_includes (rdns (d_info d)) ''walletconnect''
                             then Some t else wcProvider st)
         \<and> \<not> isConnecting st'))
   \<and> (authorized_C e d = Some t \<and> derive_fails e \<longrightarrow>
      (\<exists>st'. connectWallet_C e d st = Returns () st' \<and> half_connected e t st st'
         \<and> toasts st' = toasts st @ [connection_error]
         \<and> listeners st' = listeners st @ registered_C d t
         \<and> wcProvider st' = (if str_includes (rdns (d_info d)) ''walletconnect''
                             then Some t else wcProvider st)
         \<and> \<not> isConnecting st'))
   \<and> (unanswered_A e d \<longrightarrow>
        \<not> settled (connectWallet_A e d st)
        \<and> session (final (connectWallet_A e d st)) = session st
        \<and> toasts (final (connectWallet_A e d st)) = toasts st
        \<and> isConnecting (final (connectWallet_A e d st)))
   \<and> (unanswered_C e d \<longrightarrow>
        \<not> settled (connectWallet_C e d st)
        \<and> session (final (connectWallet_C e d st)) = session st
        \<and> toasts (final (connectWallet_C e d st)) = toasts st
        \<and> isConnecting (final (connectWallet_C e d st)))
   \<and> (settled (connectWallet_A e d st) \<longrightarrow>
      (\<exists>t. toasts (final (connectWallet_A e d st)) = toasts st @ [t]
         \<and> (t = connection_error \<or> is_connected_toast t)))
   \<and> (settled (connectWallet_C e d st) \<longrightarrow>
      (\<exists>t. toasts (final (connectWallet_C e d st)) = toasts st @ [t]
         \<and> (t = connection_error \<or> is_connected_toast t)))"
  using refused_connect_A [of e d st] refused_connect_C [of e d st]
    failed_after_authorization_A [of e d t st] failed_after_authorization_C [of e d t st]
    unanswered_connect_A [of e d st] unanswered_connect_C [of e d st]
    one_toast_A [of e d st] one_toast_C [of e d st]
  by blast

theorem refused_connect_keeps_session_witness:
  "refused_A denying rabby \<and> refused_C denying rabby
   \<and> authorized_A signer_fails rabby = Some trust_wallet
   \<and> authorized_C signer_fails rabby = Some trust_wallet \<and> derive_fails signer_fails
   \<and> unanswered_A ignoring rabby \<and> unanswered_C ignoring rabby
   \<and> provider connected = Some injected
   \<and> session (final (connectWallet_A denying rabby connected_A)) = session connected_A
   \<and> session (final (connectWallet_C denying rabby connected)) = session connected
   \<and> toasts (final (connectWallet_A denying rabby connected_A))
       = toasts connected_A @ [connection_error]
   \<and> toasts (final (connectWallet_C denying rabby connected))
       = toasts connected @ [connection_error]
   \<and> half_connected signer_fails trust_wallet connected_A
        (final (connectWallet_A signer_fails rabby connected_A))
   \<and> half_connected signer_fails trust_wallet connected
        (final (connectWallet_C signer_fails rabby connected))
   \<and> listeners (final (connectWallet_C signer_fails rabby connected))
       = listeners connected @ registered_C rabby trust_wallet
   \<and> settled (connectWallet_C signer_fails rabby connected)
   \<and> toasts (final (connectWallet_C signer_fails rabby connected))
       = toasts connected @ [connection_error]
   \<and> \<not> settled (connectWallet_A ignoring rabby connected_A)
   \<and> \<not> settled (connectWallet_C ignoring rabby connected)"
proof -
  have a: "refused_A denying rabby"
    by (simp add: refused_A_def is_rejected_def sample_defs)
  have c: "refused_C denying rabby"
    by (simp add: refused_C_def is_rejected_def sample_defs)
  have f: "authorized_A signer_fails rabby = Some trust_wallet"
    "authorized_C signer_fails rabby = Some trust_wallet" "derive_fails signer_fails"
    by (simp_all add: authorized_A_def authorized_C_def granted_def derive_fails_def
          is_resolved_def sample_defs)
  have u: "unanswered_A ignoring rabby" "unanswered_C ignoring rabby"
    by (simp_all add: unanswered_A_def unanswered_C_def sample_defs)
  have p: "provider connected = Some injected"
    by (simp add: connected_value connected_A_value)
  note r1 = refused_connect_keeps_session [where e = denying and d = rabby and st = connected_A]
  note r2 = refused_connect_keeps_session [where e = denying and d = rabby and st = connected]
  note r3 = refused_connect_keeps_session [where e = signer_fails and d = rabby
      and t = trust_wallet and st = connected_A]
  note r4 = refused_connect_keeps_session [where e = signer_fails and d = rabby
      and t = trust_wallet and st = connected]
  note r5 = refused_connect_keeps_session [where e = ignoring and d = rabby and st = connected_A]
  note r6 = refused_connect_keeps_session [where e = ignoring and d = rabby and st = connected]
  from r1 [THEN conjunct1, THEN mp, OF a] obtain s1 where
    s1: "connectWallet_A denying rabby connected_A = Returns () s1"
      "session s1 = session connected_A" "toasts s1 = toasts connected_A @ [connection_error]"
    by blast
  from r2 [THEN conjunct2, THEN conjunct1, THEN mp, OF c] obtain s2 where
    s2: "connectWallet_C denying rabby connected = Returns () s2"
      "session s2 = session connected" "toasts s2 = toasts connected @ [connection_error]"
    by blast
  from r3 [THEN conjunct2, THEN conjunct2, THEN conjunct1, THEN mp, OF conjI [OF f(1) f(3)]]
  obtain s3 where
    s3: "connectWallet_A signer_fails rabby connected_A = Returns () s3"
      "half_connected signer_fails trust_wallet connected_A s3"
    by blast
  from r4 [THEN conjunct2, THEN conjunct2, THEN conjunct2, THEN conjunct1, THEN mp,
      OF conjI [OF f(2) f(3)]]
  obtain s4 where
    s4: "connectWallet_C signer_fails rabby connected = Returns () s4"
      "half_connected signer_fails trust_wallet connected s4"
      "toasts s4 = toasts connected @ [connection_error]"
      "listeners s4 = listeners connected @ registered_C rabby trust_wallet"
    by blast
  note s5 = r5 [THEN conjunct2, THEN conjunct2, THEN conjunct2, THEN conjunct2, THEN conjunct1,
      THEN mp, OF u(1), THEN conjunct1]
  note s6 = r6 [THEN conjunct2, THEN conjunct2, THEN conjunct2, THEN conjunct2, THEN conjunct2,
      THEN conjunct1, THEN mp, OF u(2), THEN conjunct1]
  from a c f u p s1 s2 s3 s4 s5 s6 show ?thesis by simp
qed

text \<open>
  Claim C1 as it is written fails when a step after the authorisation fails. On page A,
  with \<open>metamask\<close> connected on chain 1, a connect to \<open>rabby\<close> whose \<^verbatim>\<open>getSigner\<close> is rejected
  shows \<^verbatim>\<open>Connection Error\<close> and leaves \<^verbatim>\<open>provider\<close> and \<^verbatim>\<open>browserProvider\<close> on the transport of
  \<open>rabby\<close> and \<^verbatim>\<open>chainId\<close> at the chain 137 that the effect read there, while signer, address
  and \<^verbatim>\<open>selectedWallet\<close> are still those of \<open>metamask\<close>. From the initial state the same
  failure leaves a Session that is no longer absent.
\<close>

theorem failed_connect_overwrites_provider:
  "toasts (final (connectWallet_A signer_fails rabby connected_A))
     = toasts connected_A @ [connection_error]
   \<and> provider connected_A = Some injected
   \<and> provider (final (connectWallet_A signer_fails rabby connected_A)) = Some trust_wallet
   \<and> browserProvider (final (connectWallet_A signer_fails rabby connected_A))
       = Some (BrowserProvider trust_wallet)
   \<and> chainId connected_A = Some (Num 1)
   \<and> chainId (final (connectWallet_A signer_fails rabby connected_A)) = Some (Num 137)
   \<and> signer (final (connectWallet_A signer_fails rabby connected_A)) = signer connected_A
   \<and> address (final (connectWallet_A signer_fails rabby connected_A)) = address connected_A
   \<and> selectedWallet (final (connectWallet_A signer_fails rabby connected_A))
       = Some (d_info metamask)
   \<and> session (final (connectWallet_A signer_fails rabby connected_A)) \<noteq> session connected_A
   \<and> session_absent initial_state
   \<and> \<not> session_absent (final (connectWallet_A signer_fails metamask initial_state))
   \<and> \<not> session_absent (final (connectWallet_C signer_fails metamask initial_state))"
  by (simp add: connected_A_value connect_defs effect_defs sample_defs toasts_def session_def
        session_absent_def connection_error_def sanitize_1)




subsection \<open>Disconnect\<close>

lemma disconnect_AB_absent:
  "session_absent (disconnectWallet_AB snap st)
   \<and> listeners (disconnectWallet_AB snap st) = listeners st"
  by (simp add: session_absent_def session_def disconnect_defs split: option.splits)

lemma disconnect_C_absent:
  "session_absent (disconnectWallet_C snap st)
   \<and> listeners (disconnectWallet_C snap st) = listeners st"
  by (simp add: session_absent_def session_def disconnect_defs Let_def split: option.splits)

lemma disconnect_AB_idle:
  "session_absent st \<Longrightarrow> (disconnectWallet_AB snap st)\<lparr>log := log st\<rparr> = st"
  by (cases st) (simp add: session_absent_def session_def disconnect_defs split: option.splits)

lemma disconnect_C_idle:
  "session_absent st \<Longrightarrow>
     (disconnectWallet_C snap st)\<lparr>log := log st, coinbaseWallet := coinbaseWallet st\<rparr> = st"
  by (cases st)
     (simp add: session_absent_def session_def disconnect_defs Let_def split: option.splits)

text \<open>
  Claim C2, as the code has it. From every state and for every closure,
  \<^verbatim>\<open>disconnectWallet\<close> leaves the Session absent and the registered listeners exactly as
  they were: it calls no \<^verbatim>\<open>removeListener\<close>. When the Session is already absent, nothing but
  the log changes on pages A and B (the toast is still shown), and nothing but the log
  and the cell \<^verbatim>\<open>coinbaseWallet\<close> on page C.
\<close>

theorem disconnect_resets_session_only:
  "session_absent (disconnectWallet_AB snap st)
   \<and> listeners (disconnectWallet_AB snap st) = listeners st
   \<and> session_absent (disconnectWallet_C snap st)
   \<and> listeners (disconnectWallet_C snap st) = listeners st
   \<and> (session_absent st \<longrightarrow>
        (disconnectWallet_AB snap st)\<lparr>log := log st\<rparr> = st
        \<and> (disconnectWallet_C snap st)\<lparr>log := log st, coinbaseWallet := coinbaseWallet st\<rparr> = st)"
  using disconnect_AB_absent [of snap st] disconnect_C_absent [of snap st]
    disconnect_AB_idle [of st snap] disconnect_C_idle [of st snap]
  by blast

theorem disconnect_resets_session_only_witness:
  "session_absent initial_state
   \<and> (disconnectWallet_AB initial_state initial_state)\<lparr>log := log initial_state\<rparr> = initial_state
   \<and> (disconnectWallet_C initial_state initial_state)
        \<lparr>log := log initial_state, coinbaseWallet := coinbaseWallet initial_state\<rparr> = initial_state
   \<and> toasts (disconnectWallet_AB initial_state initial_state)
       = [Toast TInfo ''Wallet Disconnected'' ''Your wallet has been disconnected.'']"
proof -
  have h: "session_absent initial_state"
    by (simp add: session_absent_def session_def initial_state_def)
  have t: "toasts (disconnectWallet_AB initial_state initial_state)
             = [Toast TInfo ''Wallet Disconnected'' ''Your wallet has been disconnected.'']"
    by (simp add: toasts_def disconnect_defs initial_state_def)
  from h disconnect_resets_session_only [of initial_state initial_state] t
  show ?thesis by blast
qed

text \<open>
  Claim C2 as it is written fails on the listeners: after a granted connect, a
  disconnect leaves the Session absent and the two handlers of the connect registered,
  on page A and on page C.
\<close>

theorem disconnect_leaves_listeners:
  "session_absent (disconnectWallet_AB connected_A connected_A)
   \<and> listeners (disconnectWallet_AB connected_A connected_A)
       = [(injected, ''accountsChanged'', HandleAccountsChanged),
          (injected, ''chainChanged'', HandleChainChanged)]
   \<and> session_absent (disconnectWallet_C connected connected)
   \<and> listeners (disconnectWallet_C connected connected)
       = [(injected, ''accountsChanged'', HandleAccountsChanged),
          (injected, ''chainChanged'', HandleChainChanged)]
   \<and> listeners (disconnectWallet_C connected connected) \<noteq> []"
  by (simp add: disconnect_AB_absent disconnect_C_absent connected_value connected_A_value)

subsection \<open>Chain switch\<close>

lemma remove_last_snoc [simp]: "remove_last x (xs @ [x]) = xs"
  by (simp add: remove_last_def)

lemmas proj_defs = toasts_def requests_def sent_def

lemma await_AB_frame:
  "requests (final (await_chainChanged_AB snap ev st)) = requests st
   \<and> sent (final (await_chainChanged_AB snap ev st)) = sent st
   \<and> chainId (final (await_chainChanged_AB snap ev st)) = chainId st"
  by (simp add: await_chainChanged_AB_def effect_defs proj_defs Let_def split: option.splits)

lemma await_C_frame:
  "requests (final (await_chainChanged_C a ev st)) = requests st
   \<and> sent (final (await_chainChanged_C a ev st)) = sent st
   \<and> listeners (final (await_chainChanged_C a ev st)) = listeners st
   \<and> settled (await_chainChanged_C a ev st)"
  by (simp add: await_chainChanged_C_def effect_defs proj_defs Let_def split: option.splits)

lemma initializeProvider_frame:
  "log (final (initializeProvider snap r st)) = log st"
  by (simp add: initializeProvider_def split: option.splits reply.splits)

lemma initializeProvider_returns:
  "initializeProvider snap r st = Returns (Some bp) s \<Longrightarrow>
     \<exists>n. r = Resolves n \<and> chainId s = Some (sanitizeChainId n) \<and> log s = log st"
  by (auto simp add: initializeProvider_def split: option.splits reply.splits)

lemma initializeProvider_log:
  "initializeProvider snap r st = Returns x s \<Longrightarrow> log s = log st"
  "initializeProvider snap r st = Throws y s \<Longrightarrow> log s = log st"
  "initializeProvider snap r st = Pending s \<Longrightarrow> log s = log st"
  using initializeProvider_frame [of snap r st] by simp_all

lemma await_AB_returns:
  "await_chainChanged_AB snap ev st = Returns t s \<Longrightarrow>
     requests s = requests st \<and> sent s = sent st \<and> chainId s = chainId st"
  using await_AB_frame [of snap ev st] by simp

lemma switch_settle_AB_frame:
  "requests (final (switch_settle_AB snap c e st)) = requests st
   \<and> sent (final (switch_settle_AB snap c e st)) = sent st"
proof (cases "await_chainChanged_AB snap (chain_event e) st")
  case (Returns t s)
  from await_AB_returns [OF Returns] have s: "requests s = requests st" "sent s = sent st" by simp_all
  show ?thesis
  proof (cases "initializeProvider snap (init_network e) s")
    case r2: (Returns x s1)
    from initializeProvider_log(1) [OF r2] s have "requests s1 = requests st" "sent s1 = sent st"
      by (simp_all add: proj_defs)
    then show ?thesis using Returns r2
      by (simp add: switch_settle_AB_def switched_toast_def effect_defs proj_defs Let_def
            split: option.splits reply.splits)
  next
    case (Throws x s1)
    from initializeProvider_log(2) [OF Throws] s show ?thesis using Returns Throws
      by (simp add: switch_settle_AB_def proj_defs)
  next
    case (Pending s1)
    from initializeProvider_log(3) [OF Pending] s show ?thesis using Returns Pending
      by (simp add: switch_settle_AB_def proj_defs)
  qed
next
  case (Throws x s)
  with await_AB_frame [of snap "chain_event e" st] show ?thesis
    by (simp add: switch_settle_AB_def)
next
  case (Pending s)
  with await_AB_frame [of snap "chain_event e" st] show ?thesis
    by (simp add: switch_settle_AB_def)
qed

lemma switch_settle_AB_returns:
  assumes "switch_settle_AB snap c e st = Returns u s"
  shows "\<exists>n. init_network e = Resolves n \<and> chainId s = Some (sanitizeChainId n)"
proof (cases "await_chainChanged_AB snap (chain_event e) st")
  case (Returns t s0)
  show ?thesis
  proof (cases "initializeProvider snap (init_network e) s0")
    case r2: (Returns x s1)
    show ?thesis
    proof (cases x)
      case None
      with assms Returns r2 show ?thesis by (simp add: switch_settle_AB_def)
    next
      case (Some bp)
      with initializeProvider_returns [of snap "init_network e" s0 bp s1] r2
      obtain n where n: "init_network e = Resolves n" "chainId s1 = Some (sanitizeChainId n)" by blast
      with assms Returns r2 Some show ?thesis
        by (auto simp add: switch_settle_AB_def switched_toast_def effect_defs Let_def
              split: reply.splits)
    qed
  qed (use assms Returns in \<open>simp_all add: switch_settle_AB_def\<close>)
qed (use assms in \<open>simp_all add: switch_settle_AB_def\<close>)

lemma switch_trust_B_frame:
  "requests (final (switch_trust_B p c target e st)) = requests st
   \<and> sent (final (switch_trust_B p c target e st)) = sent st"
  by (simp add: switch_trust_B_def switched_toast_def effect_defs proj_defs Let_def
        split: reply.splits)

lemma switch_trust_B_returns:
  "switch_trust_B p c target e st = Returns u s \<Longrightarrow> chainId s = Some target"
  by (auto simp add: switch_trust_B_def switched_toast_def effect_defs Let_def
        split: reply.splits)


lemma request_proj:
  "requests (request a r st) = requests st @ [Request a r]"
  "sent (request a r st) = sent st"
  "toasts (request a r st) = toasts st"
  by (simp_all add: proj_defs effect_defs)

lemma toast_proj:
  "requests (showToast k t d st) = requests st"
  "sent (showToast k t d st) = sent st"
  by (simp_all add: proj_defs effect_defs)

lemma switching_proj:
  "requests (st\<lparr>isSwitchingChain := b\<rparr>) = requests st"
  "sent (st\<lparr>isSwitchingChain := b\<rparr>) = sent st"
  "toasts (st\<lparr>isSwitchingChain := b\<rparr>) = toasts st"
  by (simp_all add: proj_defs)

lemma switch_try_AB_frame:
  "sent (final (switch_try_AB pg snap c target e st)) = sent st
   \<and> requests (final (switch_try_AB pg snap c target e st))
       = (case active_transport snap of None \<Rightarrow> requests st
          | Some a \<Rightarrow> requests st @ [switch_request a target])"
proof (cases "active_transport snap")
  case None
  then show ?thesis by (simp add: switch_try_AB_def)
next
  case (Some a)
  let ?st1 = "request a (SwitchEthereumChain (formatChainId target)) st"
  show ?thesis
  proof (cases "switch_reply e")
    case (Resolves u)
    show ?thesis
    proof (cases "trust_branch pg snap")
      case None
      with Some Resolves switch_settle_AB_frame [of snap c e ?st1] show ?thesis
        by (simp add: switch_try_AB_def Let_def request_proj switch_request_def)
    next
      case tb: (Some p)
      with Some Resolves switch_trust_B_frame [of p c target e ?st1] show ?thesis
        by (simp add: switch_try_AB_def Let_def request_proj switch_request_def)
    qed
  qed (use Some in \<open>simp_all add: switch_try_AB_def Let_def request_proj switch_request_def\<close>)
qed

lemma switch_try_AB_throws_switch:
  assumes "active_transport snap = Some a" "switch_reply e = Rejects err"
  shows "switch_try_AB pg snap c target e st
           = Throws err (request a (SwitchEthereumChain (formatChainId target)) st)"
  using assms by (simp add: switch_try_AB_def Let_def)

lemma switch_AB_ext:
  "sent (final (switchChain_AB pg cfg snap name es st)) = sent st
     \<and> prefix (requests st) (requests (final (switchChain_AB pg cfg snap name es st)))"
  "sent (final (addNetwork_AB pg cfg snap c fmt es st)) = sent st
     \<and> prefix (requests st) (requests (final (addNetwork_AB pg cfg snap c fmt es st)))"
proof (induction pg cfg snap name es st and pg cfg snap c fmt es st
       rule: switchChain_AB_addNetwork_AB.induct)
  case (1 pg cfg snap name es st0)
  let ?st = "st0\<lparr>isSwitchingChain := True\<rparr>"
  show ?case
  proof (cases "cfg name")
    case None
    then show ?thesis by (simp add: switchChain_AB.simps proj_defs)
  next
    case (Some c)
    let ?t = "sanitizeChainId (cfg_chainId c)"
    show ?thesis
    proof (cases "on_chain (chainId snap) ?t")
      case True
      with Some show ?thesis by (simp add: switchChain_AB.simps proj_defs)
    next
      case False
      have fr: "sent (final (switch_try_AB pg snap c ?t (first_env es) ?st)) = sent st0"
               "prefix (requests st0) (requests (final (switch_try_AB pg snap c ?t (first_env es) ?st)))"
        using switch_try_AB_frame [of pg snap c ?t "first_env es" ?st]
        by (simp_all add: switching_proj split: option.splits)
      show ?thesis
      proof (cases "switch_try_AB pg snap c ?t (first_env es) ?st")
        case (Returns u s)
        with fr Some False show ?thesis
          by (simp add: switchChain_AB.simps Let_def switching_proj)
      next
        case (Pending s)
        with fr Some False show ?thesis
          by (simp add: switchChain_AB.simps Let_def)
      next
        case (Throws err s)
        with fr have s: "sent s = sent st0" "prefix (requests st0) (requests s)" by simp_all
        show ?thesis
        proof (cases "unknown_chain_AB err")
          case u: False
          with Throws s Some False show ?thesis
            by (simp add: switchChain_AB.simps Let_def switching_proj switch_failed_toast_def
                  toast_proj)
        next
          case u: True
          from "1.IH" [OF refl Some refl refl False Throws u]
          have ih: "sent (final (addNetwork_AB pg cfg snap c (formatChainId ?t) es s)) = sent s"
            "prefix (requests s) (requests (final (addNetwork_AB pg cfg snap c (formatChainId ?t) es s)))"
            by simp_all
          with s have ih': "sent (final (addNetwork_AB pg cfg snap c (formatChainId ?t) es s)) = sent st0"
            "prefix (requests st0) (requests (final (addNetwork_AB pg cfg snap c (formatChainId ?t) es s)))"
            by (simp, meson prefix_order.trans)
          then show ?thesis using Throws u Some False
            by (cases "addNetwork_AB pg cfg snap c (formatChainId ?t) es s")
               (simp_all add: switchChain_AB.simps Let_def switching_proj toast_proj)
        qed
      qed
    qed
  qed
next
  case (2 pg cfg snap chainConfig formattedChainId st)
  then show ?case
    by (simp add: addNetwork_AB.simps request_proj split: option.splits)
next
  case (3 pg cfg snap chainConfig formattedChainId e es st)
  show ?case
  proof (cases "active_transport snap")
    case None
    then show ?thesis by (simp add: addNetwork_AB.simps)
  next
    case (Some a)
    let ?st1 = "request a (AddEthereumChain (add_params_of chainConfig formattedChainId)) st"
    show ?thesis
    proof (cases "add_reply e")
      case (Resolves u)
      from "3.IH" [OF Some refl Resolves]
      have "sent (final (switchChain_AB pg cfg snap (chainName chainConfig) es ?st1)) = sent ?st1"
        "prefix (requests ?st1) (requests (final (switchChain_AB pg cfg snap (chainName chainConfig) es ?st1)))"
        by simp_all
      then show ?thesis using Some Resolves
        by (simp add: addNetwork_AB.simps Let_def request_proj) (meson prefix_order.trans prefixI)
    qed (use Some in \<open>simp_all add: addNetwork_AB.simps Let_def request_proj\<close>)
  qed
qed


lemma switch_request_C_frame:
  assumes "active_transport snap = Some a"
  shows "sent (final (switch_request_C snap a c (formatChainId target) e st)) = sent st
   \<and> requests (final (switch_request_C snap a c (formatChainId target) e st))
       = requests st @ switch_request a target # (if fallback_C snap e then [add_request a c target] else [])"
  using assms
  by (simp add: switch_request_C_def addNetwork_C_def fallback_C_def Let_def request_proj
        switch_request_def add_request_def split: reply.splits option.splits)

lemma deliver_frame:
  "requests (deliver_chainChanged hp w arg h s) = requests s
   \<and> sent (deliver_chainChanged hp w arg h s) = sent s
   \<and> toasts (deliver_chainChanged hp w arg h s) = toasts s
   \<and> prefix (log s) (log (deliver_chainChanged hp w arg h s))"
  by (cases h)
     (simp_all add: handleChainChanged_sync_def effect_defs proj_defs Let_def split: option.splits)

lemma deliver_all_frame:
  "requests (foldl (\<lambda>s h. deliver_chainChanged hp w arg h s) s hs) = requests s
   \<and> sent (foldl (\<lambda>s h. deliver_chainChanged hp w arg h s) s hs) = sent s
   \<and> toasts (foldl (\<lambda>s h. deliver_chainChanged hp w arg h s) s hs) = toasts s
   \<and> prefix (log s) (log (foldl (\<lambda>s h. deliver_chainChanged hp w arg h s) s hs))"
proof (induction hs arbitrary: s)
  case Nil
  show ?case by simp
next
  case (Cons h hs)
  from Cons [of "deliver_chainChanged hp w arg h s"] deliver_frame [of hp w arg h s]
  show ?case by (auto intro: prefix_order.trans)
qed

lemma emit_C_frame:
  "requests (emit_chainChanged_C snap n e st) = requests st
   \<and> sent (emit_chainChanged_C snap n e st) = sent st"
proof (cases "wcProvider snap")
  case None
  then show ?thesis by (simp add: emit_chainChanged_C_def)
next
  case (Some w)
  show ?thesis
  proof (cases "emit_throws e")
    case True
    with Some show ?thesis by (simp add: emit_chainChanged_C_def toast_proj)
  next
    case False
    let ?p = "''eip155:'' @ toString 10 n"
    from deliver_all_frame [of "handler_provider e" w "JString (units ?p)"
        "logs (Emit w ''chainChanged'' ?p) st" "chainChanged_listeners w st"]
    show ?thesis using Some False
      by (simp add: emit_chainChanged_C_def Let_def) (simp add: proj_defs logs_def)
  qed
qed

lemma emit_C_quiet:
  "wcProvider snap = None \<or> emit_throws e \<Longrightarrow>
     chainId (emit_chainChanged_C snap n e st) = chainId st"
  by (auto simp add: emit_chainChanged_C_def effect_defs split: option.splits)

lemma await_C_returns:
  "\<exists>t s. await_chainChanged_C a ev st = Returns t s \<and> t \<le> 5000
      \<and> requests s = requests st \<and> sent s = sent st \<and> listeners s = listeners st"
  by (simp add: await_chainChanged_C_def effect_defs proj_defs Let_def split: option.splits)

lemma switch_settle_C_frame:
  "requests (final (switch_settle_C snap a c e st)) = requests st
   \<and> sent (final (switch_settle_C snap a c e st)) = sent st"
proof -
  from await_C_returns [of a "chain_event e" st] obtain t s where
    w: "await_chainChanged_C a (chain_event e) st = Returns t s"
       "requests s = requests st" "sent s = sent st" by blast
  show ?thesis
  proof (cases "initializeProvider snap (init_network e) s")
    case r2: (Returns x s1)
    from initializeProvider_log(1) [OF r2] w have "requests s1 = requests st" "sent s1 = sent st"
      by (simp_all add: proj_defs)
    then show ?thesis using w r2 emit_C_frame
      by (simp add: switch_settle_C_def switched_toast_def toast_proj Let_def
            split: option.splits reply.splits) (simp add: proj_defs)
  next
    case (Throws x s1)
    from initializeProvider_log(2) [OF Throws] w show ?thesis using Throws
      by (simp add: switch_settle_C_def proj_defs)
  next
    case (Pending s1)
    from initializeProvider_log(3) [OF Pending] w show ?thesis using Pending
      by (simp add: switch_settle_C_def proj_defs)
  qed
qed

lemma switch_settle_C_returns:
  assumes "switch_settle_C snap a c e st = Returns u s" "wcProvider snap = None \<or> emit_throws e"
  shows "\<exists>n. again_network e = Resolves n \<and> chainId s = Some (sanitizeChainId n)"
proof -
  from await_C_returns [of a "chain_event e" st] obtain t s0 where
    w: "await_chainChanged_C a (chain_event e) st = Returns t s0" by blast
  show ?thesis
  proof (cases "initializeProvider snap (init_network e) s0")
    case r2: (Returns x s1)
    show ?thesis
    proof (cases x)
      case None
      with assms w r2 show ?thesis by (simp add: switch_settle_C_def)
    next
      case (Some bp)
      with assms(1) w r2 emit_C_quiet [OF assms(2)] show ?thesis
        by (auto simp add: switch_settle_C_def switched_toast_def showToast_def logs_def Let_def
              split: reply.splits)
    qed
  qed (use assms(1) w in \<open>simp_all add: switch_settle_C_def\<close>)
qed

lemma switch_try_C_frame:
  assumes "active_transport snap = Some a"
  shows "sent (final (switch_try_C snap c target e st)) = sent st
   \<and> requests (final (switch_try_C snap c target e st))
       = requests st @ switch_request a target # (if fallback_C snap e then [add_request a c target] else [])"
proof -
  let ?r = "switch_request_C snap a c (formatChainId target) e st"
  note f = switch_request_C_frame [OF assms, of c target e st]
  show ?thesis
  proof (cases ?r)
    case (Returns u s)
    with f switch_settle_C_frame [of snap a c e s] assms show ?thesis
      by (simp add: switch_try_C_def)
  qed (use f assms in \<open>simp_all add: switch_try_C_def\<close>)
qed

lemma switch_try_C_returns:
  assumes "switch_try_C snap c target e st = Returns u s" "wcProvider snap = None \<or> emit_throws e"
  shows "\<exists>n. again_network e = Resolves n \<and> chainId s = Some (sanitizeChainId n)"
proof (cases "active_transport snap")
  case None
  with assms(1) show ?thesis by (simp add: switch_try_C_def)
next
  case (Some a)
  show ?thesis
  proof (cases "switch_request_C snap a c (formatChainId target) e st")
    case (Returns v s0)
    with assms(1) Some have "switch_settle_C snap a c e s0 = Returns u s"
      by (simp add: switch_try_C_def)
    from switch_settle_C_returns [OF this assms(2)] show ?thesis .
  qed (use assms(1) Some in \<open>simp_all add: switch_try_C_def\<close>)
qed

lemma switchChain_C_frame:
  assumes "cfg name = Some c" "\<not> on_chain (chainId snap) (sanitizeChainId (cfg_chainId c))"
    "active_transport snap = Some a"
  shows "sent (final (switchChain_C cfg snap name e st)) = sent st
   \<and> requests (final (switchChain_C cfg snap name e st))
       = requests st @ switch_request a (sanitizeChainId (cfg_chainId c))
           # (if fallback_C snap e then [add_request a c (sanitizeChainId (cfg_chainId c))] else [])"
proof -
  let ?t = "sanitizeChainId (cfg_chainId c)"
  let ?st = "st\<lparr>isSwitchingChain := True\<rparr>"
  note f = switch_try_C_frame [OF assms(3), of c ?t e ?st]
  show ?thesis
    using f assms(1,2)
    by (cases "switch_try_C snap c ?t e ?st")
       (simp_all add: switchChain_C_def Let_def switching_proj switch_failed_toast_def toast_proj)
qed

lemma switchChain_C_sent: "sent (final (switchChain_C cfg snap name e st)) = sent st"
proof (cases "cfg name")
  case None
  then show ?thesis by (simp add: switchChain_C_def toast_proj switching_proj)
next
  case (Some c)
  let ?t = "sanitizeChainId (cfg_chainId c)"
  let ?st = "st\<lparr>isSwitchingChain := True\<rparr>"
  show ?thesis
  proof (cases "on_chain (chainId snap) ?t")
    case True
    with Some show ?thesis by (simp add: switchChain_C_def switching_proj)
  next
    case False
    show ?thesis
    proof (cases "active_transport snap")
      case None
      with Some False show ?thesis
        by (simp add: switchChain_C_def switch_try_C_def switching_proj switch_failed_toast_def
              toast_proj)
    next
      case a: (Some a)
      from switchChain_C_frame [of cfg name c snap a e st] Some False a show ?thesis by simp
    qed
  qed
qed

lemmas switch_AB_defs = switch_try_AB_def switch_settle_AB_def switch_trust_B_def trust_branch_def
  await_chainChanged_AB_def initializeProvider_def active_transport_def first_env_def
  on_chain_def strict_eq_def formatChainId_def toString_def switched_toast_def
  switch_failed_toast_def unknown_chain_AB_def add_params_of_def

lemmas switch_C_defs = switchChain_C_def switch_try_C_def switch_settle_C_def switch_request_C_def
  addNetwork_C_def emit_chainChanged_C_def await_chainChanged_C_def fallback_C_def
  chainChanged_listeners_def handleChainChanged_sync_def

lemmas switch_env_defs = switching_def never_emits_def stays_on_1_def unknown_then_added_def
  emit_fails_def
  unknown_add_rejected_def switch_rejected_def wrapped_unknown_def silent_def

lemma trust_connected_value:
  "trust_connected = initial_state\<lparr>provider := Some trust_wallet, signer := Some (Signer 1),
     address := ''0x52908400098527886E0F7030069857D2E4169EE7'', chainId := Some (Num 1),
     selectedWallet := Some (d_info rabby),
     browserProvider := Some (BrowserProvider trust_wallet),
     listeners := [(trust_wallet, ''accountsChanged'', HandleAccountsChanged),
                   (trust_wallet, ''chainChanged'', HandleChainChanged)],
     log := log connected_A\<rparr>"
  by (simp add: trust_connected_def connected_A_value)


lemma switch_try_AB_returns:
  assumes "switch_try_AB pg snap c target e st = Returns u s"
  shows "case trust_branch pg snap of
           None \<Rightarrow> (\<exists>n. init_network e = Resolves n \<and> chainId s = Some (sanitizeChainId n))
         | Some p \<Rightarrow> chainId s = Some target"
proof (cases "active_transport snap")
  case None
  with assms show ?thesis by (simp add: switch_try_AB_def)
next
  case (Some a)
  let ?st1 = "request a (SwitchEthereumChain (formatChainId target)) st"
  show ?thesis
  proof (cases "switch_reply e")
    case (Resolves v)
    show ?thesis
    proof (cases "trust_branch pg snap")
      case None
      with assms Some Resolves have "switch_settle_AB snap c e ?st1 = Returns u s"
        by (simp add: switch_try_AB_def Let_def)
      from switch_settle_AB_returns [OF this] None show ?thesis by simp
    next
      case tb: (Some p)
      with assms Some Resolves have "switch_trust_B p c target e ?st1 = Returns u s"
        by (simp add: switch_try_AB_def Let_def)
      from switch_trust_B_returns [OF this] tb show ?thesis by simp
    qed
  qed (use assms Some in \<open>simp_all add: switch_try_AB_def Let_def\<close>)
qed

lemma switchChain_AB_success:
  assumes "cfg name = Some c" "\<not> on_chain (chainId snap) (sanitizeChainId (cfg_chainId c))"
    "switch_try_AB pg snap c (sanitizeChainId (cfg_chainId c)) (first_env es)
       (st\<lparr>isSwitchingChain := True\<rparr>) = Returns u s"
  shows "switchChain_AB pg cfg snap name es st = Returns () (s\<lparr>isSwitchingChain := False\<rparr>)"
  using assms by (simp add: switchChain_AB.simps Let_def)

lemma switchChain_C_success:
  assumes "cfg name = Some c" "\<not> on_chain (chainId snap) (sanitizeChainId (cfg_chainId c))"
    "switch_try_C snap c (sanitizeChainId (cfg_chainId c)) e
       (st\<lparr>isSwitchingChain := True\<rparr>) = Returns u s"
  shows "switchChain_C cfg snap name e st = Returns () (s\<lparr>isSwitchingChain := False\<rparr>)"
  using assms by (simp add: switchChain_C_def Let_def)

lemma wc_connected_value:
  "wc_connected = initial_state\<lparr>provider := Some wc_transport, signer := Some (Signer 1),
     address := ''0x52908400098527886E0F7030069857D2E4169EE7'', chainId := Some (Num 1),
     selectedWallet := Some (d_info walletconnect_button),
     browserProvider := Some (BrowserProvider wc_transport),
     wcProvider := Some wc_transport,
     listeners := [(wc_transport, ''accountsChanged'', HandleAccountsChanged),
                   (wc_transport, ''chainChanged'', HandleChainChanged),
                   (wc_transport, ''disconnect'', DisconnectHandler)],
     log := [On wc_transport ''accountsChanged'' HandleAccountsChanged,
             On wc_transport ''chainChanged'' HandleChainChanged,
             On wc_transport ''disconnect'' DisconnectHandler,
             Toast TSuccess ''Wallet Connected'' ''Connected to account 0x5290...9EE7'']\<rparr>"
  by (simp add: wc_connected_def connect_defs effect_defs sample_defs sanitize_1)

text \<open>
  Claim C6, as the code has it. When the \<^verbatim>\<open>try\<close> block of \<^verbatim>\<open>switchChain\<close> completes (the
  toast \<^verbatim>\<open>Network Switched\<close> is shown), \<^verbatim>\<open>switchChain\<close> returns with \<^verbatim>\<open>chainId\<close> taken from a
  network query made after the wait: the one of \<^verbatim>\<open>initializeProvider\<close> on page A and, for a
  transport that is not Trust Wallet, on page B; the second query on page C, when the
  Session has no WalletConnect transport or the \<^verbatim>\<open>emit\<close> of that transport throws. In the
  Trust Wallet branch of page B, \<^verbatim>\<open>chainId\<close> is the requested target and no query is made.
  Page A has no such branch; page B takes it exactly when \<^verbatim>\<open>provider.isTrust\<close> holds.
\<close>

theorem switch_chain_id_source:
  assumes "cfg name = Some c" "\<not> on_chain (chainId snap) (sanitizeChainId (cfg_chainId c))"
  shows
   "(switch_try_AB pg snap c (sanitizeChainId (cfg_chainId c)) (first_env es)
        (st\<lparr>isSwitchingChain := True\<rparr>) = Returns u s \<longrightarrow>
       switchChain_AB pg cfg snap name es st = Returns () (s\<lparr>isSwitchingChain := False\<rparr>)
       \<and> (case trust_branch pg snap of
            None \<Rightarrow> (\<exists>n. init_network (first_env es) = Resolves n
                         \<and> chainId (s\<lparr>isSwitchingChain := False\<rparr>) = Some (sanitizeChainId n))
          | Some p \<Rightarrow> chainId (s\<lparr>isSwitchingChain := False\<rparr>)
                        = Some (sanitizeChainId (cfg_chainId c))))
    \<and> (switch_try_C snap c (sanitizeChainId (cfg_chainId c)) e
        (st\<lparr>isSwitchingChain := True\<rparr>) = Returns u s'
        \<and> (wcProvider snap = None \<or> emit_throws e) \<longrightarrow>
       switchChain_C cfg snap name e st = Returns () (s'\<lparr>isSwitchingChain := False\<rparr>)
       \<and> (\<exists>n. again_network e = Resolves n
              \<and> chainId (s'\<lparr>isSwitchingChain := False\<rparr>) = Some (sanitizeChainId n)))
    \<and> trust_branch PageA snap = None
    \<and> (trust_branch PageB snap = None
         \<longleftrightarrow> (case provider snap of None \<Rightarrow> True | Some p \<Rightarrow> \<not> isTrust p))"
proof -
  have 1: "switchChain_AB pg cfg snap name es st = Returns () (s\<lparr>isSwitchingChain := False\<rparr>)
       \<and> (case trust_branch pg snap of
            None \<Rightarrow> (\<exists>n. init_network (first_env es) = Resolves n
                         \<and> chainId (s\<lparr>isSwitchingChain := False\<rparr>) = Some (sanitizeChainId n))
          | Some p \<Rightarrow> chainId (s\<lparr>isSwitchingChain := False\<rparr>)
                        = Some (sanitizeChainId (cfg_chainId c)))"
    if h: "switch_try_AB pg snap c (sanitizeChainId (cfg_chainId c)) (first_env es)
        (st\<lparr>isSwitchingChain := True\<rparr>) = Returns u s"
    using switchChain_AB_success [of cfg name c snap pg es st u s] assms h
      switch_try_AB_returns [OF h]
    by (simp split: option.splits)
  have 2: "switchChain_C cfg snap name e st = Returns () (s'\<lparr>isSwitchingChain := False\<rparr>)
       \<and> (\<exists>n. again_network e = Resolves n
              \<and> chainId (s'\<lparr>isSwitchingChain := False\<rparr>) = Some (sanitizeChainId n))"
    if h: "switch_try_C snap c (sanitizeChainId (cfg_chainId c)) e
        (st\<lparr>isSwitchingChain := True\<rparr>) = Returns u s'"
      and q: "wcProvider snap = None \<or> emit_throws e"
    using switchChain_C_success [of cfg name c snap e st u s'] assms h
      switch_try_C_returns [OF h q]
    by simp
  have 3: "trust_branch PageA snap = None" by (simp add: trust_branch_def)
  have 4: "trust_branch PageB snap = None
         \<longleftrightarrow> (case provider snap of None \<Rightarrow> True | Some p \<Rightarrow> \<not> isTrust p)"
    by (simp add: trust_branch_def split: option.splits)
  from 1 2 3 4 show ?thesis by blast
qed

theorem switch_chain_id_source_witness:
  "chains ''polygon'' = Some polygon
   \<and> \<not> on_chain (chainId trust_connected) (sanitizeChainId (cfg_chainId polygon))
   \<and> \<not> on_chain (chainId wc_connected) (sanitizeChainId (cfg_chainId polygon))
   \<and> wcProvider trust_connected = None \<and> emit_throws emit_fails
   \<and> wcProvider wc_connected = Some wc_transport
   \<and> (\<exists>s. switch_try_AB PageA trust_connected polygon (sanitizeChainId (cfg_chainId polygon))
             (first_env [stays_on_1]) (trust_connected\<lparr>isSwitchingChain := True\<rparr>) = Returns () s)
   \<and> (\<exists>s. switch_try_C trust_connected polygon (sanitizeChainId (cfg_chainId polygon))
             stays_on_1 (trust_connected\<lparr>isSwitchingChain := True\<rparr>) = Returns () s)
   \<and> (\<exists>s. switch_try_C wc_connected polygon (sanitizeChainId (cfg_chainId polygon))
             emit_fails (wc_connected\<lparr>isSwitchingChain := True\<rparr>) = Returns () s)
   \<and> chainId (final (switchChain_AB PageA chains trust_connected ''polygon'' [stays_on_1]
        trust_connected)) = Some (Num 1)
   \<and> chainId (final (switchChain_C chains trust_connected ''polygon'' stays_on_1
        trust_connected)) = Some (Num 1)
   \<and> chainId (final (switchChain_C chains wc_connected ''polygon'' emit_fails
        wc_connected)) = Some (Num 137)"
proof -
  let ?t = "sanitizeChainId (cfg_chainId polygon)"
  let ?st = "trust_connected\<lparr>isSwitchingChain := True\<rparr>"
  let ?wc = "wc_connected\<lparr>isSwitchingChain := True\<rparr>"
  have t: "?t = Num 137" by (simp add: polygon_def sanitize_0x89)
  have h1: "chains ''polygon'' = Some polygon" by (simp add: chains_def)
  have h2: "\<not> on_chain (chainId trust_connected) ?t"
    by (simp add: t trust_connected_value initial_state_def on_chain_def strict_eq_def)
  have h3: "\<not> on_chain (chainId wc_connected) ?t"
    by (simp add: t wc_connected_value initial_state_def on_chain_def strict_eq_def)
  have q: "wcProvider trust_connected = None" "emit_throws emit_fails"
    "wcProvider wc_connected = Some wc_transport"
    by (simp_all add: trust_connected_value wc_connected_value initial_state_def switch_env_defs)
  have n: "init_network (first_env [stays_on_1]) = Resolves (JBigInt 1)"
    "again_network stays_on_1 = Resolves (JBigInt 1)"
    "again_network emit_fails = Resolves (JBigInt 137)"
    by (simp_all add: first_env_def switch_env_defs)
  have "\<exists>s. switch_try_AB PageA trust_connected polygon ?t (first_env [stays_on_1]) ?st = Returns () s"
    by (simp add: t trust_connected_value sample_defs switch_env_defs switch_AB_defs effect_defs)
  then obtain s where a: "switch_try_AB PageA trust_connected polygon ?t (first_env [stays_on_1]) ?st
      = Returns () s" by blast
  have "\<exists>s. switch_try_C trust_connected polygon ?t stays_on_1 ?st = Returns () s"
    by (simp add: t trust_connected_value sample_defs switch_env_defs switch_C_defs
          initializeProvider_def active_transport_def effect_defs)
  then obtain s' where c: "switch_try_C trust_connected polygon ?t stays_on_1 ?st = Returns () s'"
    by blast
  have "\<exists>s. switch_try_C wc_connected polygon ?t emit_fails ?wc = Returns () s"
    by (simp add: t wc_connected_value sample_defs switch_env_defs switch_C_defs
          initializeProvider_def active_transport_def effect_defs)
  then obtain s'' where w: "switch_try_C wc_connected polygon ?t emit_fails ?wc = Returns () s''"
    by blast
  note r1 = switch_chain_id_source [where cfg = chains and name = "''polygon''" and c = polygon
      and snap = trust_connected and pg = PageA and es = "[stays_on_1]" and st = trust_connected
      and u = "()" and s = s and e = stays_on_1 and s' = s', OF h1 h2]
  note r2 = switch_chain_id_source [where cfg = chains and name = "''polygon''" and c = polygon
      and snap = wc_connected and st = wc_connected
      and u = "()" and e = emit_fails and s' = s'', OF h1 h3]
  from r1 [THEN conjunct1, THEN mp, OF a] n sanitize_1
  have 1: "chainId (final (switchChain_AB PageA chains trust_connected ''polygon''
      [stays_on_1] trust_connected)) = Some (Num 1)"
    by (auto simp add: trust_branch_def)
  from r1 [THEN conjunct2, THEN conjunct1, THEN mp, OF conjI [OF c disjI1 [OF q(1)]]] n sanitize_1
  have 2: "chainId (final (switchChain_C chains trust_connected ''polygon''
      stays_on_1 trust_connected)) = Some (Num 1)"
    by auto
  from r2 [THEN conjunct2, THEN conjunct1, THEN mp, OF conjI [OF w disjI2 [OF q(2)]]] n sanitize_1
  have 3: "chainId (final (switchChain_C chains wc_connected ''polygon''
      emit_fails wc_connected)) = Some (Num 137)"
    by auto
  from h1 h2 h3 q a c w 1 2 3 show ?thesis by blast
qed


lemma switchChain_AB_unknown:
  assumes "cfg name = Some c" "\<not> on_chain (chainId snap) (sanitizeChainId (cfg_chainId c))"
    "active_transport snap = Some a" "switch_reply e = Rejects err"
  shows "(unknown_chain_AB err \<longrightarrow>
           prefix (requests st @ [switch_request a (sanitizeChainId (cfg_chainId c)),
                                  add_request a c (sanitizeChainId (cfg_chainId c))])
             (requests (final (switchChain_AB pg cfg snap name (e # es) st))))
       \<and> (unknown_chain_AB err \<and> \<not> is_resolved (add_reply e) \<longrightarrow>
           requests (final (switchChain_AB pg cfg snap name (e # es) st))
             = requests st @ [switch_request a (sanitizeChainId (cfg_chainId c)),
                              add_request a c (sanitizeChainId (cfg_chainId c))])
       \<and> (\<not> unknown_chain_AB err \<longrightarrow>
           requests (final (switchChain_AB pg cfg snap name (e # es) st))
             = requests st @ [switch_request a (sanitizeChainId (cfg_chainId c))])"
proof -
  let ?t = "sanitizeChainId (cfg_chainId c)"
  let ?s1 = "request a (SwitchEthereumChain (formatChainId ?t)) (st\<lparr>isSwitchingChain := True\<rparr>)"
  let ?s2 = "request a (AddEthereumChain (add_params_of c (formatChainId ?t))) ?s1"
  have thrown: "switch_try_AB pg snap c ?t (first_env (e # es)) (st\<lparr>isSwitchingChain := True\<rparr>)
               = Throws err ?s1"
    using switch_try_AB_throws_switch [OF assms(3), of e err] assms(4)
    by (simp add: first_env_def)
  have r1: "requests ?s1 = requests st @ [switch_request a ?t]"
    by (simp add: request_proj switching_proj switch_request_def)
  have r2: "requests ?s2 = requests st @ [switch_request a ?t, add_request a c ?t]"
    by (simp add: request_proj switching_proj switch_request_def add_request_def)
  have known: "requests (final (switchChain_AB pg cfg snap name (e # es) st))
                 = requests st @ [switch_request a ?t]" if "\<not> unknown_chain_AB err"
    using that assms(1,2) thrown r1
    by (simp add: switchChain_AB.simps Let_def switch_failed_toast_def toast_proj switching_proj)
  have add: "requests (final (switchChain_AB pg cfg snap name (e # es) st))
               = requests (final (addNetwork_AB pg cfg snap c (formatChainId ?t) (e # es) ?s1))"
    if "unknown_chain_AB err"
    using that assms(1,2) thrown
    by (cases "addNetwork_AB pg cfg snap c (formatChainId ?t) (e # es) ?s1")
       (simp_all add: switchChain_AB.simps Let_def toast_proj switching_proj)
  have stop: "requests (final (addNetwork_AB pg cfg snap c (formatChainId ?t) (e # es) ?s1))
                = requests ?s2" if "\<not> is_resolved (add_reply e)"
    using that assms(3)
    by (cases "add_reply e") (simp_all add: addNetwork_AB.simps Let_def is_resolved_def)
  have go: "prefix (requests ?s2)
              (requests (final (addNetwork_AB pg cfg snap c (formatChainId ?t) (e # es) ?s1)))"
  proof (cases "add_reply e")
    case (Resolves u)
    with assms(3) switch_AB_ext(1) [of pg cfg snap "chainName c" es ?s2] show ?thesis
      by (simp add: addNetwork_AB.simps Let_def)
  qed (use assms(3) in \<open>simp_all add: addNetwork_AB.simps Let_def\<close>)
  from known add stop go r2 show ?thesis by simp
qed

text \<open>
  Claim C4, as the code has it. On page C a chain switch that reaches the transport makes
  exactly one switch request, followed by exactly one add request built from the entry
  when the transport is not WalletConnect and the switch request is rejected with code
  4902, and by no request otherwise: the wrapped forms of the error and every other
  failure add nothing, and no second switch request is made. On pages A and B a switch
  request rejected with an unknown-chain error (code 4902, wrapped code 4902, or code
  -32603 with \<^verbatim>\<open>Unrecognized chain ID\<close> in the message) is followed at once by the add request
  built from the entry; when that add request is rejected or not answered, nothing follows;
  when the switch request is rejected with any other error, no add request is made.
\<close>

theorem unknown_chain_fallback:
  assumes "cfg name = Some c" "\<not> on_chain (chainId snap) (sanitizeChainId (cfg_chainId c))"
    "active_transport snap = Some a"
  shows
   "requests (final (switchChain_C cfg snap name e st))
      = requests st @ switch_request a (sanitizeChainId (cfg_chainId c))
          # (if fallback_C snap e then [add_request a c (sanitizeChainId (cfg_chainId c))] else [])
    \<and> (switch_reply e = Rejects err \<and> unknown_chain_AB err \<longrightarrow>
         prefix (requests st @ [switch_request a (sanitizeChainId (cfg_chainId c)),
                                add_request a c (sanitizeChainId (cfg_chainId c))])
           (requests (final (switchChain_AB pg cfg snap name (e # es) st))))
    \<and> (switch_reply e = Rejects err \<and> unknown_chain_AB err \<and> \<not> is_resolved (add_reply e) \<longrightarrow>
         requests (final (switchChain_AB pg cfg snap name (e # es) st))
           = requests st @ [switch_request a (sanitizeChainId (cfg_chainId c)),
                            add_request a c (sanitizeChainId (cfg_chainId c))])
    \<and> (switch_reply e = Rejects err \<and> \<not> unknown_chain_AB err \<longrightarrow>
         requests (final (switchChain_AB pg cfg snap name (e # es) st))
           = requests st @ [switch_request a (sanitizeChainId (cfg_chainId c))])"
  using switchChain_C_frame [of cfg name c snap a e st]
    switchChain_AB_unknown [of cfg name c snap a e err st pg es] assms
  by blast

theorem unknown_chain_fallback_witness:
  "chains ''polygon'' = Some polygon
   \<and> \<not> on_chain (chainId connected_A) (sanitizeChainId (cfg_chainId polygon))
   \<and> active_transport connected_A = Some injected
   \<and> fallback_C connected_A unknown_then_added
   \<and> switch_reply unknown_then_added = Rejects unrecognized \<and> unknown_chain_AB unrecognized
   \<and> \<not> is_resolved (add_reply unknown_add_rejected)
   \<and> switch_reply switch_rejected = Rejects rejected \<and> \<not> unknown_chain_AB rejected
   \<and> requests (final (switchChain_C chains connected_A ''polygon'' unknown_then_added connected_A))
       = requests connected_A @ [switch_request injected (Num 137), add_request injected polygon (Num 137)]
   \<and> prefix (requests connected_A @ [switch_request injected (Num 137),
                                    add_request injected polygon (Num 137)])
        (requests (final (switchChain_AB PageA chains connected_A ''polygon''
           [unknown_then_added, switching] connected_A)))
   \<and> requests (final (switchChain_AB PageA chains connected_A ''polygon''
           [unknown_add_rejected, switching] connected_A))
       = requests connected_A @ [switch_request injected (Num 137), add_request injected polygon (Num 137)]
   \<and> requests (final (switchChain_AB PageA chains connected_A ''polygon''
           [switch_rejected, switching] connected_A))
       = requests connected_A @ [switch_request injected (Num 137)]"
proof -
  have t: "sanitizeChainId (cfg_chainId polygon) = Num 137" by (simp add: polygon_def parse_defs)
  have h1: "chains ''polygon'' = Some polygon" by (simp add: chains_def)
  have h2: "\<not> on_chain (chainId connected_A) (sanitizeChainId (cfg_chainId polygon))"
    by (simp add: t connected_A_value on_chain_def strict_eq_def)
  have h3: "active_transport connected_A = Some injected"
    by (simp add: connected_A_value sample_defs active_transport_def)
  have f: "fallback_C connected_A unknown_then_added"
    by (simp add: fallback_C_def connected_A_value sample_defs switch_env_defs)
  have e1: "switch_reply unknown_then_added = Rejects unrecognized"
       "switch_reply unknown_add_rejected = Rejects unrecognized"
       "switch_reply switch_rejected = Rejects rejected"
       "\<not> is_resolved (add_reply unknown_add_rejected)"
    by (simp_all add: switch_env_defs is_resolved_def)
  have u: "unknown_chain_AB unrecognized" "\<not> unknown_chain_AB rejected"
    by (simp_all add: unknown_chain_AB_def sample_defs)
  note a = unknown_chain_fallback [where cfg = chains and name = "''polygon''" and c = polygon
      and snap = connected_A and a = injected and e = unknown_then_added and err = unrecognized and pg = PageA
      and es = "[switching]" and st = connected_A, OF h1 h2 h3]
  note b = unknown_chain_fallback [where cfg = chains and name = "''polygon''" and c = polygon
      and snap = connected_A and a = injected and e = unknown_add_rejected and err = unrecognized and pg = PageA
      and es = "[switching]" and st = connected_A, OF h1 h2 h3]
  note c = unknown_chain_fallback [where cfg = chains and name = "''polygon''" and c = polygon
      and snap = connected_A and a = injected and e = switch_rejected and err = rejected and pg = PageA
      and es = "[switching]" and st = connected_A, OF h1 h2 h3]
  from a f e1 u t have 1:
    "requests (final (switchChain_C chains connected_A ''polygon'' unknown_then_added connected_A))
       = requests connected_A @ [switch_request injected (Num 137), add_request injected polygon (Num 137)]"
    "prefix (requests connected_A @ [switch_request injected (Num 137),
                                    add_request injected polygon (Num 137)])
        (requests (final (switchChain_AB PageA chains connected_A ''polygon''
           [unknown_then_added, switching] connected_A)))"
    by simp_all
  from b e1 u t have 2: "requests (final (switchChain_AB PageA chains connected_A ''polygon''
           [unknown_add_rejected, switching] connected_A))
       = requests connected_A @ [switch_request injected (Num 137), add_request injected polygon (Num 137)]"
    by simp
  from c e1 u t have 3: "requests (final (switchChain_AB PageA chains connected_A ''polygon''
           [switch_rejected, switching] connected_A))
       = requests connected_A @ [switch_request injected (Num 137)]"
    by simp
  from h1 h2 h3 f e1 u 1 2 3 show ?thesis by blast
qed

text \<open>
  Claim C4 as it is written fails on page C. With the chain unknown to the wallet (code
  4902) and the add request accepted, the run settles with \<^verbatim>\<open>Network Switched\<close> after one
  switch request and one add request: there is no second switch attempt. With the wrapped
  form of the error, which pages A and B recognise, page C makes no add request at all.
\<close>

theorem page_C_adds_without_second_switch:
  "requests (final (switchChain_C chains connected ''polygon'' unknown_then_added connected))
     = [Request injected EthRequestAccounts,
        Request injected (SwitchEthereumChain ''0x89''),
        Request injected (AddEthereumChain (add_params_of polygon ''0x89''))]
   \<and> settled (switchChain_C chains connected ''polygon'' unknown_then_added connected)
   \<and> toasts (final (switchChain_C chains connected ''polygon'' unknown_then_added connected))
       = toasts connected @ [Toast TSuccess ''Network Switched'' ''Switched to Polygon Mainnet'']
   \<and> unknown_chain_AB \<lparr>err_code = Some (- 32603), err_message = ''Internal JSON-RPC error.'',
        err_orig_code = Some 4902\<rparr>
   \<and> requests (final (switchChain_C chains connected ''polygon'' wrapped_unknown connected))
       = [Request injected EthRequestAccounts,
          Request injected (SwitchEthereumChain ''0x89'')]"
  by (simp add: connected_value connected_A_value sample_defs switch_env_defs switch_C_defs
        initializeProvider_def active_transport_def on_chain_def strict_eq_def formatChainId_def
        toString_def switched_toast_def switch_failed_toast_def unknown_chain_AB_def
        parse_defs effect_defs proj_defs)

text \<open>
  Claim C6 as it is written fails in the Trust Wallet branch of page B: the wallet
  accepts the switch request and every network query would answer chain 1, yet the run
  shows \<^verbatim>\<open>Network Switched\<close> and leaves \<^verbatim>\<open>chainId\<close> at the target 137.
\<close>

theorem trust_switch_assumes_target:
  "init_network stays_on_1 = Resolves (JBigInt 1)
   \<and> again_network stays_on_1 = Resolves (JBigInt 1)
   \<and> sanitizeChainId (JBigInt 1) = Num 1
   \<and> chainId (final (switchChain_AB PageB chains trust_connected ''polygon'' [stays_on_1]
        trust_connected)) = Some (Num 137)
   \<and> toasts (final (switchChain_AB PageB chains trust_connected ''polygon'' [stays_on_1]
        trust_connected))
       = toasts trust_connected @ [Toast TSuccess ''Network Switched'' ''Switched to Polygon Mainnet'']"
  by (simp add: switchChain_AB.simps trust_connected_value connected_A_value sample_defs
        switch_env_defs switch_AB_defs parse_defs effect_defs toasts_def)

text \<open>
  On page C a switch over WalletConnect writes the chain id it read, 137, and then emits
  \<^verbatim>\<open>chainChanged\<close> with the string \<^verbatim>\<open>eip155:137\<close>. When the transport delivers it, the
  \<^verbatim>\<open>handleChainChanged\<close> that the connect registered reads the string in base 16 up to the
  first character that is no digit, and the run ends with \<^verbatim>\<open>chainId\<close> 14, whatever the
  chain was.
\<close>

lemma emitted_payload_reads_as_14:
  "sanitizeChainId (JString (units (''eip155:'' @ x))) = Num 14"
proof -
  have "parseInt16 ([] @ [] @ [] @ [101] @ units (''ip155:'' @ x))
          = to_number ((if [] = [45::nat] then - 1 else 1) * int (hex_value [101]))"
    by (rule parseInt16_number)
       (simp_all add: no_digit_next_def units_def is_hex_def starts_0x_def)
  then show ?thesis
    by (simp add: sanitizeChainId_def units_def hex_value_def hex_val_def to_number_exact)
qed

lemma emitted_chain_id_reads_as_14:
  "Emit wc_transport ''chainChanged'' ''eip155:137''
     \<in> set (log (final (switchChain_C chains wc_connected ''polygon'' switching wc_connected)))
   \<and> again_network switching = Resolves (JBigInt 137)
   \<and> chainId (final (switchChain_C chains wc_connected ''polygon'' switching wc_connected))
       = Some (Num 14)
   \<and> toasts (final (switchChain_C chains wc_connected ''polygon'' switching wc_connected))
       = toasts wc_connected @ [Toast TSuccess ''Network Switched'' ''Switched to Polygon Mainnet'']"
proof -
  have t: "sanitizeChainId (cfg_chainId polygon) = Num 137" by (simp add: polygon_def sanitize_0x89)
  have d: "toString 10 (Num 137) = ''137''" by (simp add: toString_def)
  have e: "sanitizeChainId (JString (units ''eip155:137'')) = Num 14"
    using emitted_payload_reads_as_14 [of "''137''"] by simp
  show ?thesis
    by (simp add: switchChain_C_def switch_try_C_def switch_settle_C_def switch_request_C_def
          emit_chainChanged_C_def await_chainChanged_C_def chainChanged_listeners_def
          handleChainChanged_sync_def t d e sanitize_1 chains_def wc_connected_value
          initial_state_def switch_env_defs wc_transport_def
          initializeProvider_def active_transport_def on_chain_def strict_eq_def
          formatChainId_def toString_def switched_toast_def effect_defs toasts_def Let_def
          remove_last_def)
     (simp add: polygon_def)
qed

subsection \<open>The wait for the chain-changed event\<close>

lemma await_chainChanged_C_bounded:
  "\<exists>t s. await_chainChanged_C a ev st = Returns t s \<and> t \<le> 5000
     \<and> (case ev of None \<Rightarrow> t = 5000 | Some u \<Rightarrow> t = min u 5000)
     \<and> listeners s = listeners st
     \<and> log s = log st @ [On a ''chainChanged'' ChainChangedHandler,
                          RemoveListener a ''chainChanged'' ChainChangedHandler]"
  by (cases ev) (simp_all add: await_chainChanged_C_def effect_defs Let_def)

lemma await_chainChanged_AB_event:
  "active_transport snap = Some a \<Longrightarrow>
   await_chainChanged_AB snap (Some t) st
     = Returns t (st\<lparr>log := log st @ [On a ''chainChanged'' ChainChangedHandler,
                          RemoveListener a ''chainChanged'' ChainChangedHandler]\<rparr>)"
  by (simp add: await_chainChanged_AB_def effect_defs Let_def)

lemma await_chainChanged_AB_never:
  "active_transport snap = Some a \<Longrightarrow>
   await_chainChanged_AB snap None st
     = Pending (st\<lparr>listeners := listeners st @ [(a, ''chainChanged'', ChainChangedHandler)],
                   log := log st @ [On a ''chainChanged'' ChainChangedHandler]\<rparr>)"
  by (simp add: await_chainChanged_AB_def effect_defs Let_def)

text \<open>
  Claim C3 on the pages without the timer. On pages A and B, with \<open>metamask\<close> connected, a
  switch to \<open>polygon\<close> that the wallet accepts without ever emitting \<^verbatim>\<open>chainChanged\<close> never
  settles: \<^verbatim>\<open>isSwitchingChain\<close> stays true and the temporary listener stays registered. On
  page C the same input settles and the listener is gone.
\<close>

theorem switch_wait_never_settles:
  "\<not> settled (switchChain_AB PageA chains connected_A ''polygon'' [never_emits] connected_A)
   \<and> isSwitchingChain (final (switchChain_AB PageA chains connected_A ''polygon'' [never_emits]
        connected_A))
   \<and> listeners (final (switchChain_AB PageA chains connected_A ''polygon'' [never_emits]
        connected_A))
       = listeners connected_A @ [(injected, ''chainChanged'', ChainChangedHandler)]
   \<and> \<not> settled (switchChain_AB PageB chains connected_A ''polygon'' [never_emits] connected_A)
   \<and> listeners (final (switchChain_AB PageB chains connected_A ''polygon'' [never_emits]
        connected_A))
       = listeners connected_A @ [(injected, ''chainChanged'', ChainChangedHandler)]
   \<and> settled (switchChain_C chains connected ''polygon'' never_emits connected)
   \<and> listeners (final (switchChain_C chains connected ''polygon'' never_emits connected))
       = listeners connected"
  by (simp add: switchChain_AB.simps connected_value connected_A_value sample_defs
        switch_env_defs switch_AB_defs switch_C_defs parse_defs effect_defs)

subsection \<open>Test transaction\<close>

lemma grows_logs: "prefix (log st) (log (logs e st))"
  by (simp add: logs_def)

lemma await_AB_grows: "prefix (log st) (log (final (await_chainChanged_AB snap ev st)))"
  by (simp add: await_chainChanged_AB_def effect_defs Let_def split: option.splits)

lemma await_C_grows: "prefix (log st) (log (final (await_chainChanged_C a ev st)))"
  by (simp add: await_chainChanged_C_def effect_defs Let_def split: option.splits)

lemma after_init_grows:
  assumes "prefix (log st) (log s)"
  shows "prefix (log st) (log (final (initializeProvider snap r s)))"
  using assms by (simp add: initializeProvider_frame)

lemma switch_settle_AB_grows: "prefix (log st) (log (final (switch_settle_AB snap c e st)))"
proof (cases "await_chainChanged_AB snap (chain_event e) st")
  case (Returns t s)
  with await_AB_grows [of st snap "chain_event e"] have g: "prefix (log st) (log s)" by simp
  show ?thesis
  proof (cases "initializeProvider snap (init_network e) s")
    case r2: (Returns x s1)
    from initializeProvider_log(1) [OF r2] g have "prefix (log st) (log s1)" by simp
    then show ?thesis using Returns r2
      by (simp add: switch_settle_AB_def switched_toast_def effect_defs Let_def
            split: option.splits reply.splits)
  next
    case (Throws x s1)
    from initializeProvider_log(2) [OF Throws] g show ?thesis using Returns Throws
      by (simp add: switch_settle_AB_def)
  next
    case (Pending s1)
    from initializeProvider_log(3) [OF Pending] g show ?thesis using Returns Pending
      by (simp add: switch_settle_AB_def)
  qed
next
  case (Throws x s)
  with await_AB_grows [of st snap "chain_event e"] show ?thesis
    by (simp add: switch_settle_AB_def)
next
  case (Pending s)
  with await_AB_grows [of st snap "chain_event e"] show ?thesis
    by (simp add: switch_settle_AB_def)
qed

lemma switch_trust_B_grows: "prefix (log st) (log (final (switch_trust_B p c target e st)))"
  by (simp add: switch_trust_B_def switched_toast_def effect_defs Let_def split: reply.splits)

lemma request_log: "log (request a r st) = log st @ [Request a r]"
  by (simp add: effect_defs)

lemma prefix_after:
  "log s1 = log st @ [x] \<Longrightarrow> prefix (log s1) (log s2) \<Longrightarrow> prefix (log st @ [x]) (log s2)"
  by simp

lemma switch_try_AB_grows:
  "prefix (log st) (log (final (switch_try_AB pg snap c target e st)))"
  "active_transport snap = Some a \<Longrightarrow>
     prefix (log st @ [switch_request a target]) (log (final (switch_try_AB pg snap c target e st)))"
proof -
  have 2: "prefix (log st @ [switch_request a target]) (log (final (switch_try_AB pg snap c target e st)))"
    if a: "active_transport snap = Some a" for a
  proof -
    let ?st1 = "request a (SwitchEthereumChain (formatChainId target)) st"
    have l: "log ?st1 = log st @ [switch_request a target]"
      by (simp add: request_log switch_request_def)
    show ?thesis
    proof (cases "switch_reply e")
      case (Resolves u)
      show ?thesis
      proof (cases "trust_branch pg snap")
        case None
        with a Resolves prefix_after [OF l switch_settle_AB_grows [of ?st1 snap c e]] show ?thesis
          by (simp add: switch_try_AB_def Let_def)
      next
        case (Some p)
        with a Resolves prefix_after [OF l switch_trust_B_grows [of ?st1 p c target e]] show ?thesis
          by (simp add: switch_try_AB_def Let_def)
      qed
    qed (use a l in \<open>simp_all add: switch_try_AB_def Let_def\<close>)
  qed
  then show "active_transport snap = Some a \<Longrightarrow>
     prefix (log st @ [switch_request a target]) (log (final (switch_try_AB pg snap c target e st)))"
    by simp
  show "prefix (log st) (log (final (switch_try_AB pg snap c target e st)))"
  proof (cases "active_transport snap")
    case None
    then show ?thesis by (simp add: switch_try_AB_def)
  next
    case (Some a)
    from 2 [OF Some] show ?thesis by (meson append_prefixD)
  qed
qed


lemma showToast_log: "log (showToast k t d st) = log st @ [Toast k t d]"
  by (simp add: effect_defs)

lemma switch_AB_grows:
  "prefix (log st) (log (final (switchChain_AB pg cfg snap name es st)))"
  "prefix (log st) (log (final (addNetwork_AB pg cfg snap c fmt es st)))"
proof (induction pg cfg snap name es st and pg cfg snap c fmt es st
       rule: switchChain_AB_addNetwork_AB.induct)
  case (1 pg cfg snap name es st0)
  let ?st = "st0\<lparr>isSwitchingChain := True\<rparr>"
  show ?case
  proof (cases "cfg name")
    case None
    then show ?thesis by (simp add: switchChain_AB.simps)
  next
    case (Some c)
    let ?t = "sanitizeChainId (cfg_chainId c)"
    show ?thesis
    proof (cases "on_chain (chainId snap) ?t")
      case True
      with Some show ?thesis by (simp add: switchChain_AB.simps)
    next
      case False
      have fr: "prefix (log st0) (log (final (switch_try_AB pg snap c ?t (first_env es) ?st)))"
        using switch_try_AB_grows(1) [of ?st pg snap c ?t "first_env es"] by simp
      show ?thesis
      proof (cases "switch_try_AB pg snap c ?t (first_env es) ?st")
        case (Returns u s)
        with fr Some False show ?thesis by (simp add: switchChain_AB.simps Let_def)
      next
        case (Pending s)
        with fr Some False show ?thesis by (simp add: switchChain_AB.simps Let_def)
      next
        case (Throws err s)
        with fr have s: "prefix (log st0) (log s)" by simp
        show ?thesis
        proof (cases "unknown_chain_AB err")
          case u: False
          with Throws s Some False show ?thesis
            by (simp add: switchChain_AB.simps Let_def switch_failed_toast_def showToast_log)
        next
          case u: True
          from "1.IH" [OF refl Some refl refl False Throws u] s
          have "prefix (log st0) (log (final (addNetwork_AB pg cfg snap c (formatChainId ?t) es s)))"
            by (meson prefix_order.trans)
          then show ?thesis using Throws u Some False
            by (cases "addNetwork_AB pg cfg snap c (formatChainId ?t) es s")
               (simp_all add: switchChain_AB.simps Let_def showToast_log)
        qed
      qed
    qed
  qed
next
  case (2 pg cfg snap chainConfig formattedChainId st)
  then show ?case
    by (simp add: addNetwork_AB.simps request_log split: option.splits)
next
  case (3 pg cfg snap chainConfig formattedChainId e es st)
  show ?case
  proof (cases "active_transport snap")
    case None
    then show ?thesis by (simp add: addNetwork_AB.simps)
  next
    case (Some a)
    let ?st1 = "request a (AddEthereumChain (add_params_of chainConfig formattedChainId)) st"
    show ?thesis
    proof (cases "add_reply e")
      case (Resolves u)
      from "3.IH" [OF Some refl Resolves]
      have "prefix (log ?st1) (log (final (switchChain_AB pg cfg snap (chainName chainConfig) es ?st1)))" .
      then show ?thesis using Some Resolves
        by (simp add: addNetwork_AB.simps Let_def request_log) (meson append_prefixD)
    qed (use Some in \<open>simp_all add: addNetwork_AB.simps Let_def request_log\<close>)
  qed
qed

lemma switchChain_AB_first:
  assumes "cfg name = Some c" "\<not> on_chain (chainId snap) (sanitizeChainId (cfg_chainId c))"
    "active_transport snap = Some a"
  shows "prefix (log st @ [switch_request a (sanitizeChainId (cfg_chainId c))])
           (log (final (switchChain_AB pg cfg snap name es st)))"
proof -
  let ?t = "sanitizeChainId (cfg_chainId c)"
  let ?st = "st\<lparr>isSwitchingChain := True\<rparr>"
  let ?r = "switch_try_AB pg snap c ?t (first_env es) ?st"
  have fr: "prefix (log st @ [switch_request a ?t]) (log (final ?r))"
    using switch_try_AB_grows(2) [OF assms(3), of ?st ?t pg c "first_env es"] by simp
  show ?thesis
  proof (cases ?r)
    case (Returns u s)
    with fr assms(1,2) show ?thesis by (simp add: switchChain_AB.simps Let_def)
  next
    case (Pending s)
    with fr assms(1,2) show ?thesis by (simp add: switchChain_AB.simps Let_def)
  next
    case (Throws err s)
    with fr have s: "prefix (log st @ [switch_request a ?t]) (log s)" by simp
    show ?thesis
    proof (cases "unknown_chain_AB err")
      case False
      with Throws s assms(1,2) show ?thesis
        by (simp add: switchChain_AB.simps Let_def switch_failed_toast_def showToast_log)
    next
      case True
      from switch_AB_grows(2) [of s pg cfg snap c "formatChainId ?t" es] s
      have "prefix (log st @ [switch_request a ?t])
              (log (final (addNetwork_AB pg cfg snap c (formatChainId ?t) es s)))"
        by (meson prefix_order.trans)
      then show ?thesis using Throws True assms(1,2)
        by (cases "addNetwork_AB pg cfg snap c (formatChainId ?t) es s")
           (simp_all add: switchChain_AB.simps Let_def showToast_log)
    qed
  qed
qed

lemma emit_C_grows: "prefix (log st) (log (emit_chainChanged_C snap n e st))"
proof (cases "wcProvider snap")
  case None
  then show ?thesis by (simp add: emit_chainChanged_C_def)
next
  case (Some w)
  show ?thesis
  proof (cases "emit_throws e")
    case True
    with Some show ?thesis by (simp add: emit_chainChanged_C_def effect_defs)
  next
    case False
    let ?p = "''eip155:'' @ toString 10 n"
    from deliver_all_frame [of "handler_provider e" w "JString (units ?p)"
        "logs (Emit w ''chainChanged'' ?p) st" "chainChanged_listeners w st"]
    have "prefix (log (logs (Emit w ''chainChanged'' ?p) st))
            (log (emit_chainChanged_C snap n e st))"
      using Some False by (simp add: emit_chainChanged_C_def Let_def)
    with grows_logs [of st "Emit w ''chainChanged'' ?p"] show ?thesis
      by (meson prefix_order.trans)
  qed
qed

lemma switch_settle_C_grows: "prefix (log st) (log (final (switch_settle_C snap a c e st)))"
proof (cases "await_chainChanged_C a (chain_event e) st")
  case (Returns t s)
  with await_C_grows [of st a "chain_event e"] have g: "prefix (log st) (log s)" by simp
  show ?thesis
  proof (cases "initializeProvider snap (init_network e) s")
    case r2: (Returns x s1)
    from initializeProvider_log(1) [OF r2] g have g1: "prefix (log st) (log s1)" by simp
    have "prefix (log st) (log (emit_chainChanged_C snap n e (s1\<lparr>signer := Some sg, chainId := Some n\<rparr>)))"
      for sg n
      using emit_C_grows [of "s1\<lparr>signer := Some sg, chainId := Some n\<rparr>" snap n e] g1
      by (simp add: prefix_order.trans)
    with g1 show ?thesis using Returns r2
      by (simp add: switch_settle_C_def switched_toast_def showToast_log Let_def
            split: option.splits reply.splits)
  next
    case (Throws x s1)
    from initializeProvider_log(2) [OF Throws] g show ?thesis using Returns Throws
      by (simp add: switch_settle_C_def)
  next
    case (Pending s1)
    from initializeProvider_log(3) [OF Pending] g show ?thesis using Returns Pending
      by (simp add: switch_settle_C_def)
  qed
next
  case (Throws x s)
  with await_C_grows [of st a "chain_event e"] show ?thesis
    by (simp add: switch_settle_C_def)
next
  case (Pending s)
  with await_C_grows [of st a "chain_event e"] show ?thesis
    by (simp add: switch_settle_C_def)
qed

lemma switch_request_C_first:
  "prefix (log st @ [switch_request a target])
     (log (final (switch_request_C snap a c (formatChainId target) e st)))"
  by (simp add: switch_request_C_def addNetwork_C_def Let_def request_log switch_request_def
        split: reply.splits option.splits)

lemma switchChain_C_first:
  assumes "cfg name = Some c" "\<not> on_chain (chainId snap) (sanitizeChainId (cfg_chainId c))"
    "active_transport snap = Some a"
  shows "prefix (log st @ [switch_request a (sanitizeChainId (cfg_chainId c))])
           (log (final (switchChain_C cfg snap name e st)))"
proof -
  let ?t = "sanitizeChainId (cfg_chainId c)"
  let ?st = "st\<lparr>isSwitchingChain := True\<rparr>"
  let ?q = "switch_request_C snap a c (formatChainId ?t) e ?st"
  have q: "prefix (log st @ [switch_request a ?t]) (log (final ?q))"
    using switch_request_C_first [of ?st a ?t snap c e] by simp
  have "prefix (log st @ [switch_request a ?t]) (log (final (switch_try_C snap c ?t e ?st)))"
  proof (cases ?q)
    case (Returns u s)
    with q switch_settle_C_grows [of s snap a c e] assms(3) show ?thesis
      by (auto simp add: switch_try_C_def intro: prefix_order.trans)
  qed (use q assms(3) in \<open>simp_all add: switch_try_C_def\<close>)
  then show ?thesis using assms(1,2)
    by (cases "switch_try_C snap c ?t e ?st")
       (simp_all add: switchChain_C_def Let_def switch_failed_toast_def showToast_log)
qed

lemma logs_proj:
  "sent (logs e st) = (if is_send e then sent st @ [e] else sent st)"
  "toasts (logs e st) = (if is_toast e then toasts st @ [e] else toasts st)"
  by (simp_all add: proj_defs logs_def)

lemma submits_at_most_iff:
  "submits_at_most sg target st s \<longleftrightarrow>
     (sent s = sent st \<or>
      (\<exists>tx. sent s = sent st @ [SendTransaction sg tx] \<and> tx_chainId tx = target))"
  (is "?L \<longleftrightarrow> ?R")
proof
  assume l: ?L
  show ?R
  proof (cases "sent s = sent st")
    case True
    then show ?thesis by simp
  next
    case False
    with l obtain g tx where "sent s = sent st @ [SendTransaction g tx]" "g = sg"
      "tx_chainId tx = target"
      by (auto simp add: submits_at_most_def neq_Nil_conv split: list.splits effect.splits)
    then show ?thesis by blast
  qed
next
  assume ?R
  then show ?L by (auto simp add: submits_at_most_def)
qed

lemma revalidate_frame:
  "sent (final (revalidate_chain snap t e st)) = sent st
   \<and> toasts (final (revalidate_chain snap t e st)) = toasts st
   \<and> prefix (log st) (log (final (revalidate_chain snap t e st)))"
proof -
  let ?d = "logs (Delay 2000) st"
  have d: "sent ?d = sent st" "toasts ?d = toasts st" "prefix (log st) (log ?d)"
    by (simp_all add: logs_proj grows_logs)
  show ?thesis
  proof (cases "initializeProvider snap (s_init_network e) ?d")
    case (Returns x s)
    from initializeProvider_log(1) [OF Returns] d
    have "sent s = sent st" "toasts s = toasts st" "prefix (log st) (log s)"
      by (simp_all add: proj_defs)
    then show ?thesis using Returns
      by (simp add: revalidate_chain_def Let_def proj_defs split: option.splits reply.splits)
  next
    case (Throws x s)
    from initializeProvider_log(2) [OF Throws] d show ?thesis using Throws
      by (simp add: revalidate_chain_def proj_defs)
  next
    case (Pending s)
    from initializeProvider_log(3) [OF Pending] d show ?thesis using Pending
      by (simp add: revalidate_chain_def proj_defs)
  qed
qed

lemma revalidate_returns:
  assumes "revalidate_chain snap t e st = Returns u s"
  shows "revalidated e t"
  using assms
  by (cases "initializeProvider snap (s_init_network e) (logs (Delay 2000) st)")
     (auto simp add: revalidate_chain_def revalidated_def Let_def
        split: option.splits reply.splits if_splits)

lemma revalidate_mismatch:
  assumes "provider snap = Some p" "s_init_network e = Resolves m" "s_signer e = Resolves g"
    "s_network e = Resolves n" "\<not> strict_eq (sanitizeChainId n) t"
  shows "\<exists>s. revalidate_chain snap t e st = Throws (chain_switch_failed t (sanitizeChainId n)) s"
  using assms by (simp add: revalidate_chain_def initializeProvider_def Let_def)

lemma submit_frame:
  "sent (final (submit sg tx name e st)) = sent st @ [SendTransaction sg tx]
   \<and> prefix (log st) (log (final (submit sg tx name e st)))"
  by (simp add: submit_def Let_def logs_proj showToast_log effect_defs proj_defs
        split: reply.splits)

lemma build_A_frame:
  "submits_at_most sg t st (final (build_and_send_A snap sg t name e st))
   \<and> prefix (log st) (log (final (build_and_send_A snap sg t name e st)))"
  by (simp add: build_and_send_A_def submits_at_most_iff submit_frame
        split: reply.splits option.splits prod.splits)

lemma build_C_frame:
  "submits_at_most sg t st (final (build_and_send_C snap sg t name e st))
   \<and> prefix (log st) (log (final (build_and_send_C snap sg t name e st)))"
  by (simp add: build_and_send_C_def submits_at_most_iff submit_frame
        split: reply.splits option.splits)

lemma send_finish_frame:
  "sent (final (send_finish name r)) = sent (final r)
   \<and> prefix (log (final r)) (log (final (send_finish name r)))
   \<and> (settled (send_finish name r) \<longleftrightarrow> settled r)"
  by (cases r) (simp_all add: send_finish_def showToast_log proj_defs)

lemma send_finish_throws:
  "r = Throws err s \<Longrightarrow>
     last (toasts (final (send_finish name r))) = transaction_error name err"
  by (simp add: send_finish_def transaction_error_def effect_defs proj_defs)


lemma switchChain_AB_no_throw: "switchChain_AB pg cfg snap name es st \<noteq> Throws y s"
  by (simp add: switchChain_AB.simps Let_def split: option.splits outcome.splits)

lemma switchChain_C_no_throw: "switchChain_C cfg snap name e st \<noteq> Throws y s"
  by (simp add: switchChain_C_def Let_def split: option.splits outcome.splits)

lemma submits_at_most_trans:
  "sent s0 = sent st \<Longrightarrow> submits_at_most sg t s0 s \<Longrightarrow> submits_at_most sg t st s"
  by (simp add: submits_at_most_iff)

lemma send_try_props:
  assumes c: "cfg name = Some c" "\<not> on_chain (chainId snap) (sanitizeChainId (cfg_chainId c))"
    and sw: "sent (final (switch st)) = sent st" "prefix (log st @ [x]) (log (final (switch st)))"
    and b: "\<And>s. submits_at_most sg (sanitizeChainId (cfg_chainId c)) s
                    (final (build (sanitizeChainId (cfg_chainId c)) s))
                \<and> prefix (log s) (log (final (build (sanitizeChainId (cfg_chainId c)) s)))"
  shows "prefix (log st @ [x]) (log (final (send_try switch build cfg snap name e st)))
       \<and> submits_at_most sg (sanitizeChainId (cfg_chainId c)) st
           (final (send_try switch build cfg snap name e st))
       \<and> (sent (final (send_try switch build cfg snap name e st)) \<noteq> sent st
            \<longrightarrow> revalidated e (sanitizeChainId (cfg_chainId c)))"
proof -
  let ?t = "sanitizeChainId (cfg_chainId c)"
  show ?thesis
  proof (cases "switch st")
    case (Returns u s0)
    with sw have s0: "sent s0 = sent st" "prefix (log st @ [x]) (log s0)" by simp_all
    note rf = revalidate_frame [of snap ?t e s0]
    show ?thesis
    proof (cases "revalidate_chain snap ?t e s0")
      case r2: (Returns v s1)
      with rf s0 have s1: "sent s1 = sent st" "prefix (log st @ [x]) (log s1)"
        by (auto intro: prefix_order.trans)
      from revalidate_returns [OF r2] have rv: "revalidated e ?t" .
      from b [of s1] s1 have "submits_at_most sg ?t st (final (build ?t s1))"
        "prefix (log st @ [x]) (log (final (build ?t s1)))"
        by (auto simp add: submits_at_most_iff intro: prefix_order.trans)
      with rv c Returns r2 show ?thesis by (simp add: send_try_def Let_def)
    next
      case (Throws y s1)
      with rf s0 have "sent s1 = sent st" "prefix (log st @ [x]) (log s1)"
        by (auto intro: prefix_order.trans)
      with c Returns Throws show ?thesis
        by (simp add: send_try_def Let_def submits_at_most_iff)
    next
      case (Pending s1)
      with rf s0 have "sent s1 = sent st" "prefix (log st @ [x]) (log s1)"
        by (auto intro: prefix_order.trans)
      with c Returns Pending show ?thesis
        by (simp add: send_try_def Let_def submits_at_most_iff)
    qed
  next
    case (Throws y s0)
    with sw c show ?thesis by (simp add: send_try_def Let_def submits_at_most_iff)
  next
    case (Pending s0)
    with sw c show ?thesis by (simp add: send_try_def Let_def submits_at_most_iff)
  qed
qed

lemma send_try_mismatch:
  assumes c: "cfg name = Some c" "\<not> on_chain (chainId snap) (sanitizeChainId (cfg_chainId c))"
    and sw: "switch st = Returns u s0"
    and m: "provider snap = Some p" "s_init_network e = Resolves m" "s_signer e = Resolves g"
      "s_network e = Resolves n" "\<not> strict_eq (sanitizeChainId n) (sanitizeChainId (cfg_chainId c))"
  shows "\<exists>s. send_try switch build cfg snap name e st
           = Throws (chain_switch_failed (sanitizeChainId (cfg_chainId c)) (sanitizeChainId n)) s"
proof -
  from revalidate_mismatch [OF m, of s0] obtain s where
    "revalidate_chain snap (sanitizeChainId (cfg_chainId c)) e s0
       = Throws (chain_switch_failed (sanitizeChainId (cfg_chainId c)) (sanitizeChainId n)) s"
    by blast
  with c sw show ?thesis by (simp add: send_try_def Let_def)
qed

lemma sending_same:
  "log (st\<lparr>isSendingTransaction := b\<rparr>) = log st"
  "sent (st\<lparr>isSendingTransaction := b\<rparr>) = sent st"
  by (simp_all add: proj_defs)

lemma send_A_ok:
  assumes "signer snap = Some sg" "cfg name = Some c"
    "\<not> on_chain (chainId snap) (sanitizeChainId (cfg_chainId c))" "active_transport snap = Some a"
  shows "send_ok sg a (sanitizeChainId (cfg_chainId c)) e st (sendTransaction_A cfg snap name es e st)"
proof -
  let ?t = "sanitizeChainId (cfg_chainId c)"
  let ?st = "st\<lparr>isSendingTransaction := True\<rparr>"
  let ?sw = "switchChain_AB PageA cfg snap name es"
  let ?b = "\<lambda>targetChainId. build_and_send_A snap sg targetChainId name e"
  let ?r = "send_try ?sw ?b cfg snap name e ?st"
  have 1: "sent (final (?sw ?st)) = sent ?st" by (simp add: switch_AB_ext(1))
  have 2: "prefix (log ?st @ [switch_request a ?t]) (log (final (?sw ?st)))"
    using switchChain_AB_first [of cfg name c snap a ?st PageA es] assms by simp
  have 3: "submits_at_most sg ?t s (final (?b ?t s)) \<and> prefix (log s) (log (final (?b ?t s)))" for s
    by (rule build_A_frame)
  note p = send_try_props [where cfg = cfg and name = name and c = c and snap = snap
      and switch = ?sw and build = ?b and st = ?st and x = "switch_request a ?t"
      and sg = sg and e = e, OF assms(2,3) 1 2 3]
  note f = send_finish_frame [of name ?r]
  from p f have "prefix (log st @ [switch_request a ?t]) (log (final (send_finish name ?r)))"
    by (auto simp add: sending_same intro: prefix_order.trans)
  with p f assms(1) show ?thesis
    by (simp add: send_ok_def sendTransaction_A_def sending_same submits_at_most_iff)
qed

lemma send_C_ok:
  assumes "signer snap = Some sg" "cfg name = Some c"
    "\<not> on_chain (chainId snap) (sanitizeChainId (cfg_chainId c))" "active_transport snap = Some a"
  shows "send_ok sg a (sanitizeChainId (cfg_chainId c)) e st (sendTransaction_C cfg snap name sw e st)"
proof -
  let ?t = "sanitizeChainId (cfg_chainId c)"
  let ?st = "st\<lparr>isSendingTransaction := True\<rparr>"
  let ?sw = "switchChain_C cfg snap name sw"
  let ?b = "\<lambda>targetChainId. build_and_send_C snap sg targetChainId name e"
  let ?r = "send_try ?sw ?b cfg snap name e ?st"
  have 1: "sent (final (?sw ?st)) = sent ?st" by (simp add: switchChain_C_sent)
  have 2: "prefix (log ?st @ [switch_request a ?t]) (log (final (?sw ?st)))"
    using switchChain_C_first [of cfg name c snap a ?st sw] assms by simp
  have 3: "submits_at_most sg ?t s (final (?b ?t s)) \<and> prefix (log s) (log (final (?b ?t s)))" for s
    by (rule build_C_frame)
  note p = send_try_props [where cfg = cfg and name = name and c = c and snap = snap
      and switch = ?sw and build = ?b and st = ?st and x = "switch_request a ?t"
      and sg = sg and e = e, OF assms(2,3) 1 2 3]
  note f = send_finish_frame [of name ?r]
  from p f have "prefix (log st @ [switch_request a ?t]) (log (final (send_finish name ?r)))"
    by (auto simp add: sending_same intro: prefix_order.trans)
  with p f assms(1) show ?thesis
    by (simp add: send_ok_def sendTransaction_C_def sending_same submits_at_most_iff)
qed

lemma mismatch_finish:
  assumes "r = Throws err s" "sent (final r) = sent st"
  shows "settled (send_finish name r) \<and> sent (final (send_finish name r)) = sent st
       \<and> last (toasts (final (send_finish name r))) = transaction_error name err"
  using assms send_finish_frame [of name r] send_finish_throws [of r err s name]
  by simp


lemma not_revalidated:
  "s_network e = Resolves n \<Longrightarrow> \<not> strict_eq (sanitizeChainId n) t \<Longrightarrow> \<not> revalidated e t"
  by (simp add: revalidated_def)

lemma active_of_provider: "provider snap = Some p \<Longrightarrow> \<exists>a. active_transport snap = Some a"
  by (simp add: active_transport_def split: option.splits)

lemma settled_cases:
  "settled r \<Longrightarrow> (\<And>y s. r \<noteq> Throws y s) \<Longrightarrow> \<exists>u s. r = Returns u s"
  by (cases r) auto

lemma send_A_mismatch:
  assumes "signer snap = Some sg" "cfg name = Some c"
    "\<not> on_chain (chainId snap) (sanitizeChainId (cfg_chainId c))"
    "settled (switchChain_AB PageA cfg snap name es (st\<lparr>isSendingTransaction := True\<rparr>))"
    "provider snap = Some p" "s_init_network e = Resolves m" "s_signer e = Resolves g"
    "s_network e = Resolves n"
    "\<not> strict_eq (sanitizeChainId n) (sanitizeChainId (cfg_chainId c))"
  shows "mismatch_fails name (sanitizeChainId (cfg_chainId c)) (sanitizeChainId n) st
           (sendTransaction_A cfg snap name es e st)"
proof -
  let ?t = "sanitizeChainId (cfg_chainId c)"
  let ?st = "st\<lparr>isSendingTransaction := True\<rparr>"
  let ?sw = "switchChain_AB PageA cfg snap name es"
  let ?b = "\<lambda>targetChainId. build_and_send_A snap sg targetChainId name e"
  from settled_cases [OF assms(4)] switchChain_AB_no_throw obtain u s0 where
    sw: "?sw ?st = Returns u s0" by blast
  from send_try_mismatch [where cfg = cfg and name = name and c = c and snap = snap
      and switch = ?sw and build = ?b and st = ?st and e = e, OF assms(2,3) sw assms(5-9)]
  obtain s where th: "send_try ?sw ?b cfg snap name e ?st
      = Throws (chain_switch_failed ?t (sanitizeChainId n)) s" by blast
  from active_of_provider [OF assms(5)] obtain a where a: "active_transport snap = Some a" by blast
  from send_A_ok [of snap sg cfg name c a e st es] assms(1-3) a not_revalidated [OF assms(8,9)]
  have "sent (final (sendTransaction_A cfg snap name es e st)) = sent st"
    by (auto simp add: send_ok_def)
  moreover from th assms(1)
  have "settled (sendTransaction_A cfg snap name es e st)"
    "last (toasts (final (sendTransaction_A cfg snap name es e st)))
       = transaction_error name (chain_switch_failed ?t (sanitizeChainId n))"
    by (simp_all add: sendTransaction_A_def send_finish_def transaction_error_def effect_defs
          proj_defs)
  ultimately show ?thesis by (simp add: mismatch_fails_def)
qed

lemma send_C_mismatch:
  assumes "signer snap = Some sg" "cfg name = Some c"
    "\<not> on_chain (chainId snap) (sanitizeChainId (cfg_chainId c))"
    "settled (switchChain_C cfg snap name sw (st\<lparr>isSendingTransaction := True\<rparr>))"
    "provider snap = Some p" "s_init_network e = Resolves m" "s_signer e = Resolves g"
    "s_network e = Resolves n"
    "\<not> strict_eq (sanitizeChainId n) (sanitizeChainId (cfg_chainId c))"
  shows "mismatch_fails name (sanitizeChainId (cfg_chainId c)) (sanitizeChainId n) st
           (sendTransaction_C cfg snap name sw e st)"
proof -
  let ?t = "sanitizeChainId (cfg_chainId c)"
  let ?st = "st\<lparr>isSendingTransaction := True\<rparr>"
  let ?sw = "switchChain_C cfg snap name sw"
  let ?b = "\<lambda>targetChainId. build_and_send_C snap sg targetChainId name e"
  from settled_cases [OF assms(4)] switchChain_C_no_throw obtain u s0 where
    sw: "?sw ?st = Returns u s0" by blast
  from send_try_mismatch [where cfg = cfg and name = name and c = c and snap = snap
      and switch = ?sw and build = ?b and st = ?st and e = e, OF assms(2,3) sw assms(5-9)]
  obtain s where th: "send_try ?sw ?b cfg snap name e ?st
      = Throws (chain_switch_failed ?t (sanitizeChainId n)) s" by blast
  from active_of_provider [OF assms(5)] obtain a where a: "active_transport snap = Some a" by blast
  from send_C_ok [of snap sg cfg name c a e st sw] assms(1-3) a not_revalidated [OF assms(8,9)]
  have "sent (final (sendTransaction_C cfg snap name sw e st)) = sent st"
    by (auto simp add: send_ok_def)
  moreover from th assms(1)
  have "settled (sendTransaction_C cfg snap name sw e st)"
    "last (toasts (final (sendTransaction_C cfg snap name sw e st)))
       = transaction_error name (chain_switch_failed ?t (sanitizeChainId n))"
    by (simp_all add: sendTransaction_C_def send_finish_def transaction_error_def effect_defs
          proj_defs)
  ultimately show ?thesis by (simp add: mismatch_fails_def)
qed

lemma revalidate_passes:
  assumes "reread_ok snap e t"
  shows "\<exists>s. revalidate_chain snap t e st = Returns () s"
proof -
  from assms obtain p m g n where "provider snap = Some p" "s_init_network e = Resolves m"
    "s_signer e = Resolves g" "s_network e = Resolves n" "strict_eq (sanitizeChainId n) t"
    by (auto simp add: reread_ok_def revalidated_def is_resolved_def split: reply.splits)
  then show ?thesis by (simp add: revalidate_chain_def initializeProvider_def Let_def)
qed

lemma send_try_builds:
  assumes "cfg name = Some c" "\<not> on_chain (chainId snap) (sanitizeChainId (cfg_chainId c))"
    "switch st = Returns u s0" "reread_ok snap e (sanitizeChainId (cfg_chainId c))"
  shows "\<exists>s1. send_try switch build cfg snap name e st = build (sanitizeChainId (cfg_chainId c)) s1
           \<and> sent s1 = sent s0"
proof -
  let ?t = "sanitizeChainId (cfg_chainId c)"
  from revalidate_passes [OF assms(4), of s0] obtain s1 where
    r: "revalidate_chain snap ?t e s0 = Returns () s1" by blast
  from revalidate_frame [of snap ?t e s0] r have s: "sent s1 = sent s0" by simp
  from assms(1-3) r
  have "send_try switch build cfg snap name e st = build ?t s1"
    by (simp add: send_try_def Let_def)
  with s show ?thesis by blast
qed

lemma build_C_sends:
  assumes "s_address e = Resolves addr" "browserProvider snap \<noteq> None" "s_nonce e = Resolves k"
  shows "sent (final (build_and_send_C snap sg t name e s))
           = sent s @ [SendTransaction sg
               \<lparr>tx_to = addr, tx_value = 0, tx_nonce = k, tx_data = Some ''0x'',
                tx_gasLimit = None, tx_chainId = t, tx_maxFeePerGas = None,
                tx_maxPriorityFeePerGas = None, tx_type = None\<rparr>]"
  using assms by (auto simp add: build_and_send_C_def submit_frame)

lemma build_A_sends:
  assumes "s_address e = Resolves addr" "browserProvider snap \<noteq> None" "s_nonce e = Resolves k"
    "s_gas e = Resolves g" "s_fee e = Resolves (mf, mp)"
  shows "sent (final (build_and_send_A snap sg t name e s))
           = sent s @ [SendTransaction sg
               \<lparr>tx_to = addr, tx_value = 0, tx_nonce = k, tx_data = None,
                tx_gasLimit = Some (int ((g * 120) div 100)), tx_chainId = t,
                tx_maxFeePerGas = mf, tx_maxPriorityFeePerGas = mp, tx_type = Some 2\<rparr>]"
  using assms by (auto simp add: build_and_send_A_def submit_frame)

lemma build_nonce_rejected:
  assumes "s_address e = Resolves addr" "browserProvider snap \<noteq> None" "s_nonce e = Rejects x"
  shows "build_and_send_C snap sg t name e s = Throws x s"
    "build_and_send_A snap sg t name e s = Throws x s"
  using assms by (auto simp add: build_and_send_C_def build_and_send_A_def)

lemma send_C_builds:
  assumes "signer snap = Some sg" "cfg name = Some c"
    "\<not> on_chain (chainId snap) (sanitizeChainId (cfg_chainId c))"
    "settled (switchChain_C cfg snap name sw (st\<lparr>isSendingTransaction := True\<rparr>))"
    "reread_ok snap e (sanitizeChainId (cfg_chainId c))"
    "s_address e = Resolves addr" "browserProvider snap \<noteq> None"
  shows "s_nonce e = Resolves k \<Longrightarrow>
           sent (final (sendTransaction_C cfg snap name sw e st))
             = sent st @ [SendTransaction sg
                 \<lparr>tx_to = addr, tx_value = 0, tx_nonce = k, tx_data = Some ''0x'',
                  tx_gasLimit = None, tx_chainId = sanitizeChainId (cfg_chainId c),
                  tx_maxFeePerGas = None, tx_maxPriorityFeePerGas = None, tx_type = None\<rparr>]"
    and "s_nonce e = Rejects x \<Longrightarrow> fails_with name x st (sendTransaction_C cfg snap name sw e st)"
proof -
  let ?t = "sanitizeChainId (cfg_chainId c)"
  let ?st = "st\<lparr>isSendingTransaction := True\<rparr>"
  let ?sw = "switchChain_C cfg snap name sw"
  let ?b = "\<lambda>targetChainId. build_and_send_C snap sg targetChainId name e"
  from settled_cases [OF assms(4)] switchChain_C_no_throw obtain u s0 where
    sw: "?sw ?st = Returns u s0" by blast
  from switchChain_C_sent [of cfg snap name sw ?st] sw have s0: "sent s0 = sent st"
    by (simp add: sending_same)
  from send_try_builds [where switch = ?sw and build = ?b and name = name and cfg = cfg
      and c = c and snap = snap and st = ?st and e = e and u = u and ?s0.0 = s0,
      OF assms(2,3) sw assms(5)]
  obtain s1 where b: "send_try ?sw ?b cfg snap name e ?st = ?b ?t s1" "sent s1 = sent s0"
    by blast
  show "sent (final (sendTransaction_C cfg snap name sw e st))
             = sent st @ [SendTransaction sg
                 \<lparr>tx_to = addr, tx_value = 0, tx_nonce = k, tx_data = Some ''0x'',
                  tx_gasLimit = None, tx_chainId = sanitizeChainId (cfg_chainId c),
                  tx_maxFeePerGas = None, tx_maxPriorityFeePerGas = None, tx_type = None\<rparr>]"
    if k: "s_nonce e = Resolves k"
    using build_C_sends [OF assms(6,7) k, of sg ?t name s1] b s0 assms(1)
      send_finish_frame [of name "?b ?t s1"]
    by (simp add: sendTransaction_C_def)
  show "fails_with name x st (sendTransaction_C cfg snap name sw e st)" if x: "s_nonce e = Rejects x"
  proof -
    from build_nonce_rejected(1) [OF assms(6,7) x, of sg ?t name s1] b
    have r: "send_try ?sw ?b cfg snap name e ?st = Throws x s1" by simp
    from r b(2) s0 have f: "sent (final (send_try ?sw ?b cfg snap name e ?st)) = sent st"
      by simp
    from mismatch_finish [OF r f, of name] assms(1) show ?thesis
      by (simp add: fails_with_def sendTransaction_C_def)
  qed
qed

lemma send_A_builds:
  assumes "signer snap = Some sg" "cfg name = Some c"
    "\<not> on_chain (chainId snap) (sanitizeChainId (cfg_chainId c))"
    "settled (switchChain_AB PageA cfg snap name es (st\<lparr>isSendingTransaction := True\<rparr>))"
    "reread_ok snap e (sanitizeChainId (cfg_chainId c))"
    "s_address e = Resolves addr" "browserProvider snap \<noteq> None"
  shows "s_nonce e = Resolves k \<Longrightarrow> s_gas e = Resolves g \<Longrightarrow> s_fee e = Resolves (mf, mp) \<Longrightarrow>
           sent (final (sendTransaction_A cfg snap name es e st))
             = sent st @ [SendTransaction sg
                 \<lparr>tx_to = addr, tx_value = 0, tx_nonce = k, tx_data = None,
                  tx_gasLimit = Some (int ((g * 120) div 100)),
                  tx_chainId = sanitizeChainId (cfg_chainId c),
                  tx_maxFeePerGas = mf, tx_maxPriorityFeePerGas = mp, tx_type = Some 2\<rparr>]"
    and "s_nonce e = Rejects x \<Longrightarrow> fails_with name x st (sendTransaction_A cfg snap name es e st)"
proof -
  let ?t = "sanitizeChainId (cfg_chainId c)"
  let ?st = "st\<lparr>isSendingTransaction := True\<rparr>"
  let ?sw = "switchChain_AB PageA cfg snap name es"
  let ?b = "\<lambda>targetChainId. build_and_send_A snap sg targetChainId name e"
  from settled_cases [OF assms(4)] switchChain_AB_no_throw obtain u s0 where
    sw: "?sw ?st = Returns u s0" by blast
  from switch_AB_ext(1) [of PageA cfg snap name es ?st] sw have s0: "sent s0 = sent st"
    by (simp add: sending_same)
  from send_try_builds [where switch = ?sw and build = ?b and name = name and cfg = cfg
      and c = c and snap = snap and st = ?st and e = e and u = u and ?s0.0 = s0,
      OF assms(2,3) sw assms(5)]
  obtain s1 where b: "send_try ?sw ?b cfg snap name e ?st = ?b ?t s1" "sent s1 = sent s0"
    by blast
  show "sent (final (sendTransaction_A cfg snap name es e st))
             = sent st @ [SendTransaction sg
                 \<lparr>tx_to = addr, tx_value = 0, tx_nonce = k, tx_data = None,
                  tx_gasLimit = Some (int ((g * 120) div 100)),
                  tx_chainId = sanitizeChainId (cfg_chainId c),
                  tx_maxFeePerGas = mf, tx_maxPriorityFeePerGas = mp, tx_type = Some 2\<rparr>]"
    if k: "s_nonce e = Resolves k" "s_gas e = Resolves g" "s_fee e = Resolves (mf, mp)"
    using build_A_sends [OF assms(6,7) k, of sg ?t name s1] b s0 assms(1)
      send_finish_frame [of name "?b ?t s1"]
    by (simp add: sendTransaction_A_def)
  show "fails_with name x st (sendTransaction_A cfg snap name es e st)" if x: "s_nonce e = Rejects x"
  proof -
    from build_nonce_rejected(2) [OF assms(6,7) x, of sg ?t name s1] b
    have r: "send_try ?sw ?b cfg snap name e ?st = Throws x s1" by simp
    from r b(2) s0 have f: "sent (final (send_try ?sw ?b cfg snap name e ?st)) = sent st"
      by simp
    from mismatch_finish [OF r f, of name] assms(1) show ?thesis
      by (simp add: fails_with_def sendTransaction_A_def)
  qed
qed

text \<open>
  Claim C5, as the code has it. Let \<^verbatim>\<open>sendTransaction\<close> be called with a signer, a
  configured chain whose id differs from the \<^verbatim>\<open>chainId\<close> of the Session, and a transport. On
  page A and on page C the first thing the call does is the switch request for the
  target; it submits at most one transaction, whose \<^verbatim>\<open>chainId\<close> is the target, and only when
  the network read after the switch answered the target. Once \<^verbatim>\<open>switchChain\<close> has settled:
  when that network read answers another chain, the call settles with the chain-switch
  failure and submits nothing; when the checks pass and the account and the nonce (on page
  A also the gas estimate and the fee data) are answered, the call submits exactly one
  transaction, the one written out below, with the target as \<^verbatim>\<open>chainId\<close>; when the checks
  pass and the nonce query is rejected, the call settles with that error, which is not
  the chain-switch failure, and submits nothing.
\<close>

theorem send_switches_first:
  assumes "signer snap = Some sg" "cfg name = Some c"
    "\<not> on_chain (chainId snap) (sanitizeChainId (cfg_chainId c))"
    "active_transport snap = Some a"
  shows
   "send_ok sg a (sanitizeChainId (cfg_chainId c)) e st (sendTransaction_A cfg snap name es e st)
    \<and> send_ok sg a (sanitizeChainId (cfg_chainId c)) e st (sendTransaction_C cfg snap name sw e st)
    \<and> (provider snap \<noteq> None \<and> is_resolved (s_init_network e) \<and> is_resolved (s_signer e)
         \<and> s_network e = Resolves n
         \<and> \<not> strict_eq (sanitizeChainId n) (sanitizeChainId (cfg_chainId c)) \<longrightarrow>
        (settled (switchChain_AB PageA cfg snap name es (st\<lparr>isSendingTransaction := True\<rparr>)) \<longrightarrow>
           mismatch_fails name (sanitizeChainId (cfg_chainId c)) (sanitizeChainId n) st
             (sendTransaction_A cfg snap name es e st))
        \<and> (settled (switchChain_C cfg snap name sw (st\<lparr>isSendingTransaction := True\<rparr>)) \<longrightarrow>
           mismatch_fails name (sanitizeChainId (cfg_chainId c)) (sanitizeChainId n) st
             (sendTransaction_C cfg snap name sw e st)))
    \<and> (reread_ok snap e (sanitizeChainId (cfg_chainId c)) \<and> s_address e = Resolves addr
         \<and> browserProvider snap \<noteq> None \<and> s_nonce e = Resolves k \<longrightarrow>
        (settled (switchChain_AB PageA cfg snap name es (st\<lparr>isSendingTransaction := True\<rparr>))
           \<and> s_gas e = Resolves g \<and> s_fee e = Resolves (mf, mp) \<longrightarrow>
           sent (final (sendTransaction_A cfg snap name es e st))
             = sent st @ [SendTransaction sg
                 \<lparr>tx_to = addr, tx_value = 0, tx_nonce = k, tx_data = None,
                  tx_gasLimit = Some (int ((g * 120) div 100)),
                  tx_chainId = sanitizeChainId (cfg_chainId c),
                  tx_maxFeePerGas = mf, tx_maxPriorityFeePerGas = mp, tx_type = Some 2\<rparr>])
        \<and> (settled (switchChain_C cfg snap name sw (st\<lparr>isSendingTransaction := True\<rparr>)) \<longrightarrow>
           sent (final (sendTransaction_C cfg snap name sw e st))
             = sent st @ [SendTransaction sg
                 \<lparr>tx_to = addr, tx_value = 0, tx_nonce = k, tx_data = Some ''0x'',
                  tx_gasLimit = None, tx_chainId = sanitizeChainId (cfg_chainId c),
                  tx_maxFeePerGas = None, tx_maxPriorityFeePerGas = None, tx_type = None\<rparr>]))
    \<and> (reread_ok snap e (sanitizeChainId (cfg_chainId c)) \<and> s_address e = Resolves addr
         \<and> browserProvider snap \<noteq> None \<and> s_nonce e = Rejects x \<longrightarrow>
        (settled (switchChain_AB PageA cfg snap name es (st\<lparr>isSendingTransaction := True\<rparr>)) \<longrightarrow>
           fails_with name x st (sendTransaction_A cfg snap name es e st))
        \<and> (settled (switchChain_C cfg snap name sw (st\<lparr>isSendingTransaction := True\<rparr>)) \<longrightarrow>
           fails_with name x st (sendTransaction_C cfg snap name sw e st)))"
proof -
  have m: "mismatch_fails name (sanitizeChainId (cfg_chainId c)) (sanitizeChainId n) st
             (sendTransaction_A cfg snap name es e st)"
    if "provider snap \<noteq> None" "is_resolved (s_init_network e)" "is_resolved (s_signer e)"
      "s_network e = Resolves n"
      "\<not> strict_eq (sanitizeChainId n) (sanitizeChainId (cfg_chainId c))"
      "settled (switchChain_AB PageA cfg snap name es (st\<lparr>isSendingTransaction := True\<rparr>))"
  proof -
    from that(1) obtain p where p: "provider snap = Some p" by blast
    from that(2) obtain m where i: "s_init_network e = Resolves m"
      by (cases "s_init_network e") (simp_all add: is_resolved_def)
    from that(3) obtain g where g: "s_signer e = Resolves g"
      by (cases "s_signer e") (simp_all add: is_resolved_def)
    from send_A_mismatch [of snap sg cfg name c es st p e m g n] assms(1-3) that(4-6) p i g
    show ?thesis by blast
  qed
  have m': "mismatch_fails name (sanitizeChainId (cfg_chainId c)) (sanitizeChainId n) st
             (sendTransaction_C cfg snap name sw e st)"
    if "provider snap \<noteq> None" "is_resolved (s_init_network e)" "is_resolved (s_signer e)"
      "s_network e = Resolves n"
      "\<not> strict_eq (sanitizeChainId n) (sanitizeChainId (cfg_chainId c))"
      "settled (switchChain_C cfg snap name sw (st\<lparr>isSendingTransaction := True\<rparr>))"
  proof -
    from that(1) obtain p where p: "provider snap = Some p" by blast
    from that(2) obtain m where i: "s_init_network e = Resolves m"
      by (cases "s_init_network e") (simp_all add: is_resolved_def)
    from that(3) obtain g where g: "s_signer e = Resolves g"
      by (cases "s_signer e") (simp_all add: is_resolved_def)
    from send_C_mismatch [of snap sg cfg name c sw st p e m g n] assms(1-3) that(4-6) p i g
    show ?thesis by blast
  qed
  note ok = send_A_ok [of snap sg cfg name c a e st es, OF assms]
    send_C_ok [of snap sg cfg name c a e st sw, OF assms]
  have bA: "sent (final (sendTransaction_A cfg snap name es e st))
             = sent st @ [SendTransaction sg
                 \<lparr>tx_to = addr, tx_value = 0, tx_nonce = k, tx_data = None,
                  tx_gasLimit = Some (int ((g * 120) div 100)),
                  tx_chainId = sanitizeChainId (cfg_chainId c),
                  tx_maxFeePerGas = mf, tx_maxPriorityFeePerGas = mp, tx_type = Some 2\<rparr>]"
    if "reread_ok snap e (sanitizeChainId (cfg_chainId c))" "s_address e = Resolves addr"
      "browserProvider snap \<noteq> None" "s_nonce e = Resolves k"
      "settled (switchChain_AB PageA cfg snap name es (st\<lparr>isSendingTransaction := True\<rparr>))"
      "s_gas e = Resolves g" "s_fee e = Resolves (mf, mp)"
    using send_A_builds(1) [OF assms(1-3) that(5,1,2,3,4,6,7)] .
  have bC: "sent (final (sendTransaction_C cfg snap name sw e st))
             = sent st @ [SendTransaction sg
                 \<lparr>tx_to = addr, tx_value = 0, tx_nonce = k, tx_data = Some ''0x'',
                  tx_gasLimit = None, tx_chainId = sanitizeChainId (cfg_chainId c),
                  tx_maxFeePerGas = None, tx_maxPriorityFeePerGas = None, tx_type = None\<rparr>]"
    if "reread_ok snap e (sanitizeChainId (cfg_chainId c))" "s_address e = Resolves addr"
      "browserProvider snap \<noteq> None" "s_nonce e = Resolves k"
      "settled (switchChain_C cfg snap name sw (st\<lparr>isSendingTransaction := True\<rparr>))"
    using send_C_builds(1) [OF assms(1-3) that(5,1,2,3,4)] .
  have fA: "fails_with name x st (sendTransaction_A cfg snap name es e st)"
    if "reread_ok snap e (sanitizeChainId (cfg_chainId c))" "s_address e = Resolves addr"
      "browserProvider snap \<noteq> None" "s_nonce e = Rejects x"
      "settled (switchChain_AB PageA cfg snap name es (st\<lparr>isSendingTransaction := True\<rparr>))"
    using send_A_builds(2) [OF assms(1-3) that(5,1,2,3,4)] .
  have fC: "fails_with name x st (sendTransaction_C cfg snap name sw e st)"
    if "reread_ok snap e (sanitizeChainId (cfg_chainId c))" "s_address e = Resolves addr"
      "browserProvider snap \<noteq> None" "s_nonce e = Rejects x"
      "settled (switchChain_C cfg snap name sw (st\<lparr>isSendingTransaction := True\<rparr>))"
    using send_C_builds(2) [OF assms(1-3) that(5,1,2,3,4)] .
  have 3: "provider snap \<noteq> None \<and> is_resolved (s_init_network e) \<and> is_resolved (s_signer e)
         \<and> s_network e = Resolves n
         \<and> \<not> strict_eq (sanitizeChainId n) (sanitizeChainId (cfg_chainId c)) \<longrightarrow>
        (settled (switchChain_AB PageA cfg snap name es (st\<lparr>isSendingTransaction := True\<rparr>)) \<longrightarrow>
           mismatch_fails name (sanitizeChainId (cfg_chainId c)) (sanitizeChainId n) st
             (sendTransaction_A cfg snap name es e st))
        \<and> (settled (switchChain_C cfg snap name sw (st\<lparr>isSendingTransaction := True\<rparr>)) \<longrightarrow>
           mismatch_fails name (sanitizeChainId (cfg_chainId c)) (sanitizeChainId n) st
             (sendTransaction_C cfg snap name sw e st))"
    using m m' by blast
  have 4: "reread_ok snap e (sanitizeChainId (cfg_chainId c)) \<and> s_address e = Resolves addr
         \<and> browserProvider snap \<noteq> None \<and> s_nonce e = Resolves k \<longrightarrow>
        (settled (switchChain_AB PageA cfg snap name es (st\<lparr>isSendingTransaction := True\<rparr>))
           \<and> s_gas e = Resolves g \<and> s_fee e = Resolves (mf, mp) \<longrightarrow>
           sent (final (sendTransaction_A cfg snap name es e st))
             = sent st @ [SendTransaction sg
                 \<lparr>tx_to = addr, tx_value = 0, tx_nonce = k, tx_data = None,
                  tx_gasLimit = Some (int ((g * 120) div 100)),
                  tx_chainId = sanitizeChainId (cfg_chainId c),
                  tx_maxFeePerGas = mf, tx_maxPriorityFeePerGas = mp, tx_type = Some 2\<rparr>])
        \<and> (settled (switchChain_C cfg snap name sw (st\<lparr>isSendingTransaction := True\<rparr>)) \<longrightarrow>
           sent (final (sendTransaction_C cfg snap name sw e st))
             = sent st @ [SendTransaction sg
                 \<lparr>tx_to = addr, tx_value = 0, tx_nonce = k, tx_data = Some ''0x'',
                  tx_gasLimit = None, tx_chainId = sanitizeChainId (cfg_chainId c),
                  tx_maxFeePerGas = None, tx_maxPriorityFeePerGas = None, tx_type = None\<rparr>])"
    using bA bC by blast
  have 5: "reread_ok snap e (sanitizeChainId (cfg_chainId c)) \<and> s_address e = Resolves addr
         \<and> browserProvider snap \<noteq> None \<and> s_nonce e = Rejects x \<longrightarrow>
        (settled (switchChain_AB PageA cfg snap name es (st\<lparr>isSendingTransaction := True\<rparr>)) \<longrightarrow>
           fails_with name x st (sendTransaction_A cfg snap name es e st))
        \<and> (settled (switchChain_C cfg snap name sw (st\<lparr>isSendingTransaction := True\<rparr>)) \<longrightarrow>
           fails_with name x st (sendTransaction_C cfg snap name sw e st))"
    using fA fC by blast
  from ok 3 4 5 show ?thesis by (intro conjI)
qed

lemmas send_defs = sendTransaction_A_def sendTransaction_C_def send_try_def send_finish_def
  revalidate_chain_def build_and_send_A_def build_and_send_C_def submit_def
  chain_switch_failed_def sending_def still_on_1_def nonce_rejected_def

lemma polygon_target: "sanitizeChainId (cfg_chainId polygon) = Num 137"
  by (simp add: polygon_def sanitize_0x89)

theorem send_switches_first_witness:
  "signer connected_A = Some (Signer 1) \<and> chains ''polygon'' = Some polygon
   \<and> \<not> on_chain (chainId connected_A) (sanitizeChainId (cfg_chainId polygon))
   \<and> active_transport connected_A = Some injected
   \<and> provider connected_A \<noteq> None
   \<and> is_resolved (s_init_network still_on_1) \<and> is_resolved (s_signer still_on_1)
   \<and> s_network still_on_1 = Resolves (JBigInt 1)
   \<and> \<not> strict_eq (sanitizeChainId (JBigInt 1)) (sanitizeChainId (cfg_chainId polygon))
   \<and> settled (switchChain_AB PageA chains connected_A ''polygon'' [switching]
        (connected_A\<lparr>isSendingTransaction := True\<rparr>))
   \<and> settled (switchChain_C chains connected_A ''polygon'' switching
        (connected_A\<lparr>isSendingTransaction := True\<rparr>))
   \<and> reread_ok connected_A sending (Num 137) \<and> reread_ok connected_A nonce_rejected (Num 137)
   \<and> browserProvider connected_A \<noteq> None
   \<and> s_nonce nonce_rejected = Rejects rejected
   \<and> send_ok (Signer 1) injected (Num 137) sending connected_A
        (sendTransaction_A chains connected_A ''polygon'' [switching] sending connected_A)
   \<and> send_ok (Signer 1) injected (Num 137) sending connected_A
        (sendTransaction_C chains connected_A ''polygon'' switching sending connected_A)
   \<and> mismatch_fails ''polygon'' (Num 137) (Num 1) connected_A
        (sendTransaction_A chains connected_A ''polygon'' [switching] still_on_1 connected_A)
   \<and> mismatch_fails ''polygon'' (Num 137) (Num 1) connected_A
        (sendTransaction_C chains connected_A ''polygon'' switching still_on_1 connected_A)
   \<and> sent (final (sendTransaction_A chains connected_A ''polygon'' [switching] sending connected_A))
       = sent connected_A @ [SendTransaction (Signer 1)
           \<lparr>tx_to = ''0x52908400098527886E0F7030069857D2E4169EE7'', tx_value = 0, tx_nonce = 7,
            tx_data = None, tx_gasLimit = Some 25200, tx_chainId = Num 137,
            tx_maxFeePerGas = Some 30, tx_maxPriorityFeePerGas = Some 2, tx_type = Some 2\<rparr>]
   \<and> sent (final (sendTransaction_C chains connected_A ''polygon'' switching sending connected_A))
       = sent connected_A @ [SendTransaction (Signer 1)
           \<lparr>tx_to = ''0x52908400098527886E0F7030069857D2E4169EE7'', tx_value = 0, tx_nonce = 7,
            tx_data = Some ''0x'', tx_gasLimit = None, tx_chainId = Num 137,
            tx_maxFeePerGas = None, tx_maxPriorityFeePerGas = None, tx_type = None\<rparr>]
   \<and> fails_with ''polygon'' rejected connected_A
        (sendTransaction_A chains connected_A ''polygon'' [switching] nonce_rejected connected_A)
   \<and> fails_with ''polygon'' rejected connected_A
        (sendTransaction_C chains connected_A ''polygon'' switching nonce_rejected connected_A)"
proof -
  note t = polygon_target
  have h1: "signer connected_A = Some (Signer 1)" by (simp add: connected_A_value)
  have h2: "chains ''polygon'' = Some polygon" by (simp add: chains_def)
  have h3: "\<not> on_chain (chainId connected_A) (sanitizeChainId (cfg_chainId polygon))"
    by (simp add: t connected_A_value on_chain_def strict_eq_def)
  have h4: "active_transport connected_A = Some injected"
    by (simp add: connected_A_value sample_defs active_transport_def)
  note j = sanitize_1
  have m: "provider connected_A \<noteq> None" "is_resolved (s_init_network still_on_1)"
    "is_resolved (s_signer still_on_1)" "s_network still_on_1 = Resolves (JBigInt 1)"
    "\<not> strict_eq (sanitizeChainId (JBigInt 1)) (sanitizeChainId (cfg_chainId polygon))"
    by (simp_all add: t j connected_A_value still_on_1_def sending_def is_resolved_def
          strict_eq_def)
  have s: "settled (switchChain_AB PageA chains connected_A ''polygon'' [switching]
        (connected_A\<lparr>isSendingTransaction := True\<rparr>))"
    "settled (switchChain_C chains connected_A ''polygon'' switching
        (connected_A\<lparr>isSendingTransaction := True\<rparr>))"
    by (simp_all add: switchChain_AB.simps t j connected_A_value sample_defs switch_env_defs
          switch_AB_defs switch_C_defs effect_defs Let_def)
  have r: "reread_ok connected_A sending (Num 137)" "reread_ok connected_A nonce_rejected (Num 137)"
    "browserProvider connected_A \<noteq> None"
    by (simp_all add: reread_ok_def revalidated_def sending_def nonce_rejected_def j
          is_resolved_def strict_eq_def connected_A_value)
  have q: "s_address sending = Resolves ''0x52908400098527886E0F7030069857D2E4169EE7''"
    "s_nonce sending = Resolves 7" "s_gas sending = Resolves 21000"
    "s_fee sending = Resolves (Some 30, Some 2)"
    "s_address nonce_rejected = Resolves ''0x52908400098527886E0F7030069857D2E4169EE7''"
    "s_nonce nonce_rejected = Rejects rejected"
    by (simp_all add: sending_def nonce_rejected_def)
  note a = send_switches_first [where snap = connected_A and sg = "Signer 1" and cfg = chains
      and name = "''polygon''" and c = polygon and a = injected and e = sending
      and st = connected_A and es = "[switching]" and sw = switching
      and addr = "''0x52908400098527886E0F7030069857D2E4169EE7''" and k = 7 and g = 21000
      and mf = "Some 30" and mp = "Some 2", OF h1 h2 h3 h4, unfolded t]
  note b = send_switches_first [where snap = connected_A and sg = "Signer 1" and cfg = chains
      and name = "''polygon''" and c = polygon and a = injected and e = still_on_1
      and st = connected_A and es = "[switching]" and sw = switching and n = "JBigInt 1",
      OF h1 h2 h3 h4, unfolded t]
  note c = send_switches_first [where snap = connected_A and sg = "Signer 1" and cfg = chains
      and name = "''polygon''" and c = polygon and a = injected and e = nonce_rejected
      and st = connected_A and es = "[switching]" and sw = switching
      and addr = "''0x52908400098527886E0F7030069857D2E4169EE7''" and x = rejected,
      OF h1 h2 h3 h4, unfolded t]
  note 1 = a [THEN conjunct1] a [THEN conjunct2, THEN conjunct1]
  from b [THEN conjunct2, THEN conjunct2, THEN conjunct1] m s t j have 2:
    "mismatch_fails ''polygon'' (Num 137) (Num 1) connected_A
        (sendTransaction_A chains connected_A ''polygon'' [switching] still_on_1 connected_A)"
    "mismatch_fails ''polygon'' (Num 137) (Num 1) connected_A
        (sendTransaction_C chains connected_A ''polygon'' switching still_on_1 connected_A)"
    by simp_all
  from a [THEN conjunct2, THEN conjunct2, THEN conjunct2, THEN conjunct1] r q s have 3:
    "sent (final (sendTransaction_A chains connected_A ''polygon'' [switching] sending connected_A))
       = sent connected_A @ [SendTransaction (Signer 1)
           \<lparr>tx_to = ''0x52908400098527886E0F7030069857D2E4169EE7'', tx_value = 0, tx_nonce = 7,
            tx_data = None, tx_gasLimit = Some 25200, tx_chainId = Num 137,
            tx_maxFeePerGas = Some 30, tx_maxPriorityFeePerGas = Some 2, tx_type = Some 2\<rparr>]"
    "sent (final (sendTransaction_C chains connected_A ''polygon'' switching sending connected_A))
       = sent connected_A @ [SendTransaction (Signer 1)
           \<lparr>tx_to = ''0x52908400098527886E0F7030069857D2E4169EE7'', tx_value = 0, tx_nonce = 7,
            tx_data = Some ''0x'', tx_gasLimit = None, tx_chainId = Num 137,
            tx_maxFeePerGas = None, tx_maxPriorityFeePerGas = None, tx_type = None\<rparr>]"
    by simp_all
  from c [THEN conjunct2, THEN conjunct2, THEN conjunct2, THEN conjunct2] r q s have 4:
    "fails_with ''polygon'' rejected connected_A
        (sendTransaction_A chains connected_A ''polygon'' [switching] nonce_rejected connected_A)"
    "fails_with ''polygon'' rejected connected_A
        (sendTransaction_C chains connected_A ''polygon'' switching nonce_rejected connected_A)"
    by simp_all
  from h1 h2 h3 h4 m s r q(6) 1 2 3 4 show ?thesis by (intro conjI)
qed

text \<open>
  Claim C5 as it is written fails on its either/or. On page C, with \<open>metamask\<close> connected
  on chain 1, a test transaction on \<open>polygon\<close> switches the chain, reads chain 137 back, and
  then has its nonce query rejected: the call settles with no transaction built or
  submitted, and the error it reports is the rejection of the wallet, not the
  chain-switch failure. The same holds on page A.
\<close>

theorem send_fails_without_chain_switch_failure:
  "settled (sendTransaction_C chains connected ''polygon'' switching nonce_rejected connected)
   \<and> sent (final (sendTransaction_C chains connected ''polygon'' switching nonce_rejected
        connected)) = []
   \<and> chainId (final (sendTransaction_C chains connected ''polygon'' switching nonce_rejected
        connected)) = Some (Num 137)
   \<and> toasts (final (sendTransaction_C chains connected ''polygon'' switching nonce_rejected
        connected))
       = toasts connected
           @ [Toast TSuccess ''Network Switched'' ''Switched to Polygon Mainnet'',
              Toast TError ''Transaction Error''
                ''Failed to send transaction on polygon: User rejected the request.'']
   \<and> settled (sendTransaction_A chains connected_A ''polygon'' [switching] nonce_rejected
        connected_A)
   \<and> sent (final (sendTransaction_A chains connected_A ''polygon'' [switching] nonce_rejected
        connected_A)) = []
   \<and> toasts (final (sendTransaction_A chains connected_A ''polygon'' [switching] nonce_rejected
        connected_A))
       = toasts connected_A
           @ [Toast TSuccess ''Network Switched'' ''Switched to Polygon Mainnet'',
              Toast TError ''Transaction Error''
                ''Failed to send transaction on polygon: User rejected the request.'']"
  by (simp add: send_defs switchChain_AB.simps connected_value connected_A_value
        polygon_target sanitize_1 chains_def rejected_def injected_def initial_state_def
        switch_env_defs switch_AB_defs switch_C_defs effect_defs proj_defs Let_def)
     (simp add: polygon_def)


end
